(* ===== verification/Prelude.thy ===== *)
theory Prelude
  imports Main "HOL-Library.Word" "HOL-Library.Multiset"
begin

text \<open>
  Shared vocabulary of the development: the types that name the program's data
  (IPv6 addresses, UDP ports, C strings), the rule collections the component
  theories fill, and generic lemmas on lists and strings that the proofs about
  C string handling share.
\<close>

section \<open>Types of the model\<close>

text \<open>\<open>otIp6Address\<close> is a 16-byte union; it is read here as one 128-bit word.\<close>

type_synonym ip6_addr = "128 word"

text \<open>\<open>mPeerPort\<close> and \<open>mPort\<close> are \<open>uint16_t\<close>.\<close>

type_synonym port = "16 word"

text \<open>
  A NUL-terminated C string is modelled by its contents, the characters before
  the terminator; a received datagram is a list of bytes that may hold a NUL.
\<close>

type_synonym cstring = string

section \<open>Rule collections\<close>

named_theorems cstr_simps \<open>evaluation rules for the C string model\<close>
named_theorems table_simps \<open>evaluation rules for the node table\<close>

section \<open>Generic lemmas on lists\<close>

section \<open>First index of a bounded scan\<close>

text \<open>
  Both table loops of the program have the shape
  \<open>for (i = 0; i < N; i++) if (P(i)) return i; return NULL;\<close>.
  \<open>scan_first P n i\<close> is that loop started at \<open>i\<close>; its two
  characterisations below are what the component proofs use.
\<close>

function scan_first :: "(nat \<Rightarrow> bool) \<Rightarrow> nat \<Rightarrow> nat \<Rightarrow> nat option" where
  "scan_first P n i = (if i < n then (if P i then Some i else scan_first P n (Suc i)) else None)"
  by pat_completeness auto
termination
  by (relation "measure (\<lambda>(P, n, i). n - i)") auto

declare scan_first.simps [simp del]

lemma scan_first_Some_iff:
  "scan_first P n i = Some j \<longleftrightarrow> i \<le> j \<and> j < n \<and> P j \<and> (\<forall>l. i \<le> l \<and> l < j \<longrightarrow> \<not> P l)"
proof (induction P n i rule: scan_first.induct)
  case (1 P n i)
  show ?case
  proof (cases "i < n")
    case True
    show ?thesis
    proof (cases "P i")
      case True
      with \<open>i < n\<close> show ?thesis
        by (auto simp: scan_first.simps [of P n i])
    next
      case False
      have "(\<forall>l. Suc i \<le> l \<and> l < j \<longrightarrow> \<not> P l) \<longleftrightarrow> (\<forall>l. i \<le> l \<and> l < j \<longrightarrow> \<not> P l)"
        using False by (metis Suc_leI le_eq_less_or_eq Suc_leD)
      with False \<open>i < n\<close> "1.IH" show ?thesis
        by (auto simp: scan_first.simps [of P n i] Suc_le_eq)
    qed
  next
    case False
    then show ?thesis by (simp add: scan_first.simps [of P n i])
  qed
qed

lemma scan_first_None_iff:
  "scan_first P n i = None \<longleftrightarrow> (\<forall>j. i \<le> j \<and> j < n \<longrightarrow> \<not> P j)"
proof (induction P n i rule: scan_first.induct)
  case (1 P n i)
  show ?case
  proof (cases "i < n \<and> \<not> P i")
    case True
    have "(\<forall>j. Suc i \<le> j \<and> j < n \<longrightarrow> \<not> P j) \<longleftrightarrow> (\<forall>j. i \<le> j \<and> j < n \<longrightarrow> \<not> P j)"
      using True by (metis Suc_leI le_eq_less_or_eq Suc_leD)
    with True "1.IH" show ?thesis
      by (simp add: scan_first.simps [of P n i])
  next
    case False
    then show ?thesis
      by (auto simp: scan_first.simps [of P n i])
  qed
qed

lemma scan_first_cong:
  "(\<And>j. i \<le> j \<Longrightarrow> j < n \<Longrightarrow> P j = Q j) \<Longrightarrow> scan_first P n i = scan_first Q n i"
proof (induction P n i rule: scan_first.induct)
  case (1 P n i)
  then show ?case
    by (simp add: scan_first.simps [of P n i] scan_first.simps [of Q n i])
qed

section \<open>Filtered projections of updated lists\<close>

lemma map_filter_update_same:
  "i < length xs \<Longrightarrow> P (xs ! i) \<Longrightarrow> P y \<Longrightarrow> f y = f (xs ! i) \<Longrightarrow>
   map f (filter P (xs[i := y])) = map f (filter P xs)"
proof (induction xs arbitrary: i)
  case Nil
  then show ?case by simp
next
  case (Cons x xs)
  then show ?case by (cases i) auto
qed

lemma distinct_map_filter_update_new:
  "i < length xs \<Longrightarrow> \<not> P (xs ! i) \<Longrightarrow> P y \<Longrightarrow> f y \<notin> f ` {x \<in> set xs. P x} \<Longrightarrow>
   distinct (map f (filter P xs)) \<Longrightarrow> distinct (map f (filter P (xs[i := y])))"
proof (induction xs arbitrary: i)
  case Nil
  then show ?case by simp
next
  case (Cons x xs)
  show ?case
  proof (cases i)
    case 0
    with Cons.prems show ?thesis by auto
  next
    case (Suc i')
    with Cons.prems have IH: "distinct (map f (filter P (xs[i' := y])))"
      by (intro Cons.IH) (auto split: if_splits)
    have new: "f x \<notin> f ` {z \<in> set (xs[i' := y]). P z}" if "P x"
    proof
      assume "f x \<in> f ` {z \<in> set (xs[i' := y]). P z}"
      then obtain z where z: "z \<in> set (xs[i' := y])" "P z" "f x = f z" by auto
      have "z \<in> insert y (set xs)"
        using z(1) set_update_subset_insert by fast
      then show False
        using z that Cons.prems(4,5) by (auto simp: image_iff)
    qed
    with Suc IH show ?thesis by auto
  qed
qed

text \<open>A loop that emits one item for each element passing a test.\<close>

lemma concat_map_if_filter:
  "concat (map (\<lambda>x. if P x then [f x] else []) xs) = map f (filter P xs)"
  by (induction xs) simp_all

end
