(* ===== verification/CLib.thy ===== *)
theory CLib
  imports Prelude
begin

text \<open>
  The C library functions that \<open>thread_comm.c\<close> calls on strings and
  buffers: \<open>strncpy\<close> into a terminated buffer, \<open>strncmp\<close> against a
  literal prefix, \<open>snprintf\<close> with \<open>%s\<close> conversions, and \<open>sscanf\<close> with
  literal characters, \<open>%N[^...]\<close> scansets and \<open>%Ns\<close>. They are modelled
  from the C standard (they are not code of the repository), for the subset of
  formats the program uses.
\<close>

section \<open>Strings and buffers\<close>

text \<open>The contents of a byte buffer read as a C string: up to the first NUL.\<close>

definition cstr :: "string \<Rightarrow> cstring" where
  "cstr bs = takeWhile (\<lambda>c. c \<noteq> CHR 0x00) bs"

text \<open>Contents of a C string never hold the terminator.\<close>

definition c_string :: "string \<Rightarrow> bool" where
  "c_string s \<longleftrightarrow> CHR 0x00 \<notin> set s"

text \<open>\<open>isspace\<close> in the C locale.\<close>

definition c_isspace :: "char \<Rightarrow> bool" where
  "c_isspace c \<longleftrightarrow> c \<in> set [CHR 0x20, CHR 0x09, CHR 0x0A, CHR 0x0B, CHR 0x0C, CHR 0x0D]"

text \<open>
  \<open>strncpy(dst, src, n - 1)\<close> into a buffer of size \<open>n\<close> whose last byte is
  zero: at most \<open>n - 1\<close> characters are copied, the rest is NUL-padded, and the
  last byte keeps the terminator.
\<close>

definition strncpy_term :: "nat \<Rightarrow> cstring \<Rightarrow> cstring" where
  "strncpy_term n src = take (n - 1) src"

text \<open>\<open>strncmp(buf, lit, strlen(lit)) == 0\<close>: the literal is a prefix of the buffer.\<close>

definition strncmp_prefix :: "cstring \<Rightarrow> cstring \<Rightarrow> bool" where
  "strncmp_prefix buf lit \<longleftrightarrow> take (length lit) buf = lit"

text \<open>
  \<open>snprintf(buf, n, fmt, ...)\<close> with only \<open>%s\<close> conversions: the formatted
  text, cut to \<open>n - 1\<close> characters and terminated.
\<close>

definition snprintf :: "nat \<Rightarrow> cstring list \<Rightarrow> cstring" where
  "snprintf n parts = take (n - 1) (concat parts)"

section \<open>sscanf\<close>

text \<open>
  The directives of a scanf format: an ordinary character, which must match the
  next input character; \<open>%N[^set]\<close>, a non-empty run of at most \<open>N\<close>
  characters outside \<open>set\<close>; \<open>%Ns\<close>, which skips white space and then reads a
  non-empty run of at most \<open>N\<close> non-white characters.
\<close>

datatype scan_dir = SLit char | SScanset nat "char list" | SStr nat

text \<open>
  \<open>sscanf\<close> returns the converted fields in order; at the first directive that
  fails to match it stops, and the remaining targets are left untouched.
\<close>

fun sscanf :: "scan_dir list \<Rightarrow> cstring \<Rightarrow> cstring list" where
  "sscanf [] s = []"
| "sscanf (SLit c # fs) s =
     (case s of [] \<Rightarrow> [] | d # s' \<Rightarrow> if c = d then sscanf fs s' else [])"
| "sscanf (SScanset w ex # fs) s =
     (let f = take w (takeWhile (\<lambda>c. c \<notin> set ex) s)
      in if f = [] then [] else f # sscanf fs (drop (length f) s))"
| "sscanf (SStr w # fs) s =
     (let s1 = dropWhile c_isspace s;
          f = take w (takeWhile (\<lambda>c. \<not> c_isspace c) s1)
      in if f = [] then [] else f # sscanf fs (drop (length f) s1))"

text \<open>The \<open>i\<close>-th target buffer after the call: zero-initialised, so empty when
  \<open>sscanf\<close> stopped before converting it.\<close>

definition scan_field :: "cstring list \<Rightarrow> nat \<Rightarrow> cstring" where
  "scan_field rs i = (if i < length rs then rs ! i else [])"

text \<open>The widths of the conversions of a format, in order.\<close>

fun conv_widths :: "scan_dir list \<Rightarrow> nat list" where
  "conv_widths [] = []"
| "conv_widths (SLit c # fs) = conv_widths fs"
| "conv_widths (SScanset w ex # fs) = w # conv_widths fs"
| "conv_widths (SStr w # fs) = w # conv_widths fs"

abbreviation scan_lits :: "string \<Rightarrow> scan_dir list" where
  "scan_lits w \<equiv> map SLit w"

section \<open>Lemmas\<close>

lemma sscanf_lits_match [cstr_simps]:
  "sscanf (scan_lits w @ fs) (w @ s) = sscanf fs s"
  by (induction w) auto

lemma sscanf_lits_mismatch [cstr_simps]:
  "\<not> strncmp_prefix s w \<Longrightarrow> sscanf (scan_lits w @ fs) s = []"
proof (induction w arbitrary: s)
  case Nil
  then show ?case by (simp add: strncmp_prefix_def)
next
  case (Cons c w)
  then show ?case by (cases s) (auto simp: strncmp_prefix_def)
qed

lemma sscanf_scanset_stop [cstr_simps]:
  assumes "xs \<noteq> []" "length xs \<le> w" "\<forall>x \<in> set xs. x \<notin> set ex"
    and "rest = [] \<or> hd rest \<in> set ex"
  shows "sscanf (SScanset w ex # fs) (xs @ rest) = xs # sscanf fs rest"
proof -
  have "takeWhile (\<lambda>c. c \<notin> set ex) (xs @ rest) = xs"
    using assms(3,4) by (cases rest) auto
  with assms(1,2) show ?thesis by simp
qed

lemma sscanf_str_stop [cstr_simps]:
  assumes "xs \<noteq> []" "length xs \<le> w" "\<forall>x \<in> set xs. \<not> c_isspace x"
    and "rest = [] \<or> c_isspace (hd rest)"
  shows "sscanf (SStr w # fs) (xs @ rest) = xs # sscanf fs rest"
proof -
  obtain x xs' where xs: "xs = x # xs'" using assms(1) by (cases xs) auto
  have "dropWhile c_isspace (xs @ rest) = xs @ rest"
    using assms(3) xs by simp
  moreover have "takeWhile (\<lambda>c. \<not> c_isspace c) (xs @ rest) = xs"
    using assms(3,4) by (cases rest) auto
  moreover have "0 < w" using assms(1,2) by (cases xs) auto
  ultimately show ?thesis using assms(1,2) by simp
qed

lemma sscanf_str_nowhite [cstr_simps]:
  assumes "0 < w" "xs \<noteq> []" "\<forall>x \<in> set xs. \<not> c_isspace x"
  shows "sscanf (SStr w # fs) xs = take w xs # sscanf fs (drop w xs)"
proof -
  have dw: "dropWhile c_isspace xs = xs" using assms(2,3) by (cases xs) auto
  have tw: "takeWhile (\<lambda>c. \<not> c_isspace c) xs = xs" using assms(3) by simp
  show ?thesis using assms(1,2) by (simp add: dw tw min_def)
qed

lemma cstr_c_string [cstr_simps]:
  "c_string s \<Longrightarrow> cstr s = s"
  by (auto simp: cstr_def c_string_def)

lemma strncpy_term_short [cstr_simps]:
  "length s < n \<Longrightarrow> strncpy_term n s = s"
  by (simp add: strncpy_term_def)

lemma strncpy_term_length [cstr_simps]:
  "0 < n \<Longrightarrow> length (strncpy_term n s) < n"
  by (simp add: strncpy_term_def)

text \<open>Every converted field fits the width of its conversion.\<close>

lemma sscanf_widths:
  "list_all2 (\<lambda>f w. length f \<le> w) (sscanf fs s) (take (length (sscanf fs s)) (conv_widths fs))"
  by (induction fs s rule: sscanf.induct) (auto simp: Let_def split: list.splits)

lemma scan_field_width:
  "i < length (conv_widths fs) \<Longrightarrow> length (scan_field (sscanf fs s) i) \<le> conv_widths fs ! i"
  using sscanf_widths [of fs s]
  by (auto simp: scan_field_def list_all2_conv_all_nth)

end
