(* ===== verification/NodeTable.thy ===== *)
theory NodeTable
  imports CLib
begin

text \<open>
  The node table of \<open>thread_comm.c\<close>: the static array \<open>nodes[MAX_NODES]\<close>
  of \<open>thread_node_t\<close> slots (\<open>thread_comm.h\<close>), the scans \<open>find_node\<close>
  and \<open>alloc_node\<close>, the upsert \<open>register_node\<close> and the enumeration of
  \<open>thread_comm_print_nodes\<close>. A pointer into the array is modelled by the
  slot's index; the array by a list of \<open>MAX_NODES\<close> slots.
\<close>

section \<open>Data\<close>

definition MAX_NODES :: nat where
  "MAX_NODES = 8"

definition NODE_ID_LEN :: nat where
  "NODE_ID_LEN = 16"

text \<open>\<open>sizeof(n->role)\<close>: the \<open>role\<close> field is \<open>char role[16]\<close>.\<close>

definition ROLE_LEN :: nat where
  "ROLE_LEN = 16"

text \<open>\<open>thread_node_t\<close>; the field \<open>id\<close> is named \<open>node_id\<close> here.\<close>

record thread_node =
  active :: bool
  node_id :: cstring
  role :: cstring
  eid :: ip6_addr

text \<open>A slot after \<open>memset(.., 0, sizeof(thread_node_t))\<close>.\<close>

definition zero_node :: thread_node where
  "zero_node = \<lparr>active = False, node_id = [], role = [], eid = 0\<rparr>"

text \<open>The table at start-up and after \<open>memset(nodes, 0, sizeof(nodes))\<close>.\<close>

definition empty_nodes :: "thread_node list" where
  "empty_nodes = replicate MAX_NODES zero_node"

section \<open>Operations\<close>

text \<open>\<open>find_node\<close>: the first active slot whose identifier equals \<open>id\<close>.\<close>

function find_node_from :: "cstring \<Rightarrow> thread_node list \<Rightarrow> nat \<Rightarrow> nat option" where
  "find_node_from k ns i =
     (if i < MAX_NODES then
        (if active (ns ! i) \<and> node_id (ns ! i) = k then Some i
         else find_node_from k ns (Suc i))
      else None)"
  by pat_completeness auto
termination
  by (relation "measure (\<lambda>(k, ns, i). MAX_NODES - i)") auto

definition find_node :: "cstring \<Rightarrow> thread_node list \<Rightarrow> nat option" where
  "find_node k ns = find_node_from k ns 0"

text \<open>\<open>alloc_node\<close>: the first inactive slot, cleared and marked active.\<close>

function alloc_node_from :: "thread_node list \<Rightarrow> nat \<Rightarrow> (nat \<times> thread_node list) option" where
  "alloc_node_from ns i =
     (if i < MAX_NODES then
        (if \<not> active (ns ! i) then Some (i, ns[i := zero_node\<lparr>active := True\<rparr>])
         else alloc_node_from ns (Suc i))
      else None)"
  by pat_completeness auto
termination
  by (relation "measure (\<lambda>(ns, i). MAX_NODES - i)") auto

definition alloc_node :: "thread_node list \<Rightarrow> (nat \<times> thread_node list) option" where
  "alloc_node ns = alloc_node_from ns 0"

text \<open>The three assignments of \<open>register_node\<close> to the chosen slot.\<close>

definition fill_node :: "cstring \<Rightarrow> cstring \<Rightarrow> ip6_addr \<Rightarrow> thread_node \<Rightarrow> thread_node" where
  "fill_node k r a n =
     n\<lparr>node_id := strncpy_term NODE_ID_LEN k, role := strncpy_term ROLE_LEN r, eid := a\<rparr>"

text \<open>
  \<open>register_node\<close> returns \<open>void\<close>; its early return when no slot is free is the
  error \<open>TableFull\<close> here, and the table is then unchanged.
\<close>

datatype reg_error = TableFull

definition register_node ::
  "cstring \<Rightarrow> cstring \<Rightarrow> ip6_addr \<Rightarrow> thread_node list \<Rightarrow> reg_error + thread_node list" where
  "register_node k r a ns =
     (case (case find_node k ns of Some i \<Rightarrow> Some (i, ns) | None \<Rightarrow> alloc_node ns) of
        None \<Rightarrow> Inl TableFull
      | Some (i, ns') \<Rightarrow> Inr (ns'[i := fill_node k r a (ns' ! i)]))"

text \<open>\<open>thread_comm_print_nodes\<close>: the lines it prints.\<close>

definition thread_comm_print_nodes :: "thread_node list \<Rightarrow> string list" where
  "thread_comm_print_nodes ns =
     ''=== Thread nodes ===\<newline>'' #
     [''ID='' @ node_id n @ '' role='' @ role n @ ''\<newline>''. n \<leftarrow> take MAX_NODES ns, active n]"

section \<open>Invariant and abstraction\<close>

text \<open>
  The table invariant: \<open>MAX_NODES\<close> slots, at most one active slot per
  identifier, and every stored string fits its buffer with its terminator.
\<close>

definition wf_table :: "thread_node list \<Rightarrow> bool" where
  "wf_table ns \<longleftrightarrow>
     length ns = MAX_NODES \<and> distinct (map node_id (filter active ns)) \<and>
     (\<forall>n \<in> set ns. length (node_id n) < NODE_ID_LEN \<and> length (role n) < ROLE_LEN)"

text \<open>The table seen as the map from peer identifier to role and address that the
  spec describes (\<open>find\<close> of its node-table contract).\<close>

definition peer_map :: "thread_node list \<Rightarrow> cstring \<rightharpoonup> cstring \<times> ip6_addr" where
  "peer_map ns k = map_option (\<lambda>i. (role (ns ! i), eid (ns ! i))) (find_node k ns)"

section \<open>The scans as bounded first-index searches\<close>

abbreviation holds_id :: "cstring \<Rightarrow> thread_node list \<Rightarrow> nat \<Rightarrow> bool" where
  "holds_id k ns j \<equiv> active (ns ! j) \<and> node_id (ns ! j) = k"

lemma find_node_from_scan:
  "find_node_from k ns i = scan_first (holds_id k ns) MAX_NODES i"
proof (induction k ns i rule: find_node_from.induct)
  case (1 k ns i)
  then show ?case
    by (simp add: find_node_from.simps [of k ns i] scan_first.simps [of _ MAX_NODES i])
qed

lemma alloc_node_from_scan:
  "alloc_node_from ns i =
     map_option (\<lambda>j. (j, ns[j := zero_node\<lparr>active := True\<rparr>]))
       (scan_first (\<lambda>j. \<not> active (ns ! j)) MAX_NODES i)"
proof (induction ns i rule: alloc_node_from.induct)
  case (1 ns i)
  then show ?case
    by (simp add: alloc_node_from.simps [of ns i] scan_first.simps [of _ MAX_NODES i])
qed

declare find_node_from.simps [simp del] alloc_node_from.simps [simp del]

lemma find_node_Some_iff [table_simps]:
  "find_node k ns = Some j \<longleftrightarrow>
     j < MAX_NODES \<and> holds_id k ns j \<and> (\<forall>l < j. \<not> holds_id k ns l)"
  by (simp add: find_node_def find_node_from_scan scan_first_Some_iff)

lemma find_node_None_iff [table_simps]:
  "find_node k ns = None \<longleftrightarrow> (\<forall>j < MAX_NODES. \<not> holds_id k ns j)"
  by (simp add: find_node_def find_node_from_scan scan_first_None_iff)

lemma alloc_node_Some_iff [table_simps]:
  "alloc_node ns = Some (j, ns') \<longleftrightarrow>
     j < MAX_NODES \<and> \<not> active (ns ! j) \<and> (\<forall>l < j. active (ns ! l)) \<and>
     ns' = ns[j := zero_node\<lparr>active := True\<rparr>]"
  by (auto simp: alloc_node_def alloc_node_from_scan scan_first_Some_iff)

lemma alloc_node_None_iff [table_simps]:
  "alloc_node ns = None \<longleftrightarrow> (\<forall>j < MAX_NODES. active (ns ! j))"
  by (simp add: alloc_node_def alloc_node_from_scan scan_first_None_iff)

lemma find_node_cong:
  "(\<And>j. j < MAX_NODES \<Longrightarrow> holds_id k ns j = holds_id k ns' j) \<Longrightarrow> find_node k ns = find_node k ns'"
  unfolding find_node_def find_node_from_scan by (rule scan_first_cong) simp

section \<open>register_node\<close>

text \<open>The two ways \<open>register_node\<close> succeeds: the identifier is found and its
  slot refreshed, or it is new and the first free slot is taken.\<close>

lemma register_node_Inr_cases:
  assumes "register_node k r a ns = Inr ns'" "length ns = MAX_NODES"
  obtains (refresh) i where "find_node k ns = Some i" "ns' = ns[i := fill_node k r a (ns ! i)]"
    | (fresh) i where "find_node k ns = None" "i < MAX_NODES" "\<not> active (ns ! i)"
        "\<forall>l < i. active (ns ! l)" "ns' = ns[i := fill_node k r a (zero_node\<lparr>active := True\<rparr>)]"
proof (cases "find_node k ns")
  case (Some i)
  with assms show ?thesis by (intro refresh) (auto simp: register_node_def)
next
  case None
  with assms(1) obtain i ns1 where "alloc_node ns = Some (i, ns1)" and "ns' = ns1[i := fill_node k r a (ns1 ! i)]"
    by (auto simp: register_node_def split: option.splits)
  moreover from this have "i < MAX_NODES" "\<not> active (ns ! i)" "\<forall>l < i. active (ns ! l)"
    "ns1 = ns[i := zero_node\<lparr>active := True\<rparr>]"
    by (simp_all add: alloc_node_Some_iff)
  ultimately show ?thesis
    using None assms(2) by (intro fresh [of i]) simp_all
qed

lemma fill_node_simps [table_simps]:
  "active (fill_node k r a n) = active n"
  "length k < NODE_ID_LEN \<Longrightarrow> node_id (fill_node k r a n) = k"
  "role (fill_node k r a n) = strncpy_term ROLE_LEN r"
  "eid (fill_node k r a n) = a"
  by (simp_all add: fill_node_def strncpy_term_short)

lemma fill_node_lengths:
  "length (node_id (fill_node k r a n)) < NODE_ID_LEN \<and> length (role (fill_node k r a n)) < ROLE_LEN"
  by (simp add: fill_node_def strncpy_term_length NODE_ID_LEN_def ROLE_LEN_def)

lemma register_node_Inl_iff:
  "register_node k r a ns = Inl TableFull \<longleftrightarrow> find_node k ns = None \<and> alloc_node ns = None"
  by (auto simp: register_node_def split: option.splits)

lemma nth_set_all:
  "length ns = MAX_NODES \<Longrightarrow> (\<forall>j < MAX_NODES. P (ns ! j)) \<longleftrightarrow> (\<forall>n \<in> set ns. P n)"
  by (metis all_set_conv_all_nth)

text \<open>Filling one slot keeps the invariant once the identifiers stay distinct.\<close>

lemma wf_table_fill:
  assumes "wf_table ns" "distinct (map node_id (filter active (ns[i := fill_node k r a n])))"
  shows "wf_table (ns[i := fill_node k r a n])"
proof -
  have "set (ns[i := fill_node k r a n]) \<subseteq> insert (fill_node k r a n) (set ns)"
    by (rule set_update_subset_insert)
  then show ?thesis
    using assms fill_node_lengths [of k r a n] by (auto simp: wf_table_def)
qed

text \<open>Filling slot \<open>i\<close> for \<open>k\<close> maps \<open>k\<close> to the new role and address and leaves
  every other identifier where it was, provided no earlier slot holds \<open>k\<close> and slot
  \<open>i\<close> held no other identifier.\<close>

lemma peer_map_fill:
  assumes len: "length ns = MAX_NODES" and i: "i < MAX_NODES" and k: "length k < NODE_ID_LEN"
    and act: "active n" and first: "\<forall>l < i. \<not> holds_id k ns l"
    and other: "\<forall>k'. k' \<noteq> k \<longrightarrow> \<not> holds_id k' ns i"
  shows "peer_map (ns[i := fill_node k r a n]) = (peer_map ns)(k \<mapsto> (strncpy_term ROLE_LEN r, a))"
proof
  fix k'
  let ?ns' = "ns[i := fill_node k r a n]"
  show "peer_map ?ns' k' = ((peer_map ns)(k \<mapsto> (strncpy_term ROLE_LEN r, a))) k'"
  proof (cases "k' = k")
    case True
    have "find_node k ?ns' = Some i"
      using len i k act first by (simp add: find_node_Some_iff fill_node_simps)
    with True len i show ?thesis by (simp add: peer_map_def fill_node_simps)
  next
    case False
    have hold: "holds_id k' ?ns' j = holds_id k' ns j" if "j < MAX_NODES" for j
      using that False other k len by (cases "j = i") (simp_all add: fill_node_simps)
    then have eq: "find_node k' ?ns' = find_node k' ns"
      by (rule find_node_cong)
    show ?thesis
    proof (cases "find_node k' ns")
      case None
      with False eq show ?thesis by (simp add: peer_map_def)
    next
      case (Some j)
      with other False have "j \<noteq> i" by (auto simp: find_node_Some_iff)
      with Some False eq show ?thesis by (simp add: peer_map_def)
    qed
  qed
qed

section \<open>The three facts about register_node\<close>

text \<open>\<open>register_node\<close> keeps the table invariant whenever the identifier fits
  its buffer (\<open>udp_handler\<close> reads at most 15 characters into it).\<close>

lemma register_node_wf:
  assumes wf: "wf_table ns" and k: "length k < NODE_ID_LEN"
    and reg: "register_node k r a ns = Inr ns'"
  shows "wf_table ns'"
proof -
  have len: "length ns = MAX_NODES" using wf by (simp add: wf_table_def)
  from reg len show ?thesis
  proof (cases rule: register_node_Inr_cases)
    case (refresh i)
    then have "i < MAX_NODES" "holds_id k ns i" by (simp_all add: find_node_Some_iff)
    then have "map node_id (filter active ns') = map node_id (filter active ns)"
      using refresh(2) len k by (simp add: map_filter_update_same fill_node_simps)
    then have "distinct (map node_id (filter active ns'))"
      using wf by (simp add: wf_table_def)
    with wf refresh(2) show ?thesis by (simp add: wf_table_fill)
  next
    case (fresh i)
    have "k \<notin> node_id ` {x \<in> set ns. active x}"
      using fresh(1) len by (auto simp: find_node_None_iff in_set_conv_nth)
    then have "distinct (map node_id (filter active ns'))"
      using fresh len k wf
      by (simp add: distinct_map_filter_update_new fill_node_simps wf_table_def)
    with wf fresh(5) show ?thesis by (simp add: wf_table_fill)
  qed
qed

text \<open>Refinement: on the peer map, a successful \<open>register_node\<close> is the map update
  \<open>k \<mapsto> (role, address)\<close>, with the role as \<open>strncpy\<close> stores it.\<close>

lemma register_node_peer_map:
  assumes len: "length ns = MAX_NODES" and k: "length k < NODE_ID_LEN"
    and reg: "register_node k r a ns = Inr ns'"
  shows "peer_map ns' = (peer_map ns)(k \<mapsto> (strncpy_term ROLE_LEN r, a))"
  using reg len
proof (cases rule: register_node_Inr_cases)
  case (refresh i)
  then have "i < MAX_NODES" "holds_id k ns i" "\<forall>l < i. \<not> holds_id k ns l"
    by (simp_all add: find_node_Some_iff)
  with refresh(2) show ?thesis
    using len k by (auto intro: peer_map_fill simp: fill_node_simps)
next
  case (fresh i)
  then have "\<forall>l < i. \<not> holds_id k ns l" by (simp add: find_node_None_iff)
  with fresh show ?thesis
    using len k by (auto intro: peer_map_fill)
qed

text \<open>\<open>register_node\<close> fails exactly when the identifier is unknown and every
  slot is taken; there is no eviction.\<close>

lemma register_node_TableFull_iff:
  assumes "length ns = MAX_NODES"
  shows "register_node k r a ns = Inl TableFull \<longleftrightarrow> peer_map ns k = None \<and> (\<forall>n \<in> set ns. active n)"
  using assms
  by (simp add: register_node_Inl_iff alloc_node_None_iff nth_set_all peer_map_def)

lemma distinct_filter_eq_one:
  "distinct (map f xs) \<Longrightarrow> k \<in> f ` set xs \<Longrightarrow> length (filter (\<lambda>x. f x = k) xs) = 1"
proof (induction xs)
  case Nil
  then show ?case by simp
next
  case (Cons x xs)
  then show ?case
    by (cases "f x = k") (auto simp: filter_empty_conv image_iff)
qed

section \<open>The table as printed\<close>

text \<open>The identifiers the peer map knows are those of the active slots.\<close>

lemma dom_peer_map:
  assumes "length ns = MAX_NODES"
  shows "dom (peer_map ns) = node_id ` set (filter active ns)"
proof (rule set_eqI)
  fix k
  have "k \<in> dom (peer_map ns) \<longleftrightarrow> find_node k ns \<noteq> None" by (auto simp: peer_map_def)
  also have "\<dots> \<longleftrightarrow> (\<exists>j < MAX_NODES. holds_id k ns j)"
    by (simp add: find_node_None_iff)
  also have "\<dots> \<longleftrightarrow> k \<in> node_id ` set (filter active ns)"
  proof
    assume "\<exists>j < MAX_NODES. holds_id k ns j"
    then obtain j where "j < length ns" "holds_id k ns j" using assms by auto
    then show "k \<in> node_id ` set (filter active ns)" by (auto intro: nth_mem)
  next
    assume "k \<in> node_id ` set (filter active ns)"
    then obtain n where "n \<in> set ns" "active n" "k = node_id n" by auto
    then obtain j where "j < length ns" "ns ! j = n" by (auto simp: in_set_conv_nth)
    then show "\<exists>j < MAX_NODES. holds_id k ns j" using assms \<open>active n\<close> \<open>k = node_id n\<close> by auto
  qed
  finally show "k \<in> dom (peer_map ns) \<longleftrightarrow> k \<in> node_id ` set (filter active ns)" .
qed

lemma print_nodes_lines:
  "length ns = MAX_NODES \<Longrightarrow>
   thread_comm_print_nodes ns =
     ''=== Thread nodes ===\<newline>'' # map (\<lambda>n. ''ID='' @ node_id n @ '' role='' @ role n @ ''\<newline>'') (filter active ns)"
  by (simp add: thread_comm_print_nodes_def concat_map_if_filter)

section \<open>Properties of the node table\<close>

text \<open>C2: the contract of \<open>register_node\<close> on a well-formed table, for an
  identifier that fits its buffer: it fails with \<open>TableFull\<close> exactly when the
  identifier is unknown and all slots are taken; when it succeeds the table stays
  well-formed and, seen as a peer map, is the old map updated at the identifier
  with the stored role and the address.\<close>

theorem register_node_contract:
  assumes wf: "wf_table ns" and k: "length k < NODE_ID_LEN"
  shows "(register_node k r a ns = Inl TableFull \<longleftrightarrow> peer_map ns k = None \<and> (\<forall>n \<in> set ns. active n)) \<and>
         (\<forall>ns'. register_node k r a ns = Inr ns' \<longrightarrow>
            wf_table ns' \<and> peer_map ns' = (peer_map ns)(k \<mapsto> (strncpy_term ROLE_LEN r, a)))"
proof -
  have len: "length ns = MAX_NODES" using wf by (simp add: wf_table_def)
  show ?thesis
    using register_node_TableFull_iff [OF len] register_node_wf [OF wf k]
      register_node_peer_map [OF len k] by blast
qed

text \<open>C8: registering an identifier, new or known, leaves exactly one active slot
  holding it: re-registration updates in place and never duplicates.\<close>

theorem register_node_single_entry:
  assumes wf: "wf_table ns" and k: "length k < NODE_ID_LEN"
    and reg: "register_node k r a ns = Inr ns'"
  shows "length (filter (\<lambda>n. active n \<and> node_id n = k) ns') = 1"
proof -
  have wf': "wf_table ns'" using register_node_wf [OF wf k reg] .
  have len: "length ns = MAX_NODES" using wf by (simp add: wf_table_def)
  have "peer_map ns' k \<noteq> None"
    using register_node_peer_map [OF len k reg] by simp
  then obtain j where "find_node k ns' = Some j" by (auto simp: peer_map_def)
  then have "j < length ns'" "holds_id k ns' j"
    using wf' by (simp_all add: find_node_Some_iff wf_table_def)
  then have "k \<in> node_id ` set (filter active ns')"
  proof -
    have "ns' ! j \<in> set (filter active ns')" using \<open>j < length ns'\<close> \<open>holds_id k ns' j\<close> by simp
    then show ?thesis using \<open>holds_id k ns' j\<close> by (auto intro: image_eqI [where x = "ns' ! j"])
  qed
  with wf' have "length (filter (\<lambda>n. node_id n = k) (filter active ns')) = 1"
    by (intro distinct_filter_eq_one) (simp_all add: wf_table_def)
  then show ?thesis by (simp add: conj_commute)
qed

text \<open>C11: \<open>find_node\<close> returns the least index of an active slot holding the
  identifier, and nothing when there is none: the loop is the bounded search its
  specification describes.\<close>

theorem find_node_least:
  "find_node k ns =
     (if \<exists>j < MAX_NODES. holds_id k ns j then Some (LEAST j. j < MAX_NODES \<and> holds_id k ns j) else None)"
proof (cases "\<exists>j < MAX_NODES. holds_id k ns j")
  case True
  let ?m = "LEAST j. j < MAX_NODES \<and> holds_id k ns j"
  have m: "?m < MAX_NODES \<and> holds_id k ns ?m"
    using True by (rule LeastI_ex)
  have "\<not> holds_id k ns l" if "l < ?m" for l
  proof -
    have "\<not> (l < MAX_NODES \<and> holds_id k ns l)" using that by (rule not_less_Least)
    with that m show ?thesis by simp
  qed
  then have "\<forall>l < ?m. \<not> holds_id k ns l" by blast
  then have "find_node k ns = Some ?m" using m by (simp only: find_node_Some_iff)
  with True show ?thesis by (simp only: if_True)
next
  case False
  then have "find_node k ns = None" by (simp add: find_node_None_iff)
  with False show ?thesis by (simp only: if_False)
qed

text \<open>C27: \<open>thread_comm_print_nodes\<close> enumerates the peer map: after its
  header it prints exactly one line per known identifier, and every known
  identifier's line \<open>ID=<id> role=<role>\<close> is among them.\<close>

theorem print_nodes_enumerates:
  assumes wf: "wf_table ns"
  shows "length (thread_comm_print_nodes ns) = Suc (card (dom (peer_map ns))) \<and>
         (peer_map ns k = Some (r, a) \<longrightarrow>
            ''ID='' @ k @ '' role='' @ r @ ''\<newline>'' \<in> set (thread_comm_print_nodes ns))"
proof -
  have len: "length ns = MAX_NODES" and dist: "distinct (map node_id (filter active ns))"
    using wf by (simp_all add: wf_table_def)
  have "card (dom (peer_map ns)) = length (filter active ns)"
    using distinct_card [OF dist] by (simp add: dom_peer_map [OF len])
  moreover have "''ID='' @ k @ '' role='' @ r @ ''\<newline>'' \<in> set (thread_comm_print_nodes ns)"
    if pm: "peer_map ns k = Some (r, a)"
  proof -
    obtain j where j: "find_node k ns = Some j" "r = role (ns ! j)"
      using pm by (cases "find_node k ns") (auto simp: peer_map_def)
    then have "j < length ns" "holds_id k ns j" using len by (simp_all add: find_node_Some_iff)
    then have "ns ! j \<in> set (filter active ns)" by simp
    with j(2) \<open>holds_id k ns j\<close> show ?thesis
      unfolding print_nodes_lines [OF len] by force
  qed
  ultimately show ?thesis by (simp add: print_nodes_lines [OF len])
qed

section \<open>Witnesses\<close>

theorem register_node_contract_witness:
  "wf_table empty_nodes \<and> length ''B'' < NODE_ID_LEN \<and>
   register_node ''B'' ''respond'' 2 empty_nodes =
     Inr (empty_nodes[0 := \<lparr>active = True, node_id = ''B'', role = ''respond'', eid = 2\<rparr>]) \<and>
   wf_table (empty_nodes[0 := \<lparr>active = True, node_id = ''B'', role = ''respond'', eid = 2\<rparr>]) \<and>
   peer_map (empty_nodes[0 := \<lparr>active = True, node_id = ''B'', role = ''respond'', eid = 2\<rparr>]) =
     (peer_map empty_nodes)(''B'' \<mapsto> (''respond'', 2))"
proof -
  have h1: "wf_table empty_nodes" by code_simp
  have h2: "length ''B'' < NODE_ID_LEN" by (simp add: NODE_ID_LEN_def)
  have r: "strncpy_term ROLE_LEN ''respond'' = ''respond''"
    by (simp add: strncpy_term_def ROLE_LEN_def)
  have reg: "register_node ''B'' ''respond'' 2 empty_nodes =
      Inr (empty_nodes[0 := \<lparr>active = True, node_id = ''B'', role = ''respond'', eid = 2\<rparr>])"
    by code_simp
  show ?thesis using register_node_contract [OF h1 h2, of "''respond''" 2] h1 h2 reg r by simp
qed

theorem register_node_single_entry_witness:
  "length (filter (\<lambda>n. active n \<and> node_id n = ''B'')
     (empty_nodes[0 := \<lparr>active = True, node_id = ''B'', role = ''respond'', eid = 2\<rparr>])) = 1"
proof -
  have h1: "wf_table empty_nodes" by code_simp
  have h2: "length ''B'' < NODE_ID_LEN" by (simp add: NODE_ID_LEN_def)
  have h3: "register_node ''B'' ''respond'' 2 empty_nodes =
      Inr (empty_nodes[0 := \<lparr>active = True, node_id = ''B'', role = ''respond'', eid = 2\<rparr>])"
    by code_simp
  show ?thesis by (rule register_node_single_entry [OF h1 h2 h3])
qed

theorem print_nodes_enumerates_witness:
  "''ID=B role=respond\<newline>'' \<in>
     set (thread_comm_print_nodes (empty_nodes[0 := \<lparr>active = True, node_id = ''B'', role = ''respond'', eid = 2\<rparr>]))"
proof -
  let ?ns = "empty_nodes[0 := \<lparr>active = True, node_id = ''B'', role = ''respond'', eid = 2\<rparr>]"
  have wf: "wf_table ?ns" by code_simp
  have pm: "peer_map ?ns ''B'' = Some (''respond'', 2)" by code_simp
  from print_nodes_enumerates [OF wf, of "''B''" "''respond''" 2] pm show ?thesis by simp
qed

end
