(* ===== verification/Codec.thy ===== *)
theory Codec
  imports CLib
begin

text \<open>
  The wire format of \<open>thread_comm.c\<close>: the frames \<open>HELLO|id=<id>|role=<role>\<close>
  and \<open>DATA|from=<id>|<payload>\<close> as \<open>thread_comm_announce\<close> and
  \<open>thread_comm_send\<close> print them with \<open>snprintf\<close>, the receive buffer of
  \<open>udp_handler\<close>, its prefix tests and its two \<open>sscanf\<close> calls.
\<close>

section \<open>Constants\<close>

definition PAYLOAD_LEN :: nat where
  "PAYLOAD_LEN = 128"

text \<open>\<open>char buf[64]\<close> of \<open>thread_comm_announce\<close>.\<close>

definition HELLO_BUF_LEN :: nat where
  "HELLO_BUF_LEN = 64"

section \<open>Encoding\<close>

definition encode_hello :: "cstring \<Rightarrow> cstring \<Rightarrow> cstring" where
  "encode_hello i r = snprintf HELLO_BUF_LEN [''HELLO|id='', i, ''|role='', r]"

definition encode_data :: "cstring \<Rightarrow> cstring \<Rightarrow> cstring" where
  "encode_data i p = snprintf PAYLOAD_LEN [''DATA|from='', i, ''|'', p]"

section \<open>Decoding\<close>

text \<open>
  \<open>otMessageRead(msg, 0, buf, sizeof(buf) - 1)\<close> copies at most 127 bytes,
  \<open>buf[len] = '\0'\<close> terminates them, and every later use reads \<open>buf\<close> as
  a C string. An empty message (\<open>len <= 0\<close>) is dropped by the caller.
\<close>

definition rx_buffer :: "string \<Rightarrow> cstring" where
  "rx_buffer msg = cstr (take (PAYLOAD_LEN - 1) msg)"

text \<open>\<open>"HELLO|id=%15[^|]|role=%7s"\<close>\<close>

definition hello_fmt :: "scan_dir list" where
  "hello_fmt = scan_lits ''HELLO|id='' @ SScanset 15 ''|'' # scan_lits ''|role='' @ [SStr 7]"

text \<open>\<open>"DATA|from=%15[^|]|%127[^\n]"\<close>\<close>

definition data_fmt :: "scan_dir list" where
  "data_fmt = scan_lits ''DATA|from='' @ [SScanset 15 ''|'', SLit CHR ''|'', SScanset 127 [CHR 0x0A]]"

text \<open>The zero-initialised targets \<open>id[16]\<close>, \<open>role[8]\<close> after the \<open>sscanf\<close>.\<close>

definition parse_hello :: "cstring \<Rightarrow> cstring \<times> cstring" where
  "parse_hello buf = (let rs = sscanf hello_fmt buf in (scan_field rs 0, scan_field rs 1))"

text \<open>The targets \<open>from[16]\<close>, \<open>payload[128]\<close> after the \<open>sscanf\<close>.\<close>

definition parse_data :: "cstring \<Rightarrow> cstring \<times> cstring" where
  "parse_data buf = (let rs = sscanf data_fmt buf in (scan_field rs 0, scan_field rs 1))"

text \<open>What \<open>udp_handler\<close> makes of a buffer, by its two prefix tests.\<close>

datatype rx_frame = RxHello cstring cstring | RxData cstring cstring | RxOther

definition classify :: "cstring \<Rightarrow> rx_frame" where
  "classify buf =
     (if strncmp_prefix buf ''HELLO|'' then case_prod RxHello (parse_hello buf)
      else if strncmp_prefix buf ''DATA|'' then case_prod RxData (parse_data buf)
      else RxOther)"

text \<open>A field of at most 15 characters without \<open>|\<close> is an identifier that
  \<open>%15[^|]\<close> reads.\<close>

abbreviation id_field :: "cstring \<Rightarrow> bool" where
  "id_field i \<equiv> i \<noteq> [] \<and> length i \<le> 15 \<and> CHR ''|'' \<notin> set i"

section \<open>Frames as printed\<close>

lemma encode_hello_eq:
  assumes "length i < 16" "length r < 16"
  shows "encode_hello i r = ''HELLO|id='' @ i @ ''|role='' @ r"
  using assms by (simp add: encode_hello_def snprintf_def HELLO_BUF_LEN_def)

lemma encode_data_eq:
  assumes "length i + length p \<le> 116"
  shows "encode_data i p = ''DATA|from='' @ i @ ''|'' @ p"
  using assms by (simp add: encode_data_def snprintf_def PAYLOAD_LEN_def)

lemma rx_buffer_short:
  "length s < PAYLOAD_LEN \<Longrightarrow> c_string s \<Longrightarrow> rx_buffer s = s"
  by (simp add: rx_buffer_def cstr_c_string PAYLOAD_LEN_def)

lemma sscanf_hello_fields:
  assumes "id_field i"
  shows "sscanf hello_fmt (''HELLO|id='' @ i @ ''|role='' @ r) = i # sscanf [SStr 7] r"
proof -
  have "sscanf hello_fmt (''HELLO|id='' @ i @ ''|role='' @ r) =
      sscanf (SScanset 15 ''|'' # scan_lits ''|role='' @ [SStr 7]) (i @ ''|role='' @ r)"
    unfolding hello_fmt_def by (rule sscanf_lits_match)
  also have "\<dots> = i # sscanf (scan_lits ''|role='' @ [SStr 7]) (''|role='' @ r)"
    using assms by (intro sscanf_scanset_stop) auto
  also have "\<dots> = i # sscanf [SStr 7] r"
    by (simp only: sscanf_lits_match)
  finally show ?thesis .
qed

lemma sscanf_data_fields:
  assumes "id_field i"
  shows "sscanf data_fmt (''DATA|from='' @ i @ ''|'' @ p) = i # sscanf [SScanset 127 [CHR 0x0A]] p"
proof -
  have "sscanf data_fmt (''DATA|from='' @ i @ ''|'' @ p) =
      sscanf (SScanset 15 ''|'' # [SLit CHR ''|'', SScanset 127 [CHR 0x0A]]) (i @ ''|'' @ p)"
    unfolding data_fmt_def by (rule sscanf_lits_match)
  also have "\<dots> = i # sscanf [SLit CHR ''|'', SScanset 127 [CHR 0x0A]] (''|'' @ p)"
    using assms by (intro sscanf_scanset_stop) auto
  finally show ?thesis by simp
qed

lemma sscanf_role_field:
  assumes "\<forall>x \<in> set r. \<not> c_isspace x"
  shows "scan_field (i # sscanf [SStr 7] r) 1 = take 7 r"
proof (cases r)
  case Nil
  then show ?thesis by (simp add: scan_field_def)
next
  case (Cons c cs)
  with assms have "sscanf [SStr 7] r = [take 7 r]"
    using sscanf_str_nowhite [of 7 r "[]"] by simp
  then show ?thesis by (simp add: scan_field_def)
qed

text \<open>The widths of the conversions bound the fields, whatever the buffer.\<close>

lemma parse_hello_widths:
  "length (fst (parse_hello buf)) \<le> 15 \<and> length (snd (parse_hello buf)) \<le> 7"
proof -
  have "conv_widths hello_fmt = [15, 7]" by (simp add: hello_fmt_def)
  then show ?thesis
    using scan_field_width [of 0 hello_fmt buf] scan_field_width [of 1 hello_fmt buf]
    by (simp add: parse_hello_def Let_def)
qed

lemma rx_buffer_c_string:
  assumes "c_string s"
  shows "rx_buffer s = take 127 s"
proof -
  have "c_string (take 127 s)" using assms by (auto simp: c_string_def dest: in_set_takeD)
  then show ?thesis by (simp add: rx_buffer_def PAYLOAD_LEN_def cstr_c_string)
qed

text \<open>\<open>thread_comm_send\<close>'s frame as the receiver's buffer holds it: the
  payload cut to what fits the 128-byte buffer after the header.\<close>

lemma rx_buffer_encode_data:
  assumes "length i \<le> 15" "c_string i" "c_string p"
  shows "rx_buffer (encode_data i p) = ''DATA|from='' @ i @ ''|'' @ take (116 - length i) p"
proof -
  have "117 - length i = Suc (116 - length i)" using assms(1) by simp
  then have "encode_data i p = ''DATA|from='' @ i @ ''|'' @ take (116 - length i) p"
    using assms(1) by (simp add: encode_data_def snprintf_def PAYLOAD_LEN_def)
  moreover have "c_string (''DATA|from='' @ i @ ''|'' @ take (116 - length i) p)"
    using assms(2,3) by (auto simp: c_string_def dest: in_set_takeD)
  ultimately show ?thesis
    using assms(1) by (simp add: rx_buffer_short PAYLOAD_LEN_def)
qed

text \<open>\<open>%127[^\n]\<close> reads the payload up to the first newline.\<close>

lemma parse_data_frame:
  assumes "id_field i"
  shows "parse_data (''DATA|from='' @ i @ ''|'' @ q) =
           (i, take 127 (takeWhile (\<lambda>c. c \<noteq> CHR 0x0A) q))"
  unfolding parse_data_def sscanf_data_fields [OF assms] Let_def
  by (simp add: scan_field_def Let_def)

lemma classify_data_frame:
  "classify (''DATA|from='' @ x) = case_prod RxData (parse_data (''DATA|from='' @ x))"
  by (simp add: classify_def strncmp_prefix_def)

text \<open>The DATA frame in general: the payload is cut to what fits the buffer, then
  at the first newline.\<close>

lemma classify_encode_data:
  assumes "id_field i" "c_string i" "c_string p"
  shows "classify (rx_buffer (encode_data i p)) =
           RxData i (takeWhile (\<lambda>c. c \<noteq> CHR 0x0A) (take (116 - length i) p))"
proof -
  have "length (takeWhile (\<lambda>c. c \<noteq> CHR 0x0A) (take (116 - length i) p)) \<le> 127"
    by (rule order_trans [OF length_takeWhile_le]) simp
  moreover have buf: "rx_buffer (encode_data i p) = ''DATA|from='' @ i @ ''|'' @ take (116 - length i) p"
    using assms by (intro rx_buffer_encode_data) simp_all
  ultimately show ?thesis
    unfolding buf classify_data_frame parse_data_frame [OF assms(1)] by simp
qed

section \<open>Properties of the codec\<close>

text \<open>C4: a HELLO frame printed by \<open>thread_comm_announce\<close> and read back by
  \<open>udp_handler\<close> yields the identifier unchanged and the role cut to its first
  7 characters (\<open>%7s\<close> against the 15 characters of \<open>self_role\<close>).\<close>

theorem hello_roundtrip:
  assumes "id_field i" "c_string i" "length r < 16" "c_string r" "\<forall>x \<in> set r. \<not> c_isspace x"
  shows "classify (rx_buffer (encode_hello i r)) = RxHello i (take 7 r)"
proof -
  let ?frame = "''HELLO|id='' @ i @ ''|role='' @ r"
  have "rx_buffer (encode_hello i r) = ?frame"
    using assms by (simp add: encode_hello_eq rx_buffer_short c_string_def PAYLOAD_LEN_def)
  moreover have "parse_hello ?frame = (i, take 7 r)"
    unfolding parse_hello_def sscanf_hello_fields [OF assms(1)] Let_def
    using sscanf_role_field [OF assms(5), of i] by (simp add: scan_field_def)
  ultimately show ?thesis by (simp add: classify_def strncmp_prefix_def)
qed

text \<open>C5: a DATA frame printed by \<open>thread_comm_send\<close> and read back by
  \<open>udp_handler\<close> yields the sender identifier and the payload unchanged, for a
  payload without newline that fits the 128-byte buffer.\<close>

theorem data_roundtrip:
  assumes "id_field i" "c_string i" "c_string p" "CHR 0x0A \<notin> set p"
    and "length i + length p \<le> 116"
  shows "classify (rx_buffer (encode_data i p)) = RxData i p"
proof -
  have tw: "takeWhile (\<lambda>c. c \<noteq> CHR 0x0A) p = p" using assms(4) by auto
  have "take 127 (takeWhile (\<lambda>c. c \<noteq> CHR 0x0A) p) = p" unfolding tw using assms(5) by simp
  moreover have "take (116 - length i) p = p" using assms(5) by simp
  moreover have buf: "rx_buffer (encode_data i p) = ''DATA|from='' @ i @ ''|'' @ take (116 - length i) p"
    using assms(1-3) by (intro rx_buffer_encode_data) simp_all
  ultimately show ?thesis
    unfolding buf classify_data_frame parse_data_frame [OF assms(1)] by simp
qed

text \<open>C24: a HELLO whose identifier is longer than 15 characters registers the
  identifier cut to 15 and an empty role: \<open>%15[^|]\<close> stops inside the
  identifier, the literal \<open>|role=\<close> then fails to match, and the role target
  keeps its zero initialisation.\<close>

theorem hello_long_id:
  assumes "15 < length i" "CHR ''|'' \<notin> set i" "c_string i" "c_string r"
  shows "classify (rx_buffer (''HELLO|id='' @ i @ ''|role='' @ r)) = RxHello (take 15 i) []"
proof -
  obtain xs c ys where i: "i = xs @ c # ys" and len: "length xs = 15"
  proof -
    have "i = take 15 i @ i ! 15 # drop 16 i" using id_take_nth_drop [OF assms(1)] by simp
    moreover have "length (take 15 i) = 15" using assms(1) by simp
    ultimately show thesis by (rule that)
  qed
  have bar: "CHR ''|'' \<notin> set xs" "c \<noteq> CHR ''|''" using assms(2) i by auto
  let ?R = "take 102 (ys @ ''|role='' @ r)"
  have cs: "c_string (''HELLO|id='' @ i @ ''|role='' @ r)"
    using assms(3,4) by (simp add: c_string_def)
  have "rx_buffer (''HELLO|id='' @ i @ ''|role='' @ r) = take 127 (''HELLO|id='' @ i @ ''|role='' @ r)"
    using cs by (rule rx_buffer_c_string)
  also have "\<dots> = ''HELLO|id='' @ xs @ c # ?R"
    using len by (simp add: i)
  finally have buf: "rx_buffer (''HELLO|id='' @ i @ ''|role='' @ r) = ''HELLO|id='' @ xs @ c # ?R" .
  have "\<forall>x \<in> set xs. x \<noteq> CHR ''|''" using bar(1) by auto
  then have tw: "take 15 (takeWhile (\<lambda>x. x \<notin> set ''|'') (xs @ c # ?R)) = xs"
    using len by (simp add: takeWhile_append2)
  have "sscanf hello_fmt (''HELLO|id='' @ xs @ c # ?R) = [xs]"
    unfolding hello_fmt_def sscanf_lits_match using tw len bar(2)
    by (auto simp: Let_def)
  then show ?thesis
    unfolding buf using len by (simp add: classify_def strncmp_prefix_def parse_hello_def scan_field_def i)
qed

section \<open>Witnesses\<close>

theorem hello_roundtrip_witness:
  "classify (rx_buffer (encode_hello ''node_1'' ''receiver'')) = RxHello ''node_1'' ''receive''"
proof -
  have "id_field ''node_1''" "c_string ''node_1''" "length ''receiver'' < 16" "c_string ''receiver''"
    "\<forall>x \<in> set ''receiver''. \<not> c_isspace x"
    by (simp_all add: c_string_def c_isspace_def)
  from hello_roundtrip [OF this] show ?thesis by simp
qed

theorem data_roundtrip_witness:
  "classify (rx_buffer (encode_data ''node_1'' ''temp:25.5, hum:60'')) = RxData ''node_1'' ''temp:25.5, hum:60''"
proof -
  have "id_field ''node_1''" "c_string ''node_1''" "c_string ''temp:25.5, hum:60''"
    "CHR 0x0A \<notin> set ''temp:25.5, hum:60''" "length ''node_1'' + length ''temp:25.5, hum:60'' \<le> 116"
    by (simp_all add: c_string_def)
  from data_roundtrip [OF this] show ?thesis .
qed

theorem hello_long_id_witness:
  "classify (rx_buffer ''HELLO|id=sensor_kitchen_01|role=receiver'') = RxHello ''sensor_kitchen_'' []"
proof -
  have "15 < length ''sensor_kitchen_01''" "CHR ''|'' \<notin> set ''sensor_kitchen_01''"
    "c_string ''sensor_kitchen_01''" "c_string ''receiver''" by (simp_all add: c_string_def)
  from hello_long_id [OF this] show ?thesis by simp
qed

end
