(* ===== verification/Transport.thy ===== *)
theory Transport
  imports Prelude
begin

text \<open>
  The transport binding of \<open>thread_comm.c\<close>: the UDP socket that
  \<open>thread_comm_init\<close> opens and binds to the well-known port, and the sending
  sequence \<open>otUdpNewMessage\<close> / \<open>otMessageAppend\<close> / \<open>otUdpSend\<close> shared by
  \<open>thread_comm_announce\<close> and \<open>thread_comm_send\<close>, once abstractly and once
  with OpenThread's message buffers. OpenThread itself is an external
  collaborator: whether a call fails is a parameter of the model.
\<close>

section \<open>Constants and data\<close>

definition THREAD_COMM_PORT :: port where
  "THREAD_COMM_PORT = 61631"

text \<open>\<open>ff02::1\<close>, the link-local all-nodes multicast address.\<close>

definition MCAST_ALL_NODES :: ip6_addr where
  "MCAST_ALL_NODES = 0xFF020000000000000000000000000001"

text \<open>An outgoing datagram: the \<open>otMessageInfo\<close> peer address and port, and the
  bytes appended to the message.\<close>

record dgram =
  dst :: ip6_addr
  dport :: port
  data :: string

text \<open>\<open>otError\<close>; \<open>OT_ERROR_NONE\<close> is 0.\<close>

type_synonym ot_error = nat

definition OT_ERROR_NONE :: ot_error where
  "OT_ERROR_NONE = 0"

text \<open>The state of the static \<open>otUdpSocket socket\<close>.\<close>

datatype sock_state = SockClosed | SockOpen | SockBound

text \<open>The early returns of the API, as error values, and a send that
  \<open>otUdpSend\<close> refused (the code does not check it).\<close>

datatype comm_err = OpenFailed ot_error | BindFailed ot_error | UnknownPeer | NoMsgBuffer
  | SendFailed ot_error

section \<open>Operations\<close>

text \<open>
  \<open>otUdpOpen\<close> then \<open>otUdpBind\<close> on the port, each checked: the socket is left
  closed or merely open when one of them fails.
\<close>

definition udp_open_bind :: "ot_error \<Rightarrow> ot_error \<Rightarrow> (comm_err + unit) \<times> sock_state" where
  "udp_open_bind open_err bind_err =
     (if open_err \<noteq> OT_ERROR_NONE then (Inl (OpenFailed open_err), SockClosed)
      else if bind_err \<noteq> OT_ERROR_NONE then (Inl (BindFailed bind_err), SockOpen)
      else (Inr (), SockBound))"

text \<open>
  \<open>otUdpNewMessage\<close> may return \<open>NULL\<close> (no message buffer: \<open>buf_ok\<close> false),
  and the function returns; otherwise the bytes go to the peer address on
  \<open>THREAD_COMM_PORT\<close>. The result of \<open>otUdpSend\<close> is ignored by the code, so
  the datagram is handed to the stack without confirmation.
\<close>

definition udp_send :: "bool \<Rightarrow> string \<Rightarrow> ip6_addr \<Rightarrow> comm_err + dgram" where
  "udp_send buf_ok bytes a =
     (if \<not> buf_ok then Inl NoMsgBuffer
      else Inr \<lparr>dst = a, dport = THREAD_COMM_PORT, data = bytes\<rparr>)"

text \<open>
  The same sequence with OpenThread's message buffers made explicit: \<open>pool\<close>
  buffers are free; \<open>otUdpNewMessage\<close> takes one or returns \<open>NULL\<close>;
  \<open>otMessageAppend\<close> may fail (unchecked: the message goes out empty);
  \<open>otUdpSend\<close> takes ownership of the message when it succeeds (the stack
  frees it after transmission) and leaves it with the caller when it fails. The
  code never calls \<open>otMessageFree\<close>, so a refused message is never returned
  to the pool.
\<close>

definition udp_send_ot :: "nat \<Rightarrow> ot_error \<Rightarrow> ot_error \<Rightarrow> string \<Rightarrow> ip6_addr \<Rightarrow> (comm_err + dgram) \<times> nat" where
  "udp_send_ot pool append_err send_err bytes a =
     (if pool = 0 then (Inl NoMsgBuffer, pool)
      else
        (let d = \<lparr>dst = a, dport = THREAD_COMM_PORT,
                  data = (if append_err = OT_ERROR_NONE then bytes else [])\<rparr>
         in if send_err = OT_ERROR_NONE then (Inr d, pool) else (Inl (SendFailed send_err), pool - 1)))"

text \<open>Repeated sends of the same bytes, with the outcomes of \<open>otMessageAppend\<close>
  and \<open>otUdpSend\<close> of each.\<close>

fun udp_send_seq ::
  "nat \<Rightarrow> (ot_error \<times> ot_error) list \<Rightarrow> string \<Rightarrow> ip6_addr \<Rightarrow> (comm_err + dgram) list \<times> nat" where
  "udp_send_seq pool [] bytes a = ([], pool)"
| "udp_send_seq pool ((ae, se) # es) bytes a =
     (case udp_send_ot pool ae se bytes a of
        (r, pool') \<Rightarrow> (case udp_send_seq pool' es bytes a of (rs, pool'') \<Rightarrow> (r # rs, pool'')))"

text \<open>The sends \<open>otUdpSend\<close> refuses.\<close>

abbreviation send_failures :: "(ot_error \<times> ot_error) list \<Rightarrow> nat" where
  "send_failures es \<equiv> length (filter (\<lambda>(ae, se). se \<noteq> OT_ERROR_NONE) es)"

section \<open>Lemmas\<close>

text \<open>The pool after a run: one buffer fewer per refused send, never below zero.\<close>

lemma udp_send_seq_pool:
  "snd (udp_send_seq pool es bytes a) = pool - send_failures es"
proof (induction pool es bytes a rule: udp_send_seq.induct)
  case (1 pool bytes a)
  then show ?case by simp
next
  case (2 pool ae se es bytes a)
  then show ?case by (auto simp: udp_send_ot_def Let_def split: prod.splits)
qed

lemma udp_send_seq_empty:
  "fst (udp_send_seq 0 es bytes a) = replicate (length es) (Inl NoMsgBuffer)"
proof (induction es)
  case Nil
  then show ?case by simp
next
  case (Cons e es)
  then show ?case by (cases e; cases "udp_send_seq 0 es bytes a") (simp add: udp_send_ot_def)
qed

section \<open>Properties of the transport\<close>

text \<open>C30: every send that \<open>otUdpSend\<close> refuses loses one message buffer for
  good, so once as many sends have failed as there were free buffers, the pool
  is empty and every later \<open>thread_comm_announce\<close> or
  \<open>thread_comm_send\<close> returns at \<open>otUdpNewMessage\<close>: the node is mute.\<close>

theorem send_failures_leak:
  assumes "pool \<le> send_failures es"
  shows "snd (udp_send_seq pool es bytes a) = 0 \<and>
         fst (udp_send_seq 0 es' bytes' a') = replicate (length es') (Inl NoMsgBuffer)"
  using udp_send_seq_pool [of pool es bytes a] udp_send_seq_empty [of es' bytes' a'] assms by simp

section \<open>Witnesses\<close>

theorem send_failures_leak_witness:
  "snd (udp_send_seq 2 [(OT_ERROR_NONE, 3), (OT_ERROR_NONE, OT_ERROR_NONE), (OT_ERROR_NONE, 3)] ''x'' 1) = 0"
  using send_failures_leak [of 2 "[(OT_ERROR_NONE, 3), (OT_ERROR_NONE, OT_ERROR_NONE), (OT_ERROR_NONE, 3)]" "''x''" 1]
  by (simp add: OT_ERROR_NONE_def)

end
