(* ===== verification/Engine.thy ===== *)
theory Engine
  imports NodeTable Codec Transport
begin

text \<open>
  The protocol engine of \<open>thread_comm.c\<close>: its module state (the static
  variables \<open>socket\<close>, \<open>self_id\<close>, \<open>self_role\<close>, \<open>nodes\<close>, \<open>rx_cb\<close>),
  the API \<open>thread_comm_init\<close>, \<open>thread_comm_announce\<close>,
  \<open>thread_comm_send\<close>, \<open>thread_comm_register_rx_cb\<close>, and the receive
  handler \<open>udp_handler\<close>. Every function takes the state and returns the new
  one; what it hands to the outside (a datagram, a callback invocation) is an
  event.
\<close>

section \<open>State\<close>

text \<open>A callback is identified by its function pointer.\<close>

type_synonym cb = nat

record comm_state =
  sock :: sock_state
  self_id :: cstring
  self_role :: cstring
  nodes :: "thread_node list"
  rx_cb :: "cb option"

text \<open>The zero-initialised statics before \<open>thread_comm_init\<close>.\<close>

definition comm_boot :: comm_state where
  "comm_boot = \<lparr>sock = SockClosed, self_id = [], self_role = [], nodes = empty_nodes, rx_cb = None\<rparr>"

text \<open>\<open>char self_role[16]\<close>.\<close>

definition SELF_ROLE_LEN :: nat where
  "SELF_ROLE_LEN = 16"

text \<open>What the module hands to its environment.\<close>

datatype event = Tx dgram | RxCallback cb cstring cstring ip6_addr

section \<open>API\<close>

definition thread_comm_init ::
  "ot_error \<Rightarrow> ot_error \<Rightarrow> cstring \<Rightarrow> cstring \<Rightarrow> comm_state \<Rightarrow> (comm_err + unit) \<times> comm_state" where
  "thread_comm_init open_err bind_err i r s =
     (let s1 = s\<lparr>self_id := strncpy_term NODE_ID_LEN i, self_role := strncpy_term SELF_ROLE_LEN r,
                 nodes := empty_nodes\<rparr>;
          (res, st) = udp_open_bind open_err bind_err
      in (res, s1\<lparr>sock := st\<rparr>))"

definition thread_comm_announce :: "bool \<Rightarrow> comm_state \<Rightarrow> comm_err + dgram" where
  "thread_comm_announce buf_ok s =
     udp_send buf_ok (encode_hello (self_id s) (self_role s)) MCAST_ALL_NODES"

definition thread_comm_send :: "bool \<Rightarrow> cstring \<Rightarrow> cstring \<Rightarrow> comm_state \<Rightarrow> comm_err + dgram" where
  "thread_comm_send buf_ok k p s =
     (case find_node k (nodes s) of
        None \<Rightarrow> Inl UnknownPeer
      | Some i \<Rightarrow> udp_send buf_ok (encode_data (self_id s) p) (eid (nodes s ! i)))"

definition thread_comm_register_rx_cb :: "cb option \<Rightarrow> comm_state \<Rightarrow> comm_state" where
  "thread_comm_register_rx_cb cb s = s\<lparr>rx_cb := cb\<rparr>"

section \<open>Receive handler\<close>

text \<open>The payload \<open>udp_handler\<close> passes to \<open>thread_comm_send\<close> after a HELLO.\<close>

definition HELLO_REPLY :: cstring where
  "HELLO_REPLY = ''HELLO|id=node_1|role=receiver''"

text \<open>The outcome of a send as the events it produces.\<close>

definition sent :: "comm_err + dgram \<Rightarrow> event list" where
  "sent r = (case r of Inl _ \<Rightarrow> [] | Inr d \<Rightarrow> [Tx d])"

text \<open>
  \<open>udp_handler\<close>: an empty message is dropped; a HELLO registers its sender
  (a full table leaves the table unchanged) and answers with
  \<open>thread_comm_send(id, HELLO_REPLY)\<close>; a DATA frame goes to the callback when
  one is registered; anything else is only logged. \<open>buf_ok\<close> is the outcome of
  \<open>otUdpNewMessage\<close> for the reply.
\<close>

definition udp_handler :: "bool \<Rightarrow> string \<Rightarrow> ip6_addr \<Rightarrow> comm_state \<Rightarrow> comm_state \<times> event list" where
  "udp_handler buf_ok msg src s =
     (if msg = [] then (s, [])
      else case classify (rx_buffer msg) of
        RxHello i r \<Rightarrow>
          (let s' = s\<lparr>nodes := (case register_node i r src (nodes s) of
                                   Inl _ \<Rightarrow> nodes s | Inr ns \<Rightarrow> ns)\<rparr>
           in (s', sent (thread_comm_send buf_ok i HELLO_REPLY s')))
      | RxData f p \<Rightarrow>
          (case rx_cb s of None \<Rightarrow> (s, []) | Some cb \<Rightarrow> (s, [RxCallback cb f p src]))
      | RxOther \<Rightarrow> (s, []))"

section \<open>Invariant\<close>

definition wf_comm :: "comm_state \<Rightarrow> bool" where
  "wf_comm s \<longleftrightarrow>
     wf_table (nodes s) \<and> length (self_id s) < NODE_ID_LEN \<and> length (self_role s) < SELF_ROLE_LEN"

text \<open>The table after a HELLO: the registered table, or the old one when full.\<close>

definition hello_nodes :: "cstring \<Rightarrow> cstring \<Rightarrow> ip6_addr \<Rightarrow> thread_node list \<Rightarrow> thread_node list" where
  "hello_nodes i r src ns = (case register_node i r src ns of Inl _ \<Rightarrow> ns | Inr ns' \<Rightarrow> ns')"

section \<open>Lemmas\<close>

lemma classify_Nil [simp]: "classify (rx_buffer []) = RxOther"
  by (simp add: classify_def rx_buffer_def cstr_def strncmp_prefix_def)

lemma udp_handler_cases:
  "udp_handler b msg src s =
     (case classify (rx_buffer msg) of
        RxHello i r \<Rightarrow>
          (s\<lparr>nodes := hello_nodes i r src (nodes s)\<rparr>,
           sent (thread_comm_send b i HELLO_REPLY (s\<lparr>nodes := hello_nodes i r src (nodes s)\<rparr>)))
      | RxData f p \<Rightarrow> (case rx_cb s of None \<Rightarrow> (s, []) | Some cb \<Rightarrow> (s, [RxCallback cb f p src]))
      | RxOther \<Rightarrow> (s, []))"
  by (cases "msg = []"; cases "classify (rx_buffer msg)") (simp_all add: udp_handler_def hello_nodes_def Let_def)

lemma hello_nodes_wf:
  "wf_table ns \<Longrightarrow> length i < NODE_ID_LEN \<Longrightarrow> wf_table (hello_nodes i r src ns)"
  by (auto simp: hello_nodes_def register_node_wf split: sum.splits)

lemma thread_comm_send_peer_map:
  "thread_comm_send b k p s =
     (case peer_map (nodes s) k of
        None \<Rightarrow> Inl UnknownPeer
      | Some (r, a) \<Rightarrow> udp_send b (encode_data (self_id s) p) a)"
  by (simp add: thread_comm_send_def peer_map_def split: option.splits)

lemma hello_fields_bounded:
  "classify buf = RxHello i r \<Longrightarrow> length i < NODE_ID_LEN \<and> length r \<le> 7"
  using parse_hello_widths [of buf] by (auto simp: classify_def case_prod_beta NODE_ID_LEN_def split: if_splits)

lemma wf_comm_self_bounds:
  "wf_comm s \<Longrightarrow> length (self_id s) \<le> 15 \<and> length (self_role s) \<le> 15"
  by (simp add: wf_comm_def NODE_ID_LEN_def SELF_ROLE_LEN_def)

lemma parse_hello_no_id:
  assumes "\<not> strncmp_prefix buf ''HELLO|id=''"
  shows "parse_hello buf = ([], [])"
proof -
  have "sscanf hello_fmt buf = []"
    unfolding hello_fmt_def by (rule sscanf_lits_mismatch [OF assms])
  then show ?thesis by (simp add: parse_hello_def scan_field_def)
qed

lemma peer_map_empty_nodes [simp]: "peer_map empty_nodes = Map.empty"
  by (auto simp: peer_map_def find_node_None_iff empty_nodes_def zero_node_def)

lemma wf_table_empty_nodes [simp]: "wf_table empty_nodes"
  by (simp add: wf_table_def empty_nodes_def zero_node_def NODE_ID_LEN_def ROLE_LEN_def)

text \<open>A HELLO with room in the table updates the peer map at the identifier read.\<close>

lemma hello_nodes_peer_map:
  assumes wf: "wf_table ns" and i: "length i < NODE_ID_LEN"
    and room: "peer_map ns i \<noteq> None \<or> (\<exists>n \<in> set ns. \<not> active n)"
  shows "peer_map (hello_nodes i r src ns) = (peer_map ns)(i \<mapsto> (strncpy_term ROLE_LEN r, src))"
proof -
  have len: "length ns = MAX_NODES" using wf by (simp add: wf_table_def)
  have "register_node i r src ns \<noteq> Inl TableFull"
    using room by (simp add: register_node_TableFull_iff [OF len])
  then obtain ns' where reg: "register_node i r src ns = Inr ns'"
    by (cases "register_node i r src ns") (auto intro: reg_error.exhaust)
  with register_node_peer_map [OF len i reg] show ?thesis by (simp add: hello_nodes_def)
qed

lemma udp_handler_wf:
  assumes wf: "wf_comm s" and h: "udp_handler b msg src s = (s', evs)"
  shows "wf_comm s'"
proof (cases "classify (rx_buffer msg)")
  case (RxHello i r)
  then have "length i < NODE_ID_LEN" by (simp add: hello_fields_bounded)
  with wf have "wf_table (hello_nodes i r src (nodes s))"
    by (simp add: wf_comm_def hello_nodes_wf)
  with RxHello h wf show ?thesis by (auto simp: udp_handler_cases wf_comm_def)
next
  case (RxData f p)
  with h wf show ?thesis by (auto simp: udp_handler_cases split: option.splits)
next
  case RxOther
  with h wf show ?thesis by (simp add: udp_handler_cases)
qed

text \<open>The only datagrams \<open>udp_handler\<close> emits are DATA frames of
  \<open>thread_comm_send\<close>.\<close>

lemma udp_handler_tx:
  assumes "udp_handler b msg src s = (s', evs)" "Tx d \<in> set evs"
  shows "\<exists>k p. thread_comm_send b k p s' = Inr d"
proof (cases "classify (rx_buffer msg)")
  case (RxHello i r)
  with assms show ?thesis
    by (auto simp: udp_handler_cases sent_def split: sum.splits) blast
next
  case (RxData f p)
  with assms show ?thesis by (auto simp: udp_handler_cases split: option.splits)
next
  case RxOther
  with assms show ?thesis by (simp add: udp_handler_cases)
qed

lemma thread_comm_send_data:
  "thread_comm_send b k p s = Inr d \<Longrightarrow> data d = encode_data (self_id s) p"
  by (auto simp: thread_comm_send_def udp_send_def split: option.splits if_splits)

lemma thread_comm_init_wf:
  "thread_comm_init oe be i r s = (res, s') \<Longrightarrow> wf_comm s'"
  by (auto simp: thread_comm_init_def udp_open_bind_def wf_comm_def strncpy_term_def
      NODE_ID_LEN_def SELF_ROLE_LEN_def split: if_splits)

section \<open>Properties of the engine\<close>

text \<open>C1: whatever datagram arrives, \<open>udp_handler\<close> keeps the module state
  well-formed (the node table keeps its invariant, the self identity its bounds)
  and changes nothing but the node table.\<close>

theorem udp_handler_preserves_wf:
  assumes wf: "wf_comm s" and h: "udp_handler b msg src s = (s', evs)"
  shows "wf_comm s' \<and> s' = s\<lparr>nodes := nodes s'\<rparr>"
proof -
  have "s' = s\<lparr>nodes := nodes s'\<rparr>"
    using h by (cases "classify (rx_buffer msg)") (auto simp: udp_handler_cases split: option.splits)
  with udp_handler_wf [OF wf h] show ?thesis by blast
qed


text \<open>C3: \<open>thread_comm_send\<close> against the peer map: an unknown peer is the error
  \<open>UnknownPeer\<close> with no datagram; a known one gets the frame
  \<open>DATA|from=<self_id>|<payload>\<close>, cut to the 127 characters of the buffer,
  at its stored address on the well-known port, unless no message buffer is
  available.\<close>

theorem thread_comm_send_spec:
  "thread_comm_send b k p s =
     (case peer_map (nodes s) k of
        None \<Rightarrow> Inl UnknownPeer
      | Some (r, a) \<Rightarrow>
          if b then Inr \<lparr>dst = a, dport = THREAD_COMM_PORT,
                        data = take 127 (''DATA|from='' @ self_id s @ ''|'' @ p)\<rparr>
          else Inl NoMsgBuffer)"
  by (simp add: thread_comm_send_peer_map udp_send_def encode_data_def snprintf_def PAYLOAD_LEN_def
      split: option.splits)

text \<open>C6: a HELLO from a peer that is known, or that finds a free slot, records the
  peer with the role as read and the sender's address, and is answered by one
  datagram to the sender: a DATA frame whose payload is the fixed text
  \<open>HELLO|id=node_1|role=receiver\<close>, not a HELLO frame of the node itself.\<close>

theorem udp_handler_hello:
  assumes wf: "wf_comm s" and c: "classify (rx_buffer msg) = RxHello i r"
    and room: "peer_map (nodes s) i \<noteq> None \<or> (\<exists>n \<in> set (nodes s). \<not> active n)"
  shows "\<exists>ns'. udp_handler True msg src s =
            (s\<lparr>nodes := ns'\<rparr>,
             [Tx \<lparr>dst = src, dport = THREAD_COMM_PORT,
                  data = ''DATA|from='' @ self_id s @ ''|'' @ HELLO_REPLY\<rparr>]) \<and>
          wf_table ns' \<and> peer_map ns' = (peer_map (nodes s))(i \<mapsto> (r, src))"
proof -
  have len: "length (nodes s) = MAX_NODES" and wft: "wf_table (nodes s)"
    using wf by (simp_all add: wf_comm_def wf_table_def)
  have b: "length i < NODE_ID_LEN" "length r \<le> 7" using c by (simp_all add: hello_fields_bounded)
  have "register_node i r src (nodes s) \<noteq> Inl TableFull"
    using room by (simp add: register_node_TableFull_iff [OF len])
  then obtain ns' where reg: "register_node i r src (nodes s) = Inr ns'"
    by (cases "register_node i r src (nodes s)") (auto intro: reg_error.exhaust)
  have pm: "peer_map ns' = (peer_map (nodes s))(i \<mapsto> (r, src))"
    using register_node_peer_map [OF len b(1) reg] b(2)
    by (simp add: strncpy_term_short ROLE_LEN_def)
  have self: "length (self_id s) + length HELLO_REPLY \<le> 116"
    using wf_comm_self_bounds [OF wf] by (simp add: HELLO_REPLY_def)
  have "udp_handler True msg src s =
      (s\<lparr>nodes := ns'\<rparr>, [Tx \<lparr>dst = src, dport = THREAD_COMM_PORT,
                               data = ''DATA|from='' @ self_id s @ ''|'' @ HELLO_REPLY\<rparr>])"
    using c reg pm self
    by (simp add: udp_handler_cases hello_nodes_def thread_comm_send_peer_map udp_send_def
        sent_def encode_data_eq)
  with register_node_wf [OF wft b(1) reg] pm show ?thesis by blast
qed

text \<open>C7: a HELLO from a new peer when all eight slots are taken changes nothing and
  sends nothing: registration fails with \<open>TableFull\<close>, and the reply is
  suppressed because \<open>thread_comm_send\<close> cannot find the peer.\<close>

theorem udp_handler_full_table:
  assumes wf: "wf_comm s" and c: "classify (rx_buffer msg) = RxHello i r"
    and unknown: "peer_map (nodes s) i = None" and full: "\<forall>n \<in> set (nodes s). active n"
  shows "udp_handler b msg src s = (s, [])"
proof -
  have len: "length (nodes s) = MAX_NODES" using wf by (simp add: wf_comm_def wf_table_def)
  have "register_node i r src (nodes s) = Inl TableFull"
    using unknown full by (simp add: register_node_TableFull_iff [OF len])
  then have "hello_nodes i r src (nodes s) = nodes s" by (simp add: hello_nodes_def)
  with c unknown show ?thesis
    by (simp add: udp_handler_cases thread_comm_send_peer_map sent_def)
qed

text \<open>C9: a DATA frame never changes the module state; it reaches the registered
  callback with the sender identifier, the payload and the source address whether
  or not the sender is in the table, and is discarded when no callback is
  registered.\<close>

theorem udp_handler_data:
  assumes "classify (rx_buffer msg) = RxData f p"
  shows "udp_handler b msg src s =
           (s, case rx_cb s of None \<Rightarrow> [] | Some cb \<Rightarrow> [RxCallback cb f p src])"
  using assms by (simp add: udp_handler_cases split: option.splits)

text \<open>C10: a datagram whose buffer starts with neither \<open>HELLO|\<close> nor
  \<open>DATA|\<close> is dropped without effect.\<close>

theorem udp_handler_malformed:
  assumes "\<not> strncmp_prefix (rx_buffer msg) ''HELLO|''" "\<not> strncmp_prefix (rx_buffer msg) ''DATA|''"
  shows "udp_handler b msg src s = (s, [])"
  using assms by (simp add: udp_handler_cases classify_def)

text \<open>C12: \<open>thread_comm_announce\<close> sends \<open>HELLO|id=<self_id>|role=<self_role>\<close>
  to \<open>ff02::1\<close> on the well-known port; with the bounds of the self identity
  the frame always fits the 64-byte buffer, so it is never truncated. The
  function has no state to change: the node does not register itself.\<close>

theorem thread_comm_announce_spec:
  assumes "wf_comm s"
  shows "thread_comm_announce b s =
           (if b then Inr \<lparr>dst = MCAST_ALL_NODES, dport = THREAD_COMM_PORT,
                          data = ''HELLO|id='' @ self_id s @ ''|role='' @ self_role s\<rparr>
            else Inl NoMsgBuffer)"
  using wf_comm_self_bounds [OF assms]
  by (simp add: thread_comm_announce_def udp_send_def encode_hello_eq)

text \<open>C13: \<open>thread_comm_init\<close> clears the table, stores the self identity cut to
  15 characters, keeps a registered callback, and leaves the module well-formed;
  it reports success, with the socket bound, exactly when both \<open>otUdpOpen\<close>
  and \<open>otUdpBind\<close> succeed.\<close>

theorem thread_comm_init_spec:
  assumes "thread_comm_init oe be i r s = (res, s')"
  shows "wf_comm s' \<and> peer_map (nodes s') = Map.empty \<and>
         self_id s' = take 15 i \<and> self_role s' = take 15 r \<and> rx_cb s' = rx_cb s \<and>
         (res = Inr () \<longleftrightarrow> oe = OT_ERROR_NONE \<and> be = OT_ERROR_NONE) \<and>
         (res = Inr () \<longleftrightarrow> sock s' = SockBound)"
  using assms
  by (auto simp: thread_comm_init_def udp_open_bind_def wf_comm_def strncpy_term_def
      NODE_ID_LEN_def SELF_ROLE_LEN_def split: if_splits)

text \<open>C15: a datagram that starts with \<open>HELLO|\<close> but not with \<open>HELLO|id=\<close>
  is not rejected: \<open>sscanf\<close> fills no field, and \<open>udp_handler\<close> registers
  the empty identifier with an empty role at the sender's address.\<close>

theorem udp_handler_empty_id:
  assumes wf: "wf_comm s"
    and hello: "strncmp_prefix (rx_buffer msg) ''HELLO|''"
    and noid: "\<not> strncmp_prefix (rx_buffer msg) ''HELLO|id=''"
    and room: "peer_map (nodes s) [] \<noteq> None \<or> (\<exists>n \<in> set (nodes s). \<not> active n)"
  shows "peer_map (nodes (fst (udp_handler b msg src s))) [] = Some ([], src)"
proof -
  have c: "classify (rx_buffer msg) = RxHello [] []"
    using hello noid by (simp add: classify_def parse_hello_no_id)
  have "wf_table (nodes s)" using wf by (simp add: wf_comm_def)
  from hello_nodes_peer_map [OF this _ room, of "[]" src]
  have "peer_map (hello_nodes [] [] src (nodes s)) [] = Some ([], src)"
    by (simp add: NODE_ID_LEN_def strncpy_term_def)
  with c show ?thesis by (simp add: udp_handler_cases)
qed

text \<open>C23: end to end, what \<open>thread_comm_send\<close> sends is what the receiving
  \<open>udp_handler\<close> hands to its registered callback, with the receiver's state
  unchanged: the sender's identifier, and the payload cut to the
  \<open>116 - length self_id\<close> characters that fit the sender's 128-byte buffer and
  then at the first newline (\<open>%127[^\n]\<close>), where the specification promises
  the remainder of the datagram.\<close>

theorem send_deliver_callback:
  assumes snd: "thread_comm_send b k p s1 = Inr d" and wf: "wf_comm s1"
    and i: "self_id s1 \<noteq> []" "CHR ''|'' \<notin> set (self_id s1)" "c_string (self_id s1)"
    and p: "c_string p" and cb: "rx_cb s2 = Some cb"
  shows "udp_handler b' (data d) src s2 =
           (s2, [RxCallback cb (self_id s1)
                   (takeWhile (\<lambda>c. c \<noteq> CHR 0x0A) (take (116 - length (self_id s1)) p)) src])"
proof -
  have "length (self_id s1) \<le> 15" using wf_comm_self_bounds [OF wf] by simp
  with i p have "classify (rx_buffer (encode_data (self_id s1) p)) =
      RxData (self_id s1) (takeWhile (\<lambda>c. c \<noteq> CHR 0x0A) (take (116 - length (self_id s1)) p))"
    by (intro classify_encode_data) simp_all
  then show ?thesis by (simp add: udp_handler_cases thread_comm_send_data [OF snd] cb)
qed

section \<open>Witnesses\<close>

theorem udp_handler_preserves_wf_witness:
  "wf_comm (fst (udp_handler True ''HELLO|id=node_2|role=receiver'' 2 (snd (thread_comm_init OT_ERROR_NONE OT_ERROR_NONE ''node_1'' ''receiver'' comm_boot))))"
proof -
  have w: "wf_comm (snd (thread_comm_init OT_ERROR_NONE OT_ERROR_NONE ''node_1'' ''receiver'' comm_boot))" by code_simp
  show ?thesis using udp_handler_preserves_wf [OF w surjective_pairing] by blast
qed

theorem udp_handler_hello_witness:
  "\<exists>ns'. udp_handler True ''HELLO|id=node_2|role=receiver'' 2 (snd (thread_comm_init OT_ERROR_NONE OT_ERROR_NONE ''node_1'' ''receiver'' comm_boot)) =
      ((snd (thread_comm_init OT_ERROR_NONE OT_ERROR_NONE ''node_1'' ''receiver'' comm_boot))\<lparr>nodes := ns'\<rparr>,
       [Tx \<lparr>dst = 2, dport = THREAD_COMM_PORT, data = ''DATA|from=node_1|HELLO|id=node_1|role=receiver''\<rparr>]) \<and>
      wf_table ns' \<and> peer_map ns' = (peer_map (nodes (snd (thread_comm_init OT_ERROR_NONE OT_ERROR_NONE ''node_1'' ''receiver'' comm_boot))))(''node_2'' \<mapsto> (''receive'', 2))"
proof -
  have h1: "wf_comm (snd (thread_comm_init OT_ERROR_NONE OT_ERROR_NONE ''node_1'' ''receiver'' comm_boot))" by code_simp
  have h2: "classify (rx_buffer ''HELLO|id=node_2|role=receiver'') = RxHello ''node_2'' ''receive''"
    by code_simp
  have h3: "peer_map (nodes (snd (thread_comm_init OT_ERROR_NONE OT_ERROR_NONE ''node_1'' ''receiver'' comm_boot))) ''node_2'' \<noteq> None \<or> (\<exists>n \<in> set (nodes (snd (thread_comm_init OT_ERROR_NONE OT_ERROR_NONE ''node_1'' ''receiver'' comm_boot))). \<not> active n)"
    by code_simp
  have self: "self_id (snd (thread_comm_init OT_ERROR_NONE OT_ERROR_NONE ''node_1'' ''receiver'' comm_boot)) = ''node_1''" by code_simp
  show ?thesis using udp_handler_hello [OF h1 h2 h3, of 2] self by (simp add: HELLO_REPLY_def)
qed

theorem udp_handler_full_table_witness:
  "udp_handler True ''HELLO|id=z|role=x'' 2 (comm_boot\<lparr>nodes := map (\<lambda>k. \<lparr>active = True, node_id = k, role = [], eid = 0\<rparr>) [''a'', ''b'', ''c'', ''d'', ''e'', ''f'', ''g'', ''h'']\<rparr>) = ((comm_boot\<lparr>nodes := map (\<lambda>k. \<lparr>active = True, node_id = k, role = [], eid = 0\<rparr>) [''a'', ''b'', ''c'', ''d'', ''e'', ''f'', ''g'', ''h'']\<rparr>), [])"
proof -
  have h1: "wf_comm (comm_boot\<lparr>nodes := map (\<lambda>k. \<lparr>active = True, node_id = k, role = [], eid = 0\<rparr>) [''a'', ''b'', ''c'', ''d'', ''e'', ''f'', ''g'', ''h'']\<rparr>)" by code_simp
  have h2: "classify (rx_buffer ''HELLO|id=z|role=x'') = RxHello ''z'' ''x''" by code_simp
  have h3: "peer_map (nodes (comm_boot\<lparr>nodes := map (\<lambda>k. \<lparr>active = True, node_id = k, role = [], eid = 0\<rparr>) [''a'', ''b'', ''c'', ''d'', ''e'', ''f'', ''g'', ''h'']\<rparr>)) ''z'' = None" by code_simp
  have h4: "\<forall>n \<in> set (nodes (comm_boot\<lparr>nodes := map (\<lambda>k. \<lparr>active = True, node_id = k, role = [], eid = 0\<rparr>) [''a'', ''b'', ''c'', ''d'', ''e'', ''f'', ''g'', ''h'']\<rparr>)). active n" by code_simp
  show ?thesis by (rule udp_handler_full_table [OF h1 h2 h3 h4])
qed

theorem udp_handler_data_witness:
  "udp_handler True ''DATA|from=C|hello'' 2 comm_boot = (comm_boot, []) \<and>
   udp_handler True ''DATA|from=C|hello'' 2 (comm_boot\<lparr>rx_cb := Some 7\<rparr>) =
     (comm_boot\<lparr>rx_cb := Some 7\<rparr>, [RxCallback 7 ''C'' ''hello'' 2])"
proof -
  have c: "classify (rx_buffer ''DATA|from=C|hello'') = RxData ''C'' ''hello''" by code_simp
  show ?thesis
    using udp_handler_data [OF c, of True 2 comm_boot] udp_handler_data [OF c, of True 2 "comm_boot\<lparr>rx_cb := Some 7\<rparr>"]
    by (simp add: comm_boot_def)
qed

theorem udp_handler_malformed_witness:
  "udp_handler True ''PING|node_2'' 2 (snd (thread_comm_init OT_ERROR_NONE OT_ERROR_NONE ''node_1'' ''receiver'' comm_boot)) = ((snd (thread_comm_init OT_ERROR_NONE OT_ERROR_NONE ''node_1'' ''receiver'' comm_boot)), [])"
proof -
  have "\<not> strncmp_prefix (rx_buffer ''PING|node_2'') ''HELLO|''"
    "\<not> strncmp_prefix (rx_buffer ''PING|node_2'') ''DATA|''" by code_simp+
  then show ?thesis by (rule udp_handler_malformed)
qed

theorem thread_comm_announce_spec_witness:
  "thread_comm_announce True (snd (thread_comm_init OT_ERROR_NONE OT_ERROR_NONE ''node_1'' ''receiver'' comm_boot)) =
     Inr \<lparr>dst = MCAST_ALL_NODES, dport = THREAD_COMM_PORT, data = ''HELLO|id=node_1|role=receiver''\<rparr>"
proof -
  have w: "wf_comm (snd (thread_comm_init OT_ERROR_NONE OT_ERROR_NONE ''node_1'' ''receiver'' comm_boot))" by code_simp
  have self: "self_id (snd (thread_comm_init OT_ERROR_NONE OT_ERROR_NONE ''node_1'' ''receiver'' comm_boot)) = ''node_1''" "self_role (snd (thread_comm_init OT_ERROR_NONE OT_ERROR_NONE ''node_1'' ''receiver'' comm_boot)) = ''receiver''" by code_simp+
  show ?thesis using thread_comm_announce_spec [OF w, of True] self by simp
qed

theorem thread_comm_init_spec_witness:
  "wf_comm (snd (thread_comm_init OT_ERROR_NONE OT_ERROR_NONE ''node_1'' ''receiver'' comm_boot)) \<and> peer_map (nodes (snd (thread_comm_init OT_ERROR_NONE OT_ERROR_NONE ''node_1'' ''receiver'' comm_boot))) = Map.empty \<and> sock (snd (thread_comm_init OT_ERROR_NONE OT_ERROR_NONE ''node_1'' ''receiver'' comm_boot)) = SockBound"
proof -
  let ?r = "thread_comm_init OT_ERROR_NONE OT_ERROR_NONE ''node_1'' ''receiver'' comm_boot"
  have e: "?r = (fst ?r, snd ?r)" by (rule surjective_pairing)
  have ok: "fst ?r = Inr ()" by code_simp
  from thread_comm_init_spec [OF e] ok show ?thesis by simp
qed

theorem udp_handler_empty_id_witness:
  "peer_map (nodes (fst (udp_handler True ''HELLO|garbage'' 2 (snd (thread_comm_init OT_ERROR_NONE OT_ERROR_NONE ''node_1'' ''receiver'' comm_boot))))) [] = Some ([], 2)"
proof -
  have h1: "wf_comm (snd (thread_comm_init OT_ERROR_NONE OT_ERROR_NONE ''node_1'' ''receiver'' comm_boot))" by code_simp
  have h2: "strncmp_prefix (rx_buffer ''HELLO|garbage'') ''HELLO|''" by code_simp
  have h3: "\<not> strncmp_prefix (rx_buffer ''HELLO|garbage'') ''HELLO|id=''" by code_simp
  have h4: "peer_map (nodes (snd (thread_comm_init OT_ERROR_NONE OT_ERROR_NONE ''node_1'' ''receiver'' comm_boot))) [] \<noteq> None \<or> (\<exists>n \<in> set (nodes (snd (thread_comm_init OT_ERROR_NONE OT_ERROR_NONE ''node_1'' ''receiver'' comm_boot))). \<not> active n)"
    by code_simp
  show ?thesis by (rule udp_handler_empty_id [OF h1 h2 h3 h4])
qed

theorem send_deliver_callback_witness:
  "udp_handler True ''DATA|from=node_1|temp:25.5\<newline>hum:60'' 2 (comm_boot\<lparr>rx_cb := Some 7\<rparr>) =
     (comm_boot\<lparr>rx_cb := Some 7\<rparr>, [RxCallback 7 ''node_1'' ''temp:25.5'' 2])"
proof -
  let ?s1 = "fst (udp_handler True ''HELLO|id=node_2|role=receiver'' 2
              (snd (thread_comm_init OT_ERROR_NONE OT_ERROR_NONE ''node_1'' ''receiver'' comm_boot)))"
  let ?d = "\<lparr>dst = 2, dport = THREAD_COMM_PORT, data = ''DATA|from=node_1|temp:25.5\<newline>hum:60''\<rparr>"
  let ?s2 = "comm_boot\<lparr>rx_cb := Some 7\<rparr>"
  have snd: "thread_comm_send True ''node_2'' ''temp:25.5\<newline>hum:60'' ?s1 = Inr ?d" by code_simp
  have wf: "wf_comm ?s1" by code_simp
  have id: "self_id ?s1 = ''node_1''" by code_simp
  have i: "self_id ?s1 \<noteq> []" "CHR ''|'' \<notin> set (self_id ?s1)" "c_string (self_id ?s1)"
    by (simp_all add: id c_string_def)
  have p: "c_string ''temp:25.5\<newline>hum:60''" by (simp add: c_string_def)
  have cb: "rx_cb ?s2 = Some 7" by simp
  have "udp_handler True (data ?d) 2 ?s2 =
      (?s2, [RxCallback 7 (self_id ?s1)
               (takeWhile (\<lambda>c. c \<noteq> CHR 0x0A) (take (116 - length (self_id ?s1)) ''temp:25.5\<newline>hum:60'')) 2])"
    by (rule send_deliver_callback [OF snd wf i p cb])
  then show ?thesis by (simp add: id)
qed

end
