(* ===== verification/Dataset.thy ===== *)
theory Dataset
  imports CLib
begin

text \<open>
  The network configuration both node programs build in \<open>ot_task_worker\<close>
  (\<open>src/NODE_1/main/esp_ot_cli.c\<close>, \<open>src/NODE_2/main/esp_ot_cli.c\<close>): the
  \<open>otOperationalDataset\<close> zeroed by \<open>memset\<close>, then filled field by field,
  and the start of the Thread interface with it. OpenThread's TLV conversion
  and the radio are external: the active dataset of the instance is modelled
  as the dataset itself.
\<close>

section \<open>OpenThread sizes and types\<close>

definition OT_EXT_PAN_ID_SIZE :: nat where
  "OT_EXT_PAN_ID_SIZE = 8"

definition OT_NETWORK_NAME_MAX_SIZE :: nat where
  "OT_NETWORK_NAME_MAX_SIZE = 16"

definition OT_NETWORK_KEY_SIZE :: nat where
  "OT_NETWORK_KEY_SIZE = 16"

definition OT_MESH_LOCAL_PREFIX_SIZE :: nat where
  "OT_MESH_LOCAL_PREFIX_SIZE = 8"

text \<open>
  The fields of \<open>otOperationalDataset\<close> the programs set, with the
  \<open>mComponents\<close> presence flag of each. Byte arrays are lists of bytes,
  \<open>mNetworkName.m8\<close> is a C string.
\<close>

record ot_dataset =
  active_ts :: "64 word"
  active_ts_present :: bool
  channel :: "16 word"
  channel_present :: bool
  pan_id :: "16 word"
  pan_id_present :: bool
  ext_pan_id :: "8 word list"
  ext_pan_id_present :: bool
  network_name :: cstring
  network_name_present :: bool
  network_key :: "8 word list"
  network_key_present :: bool
  ml_prefix :: "8 word list"
  ml_prefix_present :: bool

text \<open>The OpenThread instance, as far as \<open>ot_task_worker\<close> sets it.\<close>

record ot_instance =
  active_dataset :: "ot_dataset option"
  ip6_enabled :: bool
  thread_enabled :: bool

section \<open>Building the dataset\<close>

text \<open>\<open>memset(&dataset, 0, sizeof(dataset))\<close>.\<close>

definition dataset_zero :: ot_dataset where
  "dataset_zero =
     \<lparr>active_ts = 0, active_ts_present = False, channel = 0, channel_present = False,
      pan_id = 0, pan_id_present = False,
      ext_pan_id = replicate OT_EXT_PAN_ID_SIZE 0, ext_pan_id_present = False,
      network_name = [], network_name_present = False,
      network_key = replicate OT_NETWORK_KEY_SIZE 0, network_key_present = False,
      ml_prefix = replicate OT_MESH_LOCAL_PREFIX_SIZE 0, ml_prefix_present = False\<rparr>"

text \<open>
  \<open>memcpy(dst, src, n)\<close> into an \<open>n\<close>-byte array: the first \<open>n\<close> bytes of
  the source.
\<close>

definition memcpy_arr :: "nat \<Rightarrow> 8 word list \<Rightarrow> 8 word list" where
  "memcpy_arr n src = take n src"

text \<open>
  The dataset of node 1, assignment by assignment. \<open>mNetworkName.m8\<close> has
  \<open>OT_NETWORK_NAME_MAX_SIZE + 1\<close> bytes, zeroed by the \<open>memset\<close>, and
  \<open>strncpy\<close> copies at most \<open>OT_NETWORK_NAME_MAX_SIZE - 1\<close> characters.
\<close>

definition node1_dataset :: ot_dataset where
  "node1_dataset =
     (let d = dataset_zero;
          d = d\<lparr>active_ts := 1\<rparr>;
          d = d\<lparr>active_ts_present := True\<rparr>;
          d = d\<lparr>channel := 15\<rparr>;
          d = d\<lparr>channel_present := True\<rparr>;
          d = d\<lparr>pan_id := 0x1234\<rparr>;
          d = d\<lparr>pan_id_present := True\<rparr>;
          ext_panid = [0xDE, 0xAD, 0xBE, 0xEF, 0xCA, 0xFE, 0x12, 0x34];
          d = d\<lparr>ext_pan_id := memcpy_arr OT_EXT_PAN_ID_SIZE ext_panid\<rparr>;
          d = d\<lparr>ext_pan_id_present := True\<rparr>;
          name = ''OpenThread-ESP'';
          d = d\<lparr>network_name := strncpy_term OT_NETWORK_NAME_MAX_SIZE name\<rparr>;
          d = d\<lparr>network_name_present := True\<rparr>;
          key = [0x00, 0x11, 0x22, 0x33, 0x44, 0x55, 0x66, 0x77,
                 0x88, 0x99, 0xAA, 0xBB, 0xCC, 0xDD, 0xEE, 0xFF];
          d = d\<lparr>network_key := memcpy_arr OT_NETWORK_KEY_SIZE key\<rparr>;
          d = d\<lparr>network_key_present := True\<rparr>;
          prefix = [0xfd, 0x00, 0xca, 0xfe, 0xba, 0xbe, 0x00, 0x00];
          d = d\<lparr>ml_prefix := memcpy_arr OT_MESH_LOCAL_PREFIX_SIZE prefix\<rparr>
      in d\<lparr>ml_prefix_present := True\<rparr>)"

text \<open>The dataset of node 2, written separately in its own program.\<close>

definition node2_dataset :: ot_dataset where
  "node2_dataset =
     (let d = dataset_zero;
          d = d\<lparr>active_ts := 1\<rparr>;
          d = d\<lparr>active_ts_present := True\<rparr>;
          d = d\<lparr>channel := 15\<rparr>;
          d = d\<lparr>channel_present := True\<rparr>;
          d = d\<lparr>pan_id := 0x1234\<rparr>;
          d = d\<lparr>pan_id_present := True\<rparr>;
          ext_panid = [0xDE, 0xAD, 0xBE, 0xEF, 0xCA, 0xFE, 0x12, 0x34];
          d = d\<lparr>ext_pan_id := memcpy_arr OT_EXT_PAN_ID_SIZE ext_panid\<rparr>;
          d = d\<lparr>ext_pan_id_present := True\<rparr>;
          name = ''OpenThread-ESP'';
          d = d\<lparr>network_name := strncpy_term OT_NETWORK_NAME_MAX_SIZE name\<rparr>;
          d = d\<lparr>network_name_present := True\<rparr>;
          key = [0x00, 0x11, 0x22, 0x33, 0x44, 0x55, 0x66, 0x77,
                 0x88, 0x99, 0xAA, 0xBB, 0xCC, 0xDD, 0xEE, 0xFF];
          d = d\<lparr>network_key := memcpy_arr OT_NETWORK_KEY_SIZE key\<rparr>;
          d = d\<lparr>network_key_present := True\<rparr>;
          prefix = [0xfd, 0x00, 0xca, 0xfe, 0xba, 0xbe, 0x00, 0x00];
          d = d\<lparr>ml_prefix := memcpy_arr OT_MESH_LOCAL_PREFIX_SIZE prefix\<rparr>
      in d\<lparr>ml_prefix_present := True\<rparr>)"

text \<open>
  The \<open>Start Thread\<close> block: \<open>otDatasetSetActiveTlvs\<close> with the converted
  dataset, then \<open>otIp6SetEnabled\<close> and \<open>otThreadSetEnabled\<close>.
\<close>

definition ot_thread_start :: "ot_dataset \<Rightarrow> ot_instance \<Rightarrow> ot_instance" where
  "ot_thread_start d inst =
     (let inst = inst\<lparr>active_dataset := Some d\<rparr>;
          inst = inst\<lparr>ip6_enabled := True\<rparr>
      in inst\<lparr>thread_enabled := True\<rparr>)"

end
