(* ===== verification/Logging.thy ===== *)
theory Logging
  imports Engine
begin

unbundle bit_operations_syntax

text \<open>
  The log output of \<open>thread_comm.c\<close>: the \<open>ESP_LOGI\<close>, \<open>ESP_LOGW\<close> and
  \<open>ESP_LOGE\<close> lines of each operation, tag \<open>THREAD_COMM\<close>, as the list of
  lines an operation writes, computed from the outcome of the engine operation
  (\<open>Engine\<close>) on the same input, branch by branch as the code writes them.
  The \<open>printf\<close> output of \<open>thread_comm_print_nodes\<close> is modelled in
  \<open>NodeTable\<close>. The \<open>%d\<close> and \<open>%04x\<close> conversions of the format strings
  are written out; \<open>m16[7]\<close> of an address is read as the ESP32 (a
  little-endian target) reads a 16-bit word of the network-order address bytes.
\<close>

section \<open>Log lines\<close>

text \<open>\<open>esp_log_level_t\<close>.\<close>

datatype log_level =
  ESP_LOG_NONE | ESP_LOG_ERROR | ESP_LOG_WARN | ESP_LOG_INFO | ESP_LOG_DEBUG | ESP_LOG_VERBOSE

record log_line =
  log_lvl :: log_level
  log_tag :: string
  log_msg :: string

text \<open>\<open>#define TAG "THREAD_COMM"\<close>.\<close>

definition COMM_TAG :: string where
  "COMM_TAG = ''THREAD_COMM''"

definition comm_log :: "log_level \<Rightarrow> string \<Rightarrow> log_line" where
  "comm_log l m = \<lparr>log_lvl = l, log_tag = COMM_TAG, log_msg = m\<rparr>"

section \<open>Number conversions\<close>

definition hex_digit :: "nat \<Rightarrow> char" where
  "hex_digit k = ''0123456789abcdef'' ! (k mod 16)"

text \<open>\<open>%d\<close> of a non-negative value.\<close>

fun fmt_dec :: "nat \<Rightarrow> string" where
  "fmt_dec n = (if n < 10 then [hex_digit n] else fmt_dec (n div 10) @ [hex_digit (n mod 10)])"

declare fmt_dec.simps [simp del]

text \<open>\<open>%04x\<close> of a 16-bit value: four lower-case hex digits, zero-padded.\<close>

definition fmt_hex4 :: "16 word \<Rightarrow> string" where
  "fmt_hex4 w = map (\<lambda>k. hex_digit (unat w div 16 ^ k)) [3, 2, 1, 0]"

text \<open>
  \<open>info->mPeerAddr.mFields.m16[7]\<close>: the last two bytes of the address
  (bytes 14 and 15, in network order) read as a \<open>uint16_t\<close> on the
  little-endian ESP32, so byte 14 is the low byte.
\<close>

definition m16_7 :: "ip6_addr \<Rightarrow> 16 word" where
  "m16_7 a = ucast (drop_bit 8 a AND 0xFF) OR push_bit 8 (ucast (a AND 0xFF))"

section \<open>The lines of each operation\<close>

text \<open>\<open>thread_comm_init\<close>: an error line for a failed \<open>otUdpOpen\<close> or
  \<open>otUdpBind\<close>, else the identity as stored.\<close>

definition thread_comm_init_log ::
  "ot_error \<Rightarrow> ot_error \<Rightarrow> cstring \<Rightarrow> cstring \<Rightarrow> comm_state \<Rightarrow> log_line list" where
  "thread_comm_init_log oe be i r s =
     (case thread_comm_init oe be i r s of
        (Inl (OpenFailed e), _) \<Rightarrow> [comm_log ESP_LOG_ERROR (''otUdpOpen failed: '' @ fmt_dec e)]
      | (Inl (BindFailed e), _) \<Rightarrow> [comm_log ESP_LOG_ERROR (''otUdpBind failed: '' @ fmt_dec e)]
      | (Inl _, _) \<Rightarrow> []
      | (Inr (), s') \<Rightarrow>
          [comm_log ESP_LOG_INFO
             (''thread_comm init ok (id='' @ self_id s' @ '' role='' @ self_role s' @ '')'')])"

text \<open>\<open>thread_comm_announce\<close>: \<open>HELLO announced\<close> unless it returned for
  want of a message buffer.\<close>

definition thread_comm_announce_log :: "bool \<Rightarrow> comm_state \<Rightarrow> log_line list" where
  "thread_comm_announce_log b s =
     (case thread_comm_announce b s of
        Inl NoMsgBuffer \<Rightarrow> []
      | _ \<Rightarrow> [comm_log ESP_LOG_INFO ''HELLO announced''])"

text \<open>\<open>thread_comm_send\<close>: a warning for an unknown peer.\<close>

definition thread_comm_send_log :: "cstring \<Rightarrow> comm_state \<Rightarrow> log_line list" where
  "thread_comm_send_log k s =
     (case find_node k (nodes s) of
        None \<Rightarrow> [comm_log ESP_LOG_WARN (''Node '' @ k @ '' not found'')]
      | Some _ \<Rightarrow> [])"

text \<open>\<open>register_node\<close>: a line when a slot was found.\<close>

definition register_node_log :: "cstring \<Rightarrow> cstring \<Rightarrow> ip6_addr \<Rightarrow> thread_node list \<Rightarrow> log_line list" where
  "register_node_log i r a ns =
     (case register_node i r a ns of
        Inl _ \<Rightarrow> []
      | Inr _ \<Rightarrow> [comm_log ESP_LOG_INFO (''Node registered: '' @ i @ '' ('' @ r @ '')'')])"

text \<open>
  \<open>udp_handler\<close>: nothing for an empty message; otherwise the received
  buffer, then for a HELLO the lines of \<open>register_node\<close> and of the reply's
  \<open>thread_comm_send\<close> (and the early \<open>return\<close>), and for anything else,
  after the callback, the sender's last address group and the buffer.
\<close>

definition udp_handler_log :: "string \<Rightarrow> ip6_addr \<Rightarrow> comm_state \<Rightarrow> log_line list" where
  "udp_handler_log msg src s =
     (if msg = [] then []
      else
        let buf = rx_buffer msg
        in comm_log ESP_LOG_INFO (''RX UDP: '' @ buf) #
           (case classify buf of
              RxHello i r \<Rightarrow>
                register_node_log i r src (nodes s) @
                thread_comm_send_log i (s\<lparr>nodes := hello_nodes i r src (nodes s)\<rparr>)
            | _ \<Rightarrow> [comm_log ESP_LOG_INFO (''RX from '' @ fmt_hex4 (m16_7 src) @ '': '' @ buf)]))"

section \<open>Lemmas\<close>

lemma fmt_hex4_length [simp]: "length (fmt_hex4 w) = 4"
  by (simp add: fmt_hex4_def)

lemma fmt_dec_ne [simp]: "fmt_dec n \<noteq> []"
  by (induction n rule: fmt_dec.induct) (subst fmt_dec.simps; simp)

lemma hello_log_lines:
  assumes wf: "wf_table ns" and i: "length i < NODE_ID_LEN"
  shows "register_node_log i r src ns @ thread_comm_send_log i (s\<lparr>nodes := hello_nodes i r src ns\<rparr>) =
     (if peer_map ns i = None \<and> (\<forall>n \<in> set ns. active n)
      then [comm_log ESP_LOG_WARN (''Node '' @ i @ '' not found'')]
      else [comm_log ESP_LOG_INFO (''Node registered: '' @ i @ '' ('' @ r @ '')'')])"
proof -
  have len: "length ns = MAX_NODES" using wf by (simp add: wf_table_def)
  show ?thesis
  proof (cases "register_node i r src ns")
    case (Inl e)
    then have full: "register_node i r src ns = Inl TableFull" by (cases e) simp
    then have "find_node i ns = None" by (simp add: register_node_Inl_iff)
    moreover have "peer_map ns i = None \<and> (\<forall>n \<in> set ns. active n)"
      using full register_node_TableFull_iff [OF len] by blast
    ultimately show ?thesis
      using full by (simp add: register_node_log_def thread_comm_send_log_def hello_nodes_def)
  next
    case (Inr ns')
    then have "peer_map ns' i \<noteq> None"
      using register_node_peer_map [OF len i Inr] by simp
    then have "find_node i ns' \<noteq> None" by (simp add: peer_map_def)
    moreover have "\<not> (peer_map ns i = None \<and> (\<forall>n \<in> set ns. active n))"
      using Inr register_node_TableFull_iff [OF len, of i r src] by auto
    ultimately show ?thesis
      using Inr by (auto simp: register_node_log_def thread_comm_send_log_def hello_nodes_def)
  qed
qed

lemma bit_255_int: "bit (255 :: int) n \<longleftrightarrow> n < 8"
proof -
  have "bit (255 :: int) n \<longleftrightarrow> bit (mask 8 :: int) n" by (simp add: mask_eq_exp_minus_1)
  also have "\<dots> \<longleftrightarrow> n < 8" by (simp add: bit_mask_iff)
  finally show ?thesis .
qed

lemma m16_7_swap: "m16_7 a = push_bit 8 (ucast a) OR drop_bit 8 (ucast a :: 16 word)"
  by (rule bit_word_eqI) (auto simp: m16_7_def bit_simps bit_255_int)

lemma classify_not_hello:
  "\<not> strncmp_prefix buf ''HELLO|'' \<Longrightarrow> classify buf = RxOther \<or> (\<exists>f p. classify buf = RxData f p)"
  by (auto simp: classify_def split: prod.splits)

section \<open>Properties\<close>

text \<open>C18: the log of a HELLO agrees with what the handler did to the table:
  after the received buffer, \<open>Node registered: id (role)\<close> when the
  identifier is known or a slot is free, and otherwise only the reply's warning
  \<open>Node id not found\<close>: a full table is not reported as such.\<close>

theorem udp_handler_log_hello:
  assumes "msg \<noteq> []" "classify (rx_buffer msg) = RxHello i r" "wf_table (nodes s)"
  shows "udp_handler_log msg src s =
     comm_log ESP_LOG_INFO (''RX UDP: '' @ rx_buffer msg) #
     (if peer_map (nodes s) i = None \<and> (\<forall>n \<in> set (nodes s). active n)
      then [comm_log ESP_LOG_WARN (''Node '' @ i @ '' not found'')]
      else [comm_log ESP_LOG_INFO (''Node registered: '' @ i @ '' ('' @ r @ '')'')])"
proof -
  have "length i < NODE_ID_LEN" using hello_fields_bounded [OF assms(2)] by simp
  then show ?thesis
    using assms hello_log_lines [OF assms(3), of i r src s] by (simp add: udp_handler_log_def)
qed

text \<open>C26: every datagram that is not a HELLO, a DATA frame or noise, is
  logged twice: the buffer, then \<open>RX from %04x\<close> with the last group of
  the sender's address as the ESP32 reads \<open>m16[7]\<close>, its two bytes
  swapped.\<close>

theorem udp_handler_log_other:
  assumes "msg \<noteq> []" "\<not> strncmp_prefix (rx_buffer msg) ''HELLO|''"
  shows "udp_handler_log msg src s =
     [comm_log ESP_LOG_INFO (''RX UDP: '' @ rx_buffer msg),
      comm_log ESP_LOG_INFO (''RX from '' @ fmt_hex4 (push_bit 8 (ucast src) OR drop_bit 8 (ucast src)) @
                             '': '' @ rx_buffer msg)]"
  using classify_not_hello [OF assms(2)] assms(1)
  by (auto simp: udp_handler_log_def m16_7_swap Let_def)


section \<open>Witnesses\<close>

theorem udp_handler_log_hello_witness:
  "udp_handler_log ''HELLO|id=z|role=x'' 2
     (comm_boot\<lparr>nodes := map (\<lambda>k. \<lparr>active = True, node_id = k, role = [], eid = 0\<rparr>) [''a'', ''b'', ''c'', ''d'', ''e'', ''f'', ''g'', ''h'']\<rparr>) =
   [comm_log ESP_LOG_INFO ''RX UDP: HELLO|id=z|role=x'', comm_log ESP_LOG_WARN ''Node z not found'']"
proof -
  let ?s = "comm_boot\<lparr>nodes := map (\<lambda>k. \<lparr>active = True, node_id = k, role = [], eid = 0\<rparr>) [''a'', ''b'', ''c'', ''d'', ''e'', ''f'', ''g'', ''h'']\<rparr>"
  have h1: "classify (rx_buffer ''HELLO|id=z|role=x'') = RxHello ''z'' ''x''" by code_simp
  have h2: "wf_table (nodes ?s)" by code_simp
  have h3: "peer_map (nodes ?s) ''z'' = None" by code_simp
  have h4: "\<forall>n \<in> set (nodes ?s). active n" by code_simp
  have h5: "rx_buffer ''HELLO|id=z|role=x'' = ''HELLO|id=z|role=x''" by code_simp
  have e: "udp_handler_log ''HELLO|id=z|role=x'' 2 ?s =
      comm_log ESP_LOG_INFO (''RX UDP: '' @ rx_buffer ''HELLO|id=z|role=x'') #
      (if peer_map (nodes ?s) ''z'' = None \<and> (\<forall>n \<in> set (nodes ?s). active n)
       then [comm_log ESP_LOG_WARN (''Node '' @ ''z'' @ '' not found'')]
       else [comm_log ESP_LOG_INFO (''Node registered: '' @ ''z'' @ '' ('' @ ''x'' @ '')'')])"
    by (rule udp_handler_log_hello [OF _ h1 h2]) simp
  show ?thesis
    unfolding e by (simp only: h3 h4 h5 simp_thms if_True) simp
qed

theorem udp_handler_log_other_witness:
  "udp_handler_log ''DATA|from=node_1|ping'' 0xFD000000000000000000000000000002 comm_boot =
   [comm_log ESP_LOG_INFO ''RX UDP: DATA|from=node_1|ping'',
    comm_log ESP_LOG_INFO ''RX from 0200: DATA|from=node_1|ping'']"
proof -
  have h1: "\<not> strncmp_prefix (rx_buffer ''DATA|from=node_1|ping'') ''HELLO|''" by code_simp
  have h2: "rx_buffer ''DATA|from=node_1|ping'' = ''DATA|from=node_1|ping''" by code_simp
  have h3: "fmt_hex4 (push_bit 8 (ucast (0xFD000000000000000000000000000002 :: ip6_addr)) OR
              drop_bit 8 (ucast (0xFD000000000000000000000000000002 :: ip6_addr))) = ''0200''"
    by (simp add: fmt_hex4_def hex_digit_def)
  show ?thesis
    using udp_handler_log_other [of "''DATA|from=node_1|ping''" "0xFD000000000000000000000000000002" comm_boot] h1 h2 h3
    by simp
qed

end
