(* ===== verification/Apps.thy ===== *)
theory Apps
  imports Engine Dataset Logging
begin

text \<open>
  The two node programs \<open>src/NODE_1/main/esp_ot_cli.c\<close> and
  \<open>src/NODE_2/main/esp_ot_cli.c\<close> as clients of the engine: the calls they
  make into \<open>thread_comm\<close> (each under the OpenThread lock, so each call is one
  atomic step) as a list of \<open>api_call\<close>s, run by \<open>run_calls\<close> over the
  engine state, their \<open>on_thread_data\<close> callbacks as the lines they log,
  and the log lines of their tasks, interleaved with the module's own
  (\<open>Logging\<close>). Delays and the mesh start-up are not modelled; the infinite
  loops of the tasks are modelled by their first \<open>n\<close> iterations.
\<close>

section \<open>Calls into the module\<close>

datatype api_call =
    Init ot_error ot_error cstring cstring
  | Announce bool
  | Send bool cstring cstring
  | RegisterCb "cb option"
  | PrintNodes
  | Inbound bool string ip6_addr

text \<open>What the module makes visible: an event, a printed line, or a failure that
  the code only logs.\<close>

datatype api_out = Out event | Print string | Logged comm_err

definition outcome :: "comm_err + dgram \<Rightarrow> api_out list" where
  "outcome r = (case r of Inl e \<Rightarrow> [Logged e] | Inr d \<Rightarrow> [Out (Tx d)])"

fun run_call :: "comm_state \<Rightarrow> api_call \<Rightarrow> comm_state \<times> api_out list" where
  "run_call s (Init oe be i r) =
     (case thread_comm_init oe be i r s of
        (Inl e, s') \<Rightarrow> (s', [Logged e]) | (Inr _, s') \<Rightarrow> (s', []))"
| "run_call s (Announce b) = (s, outcome (thread_comm_announce b s))"
| "run_call s (Send b k p) = (s, outcome (thread_comm_send b k p s))"
| "run_call s (RegisterCb cb) = (thread_comm_register_rx_cb cb s, [])"
| "run_call s PrintNodes = (s, map Print (thread_comm_print_nodes (nodes s)))"
| "run_call s (Inbound b msg src) =
     (case udp_handler b msg src s of (s', evs) \<Rightarrow> (s', map Out evs))"

fun run_calls :: "comm_state \<Rightarrow> api_call list \<Rightarrow> comm_state \<times> api_out list" where
  "run_calls s [] = (s, [])"
| "run_calls s (c # cs) =
     (case run_call s c of
        (s', o1) \<Rightarrow> (case run_calls s' cs of (s'', o2) \<Rightarrow> (s'', o1 @ o2)))"

text \<open>The datagrams among the outputs.\<close>

fun tx_list :: "api_out list \<Rightarrow> dgram list" where
  "tx_list [] = []"
| "tx_list (Out (Tx d) # os) = d # tx_list os"
| "tx_list (_ # os) = tx_list os"

text \<open>Calls that read the module state without changing it.\<close>

fun read_only :: "api_call \<Rightarrow> bool" where
  "read_only (Announce b) = True"
| "read_only (Send b k p) = True"
| "read_only PrintNodes = True"
| "read_only _ = False"

section \<open>Node 1\<close>

text \<open>The function pointer of \<open>on_thread_data\<close> of each program.\<close>

definition NODE1_CB :: cb where
  "NODE1_CB = 1"

definition NODE2_CB :: cb where
  "NODE2_CB = 2"

text \<open>
  \<open>ot_task_worker\<close> of node 1 after the mesh start: \<open>thread_comm_init\<close>
  as \<open>node_1\<close>/\<open>receiver\<close>, three announces, the callback, one table print.
  \<open>oe\<close>, \<open>be\<close> are the outcomes of \<open>otUdpOpen\<close>/\<open>otUdpBind\<close>, \<open>b\<close>
  that of \<open>otUdpNewMessage\<close>.
\<close>

definition node1_boot :: "ot_error \<Rightarrow> ot_error \<Rightarrow> bool \<Rightarrow> api_call list" where
  "node1_boot oe be b =
     [Init oe be ''node_1'' ''receiver''] @ replicate 3 (Announce b) @
     [RegisterCb (Some NODE1_CB), PrintNodes]"

text \<open>
  \<open>app_task\<close> of node 1: the discover phase (print, then \<open>ping\<close> to
  \<open>node_2\<close>), then \<open>n\<close> rounds of the send loop.
\<close>

definition node1_app :: "bool \<Rightarrow> nat \<Rightarrow> api_call list" where
  "node1_app b n =
     [PrintNodes, Send b ''node_2'' ''ping''] @
     concat (replicate n [Send b ''node_2'' ''temp:25.5, hum:60'', PrintNodes])"

section \<open>Node 2\<close>

text \<open>\<open>otDeviceRole\<close>, in the order of its values.\<close>

datatype device_role = RoleDisabled | RoleDetached | RoleChild | RoleRouter | RoleLeader

fun role_rank :: "device_role \<Rightarrow> nat" where
  "role_rank RoleDisabled = 0"
| "role_rank RoleDetached = 1"
| "role_rank RoleChild = 2"
| "role_rank RoleRouter = 3"
| "role_rank RoleLeader = 4"

text \<open>\<open>ot_task_worker\<close> of node 2: init as \<open>node_2\<close>/\<open>receiver\<close>, then the callback.\<close>

definition node2_boot :: "ot_error \<Rightarrow> ot_error \<Rightarrow> api_call list" where
  "node2_boot oe be = [Init oe be ''node_2'' ''receiver'', RegisterCb (Some NODE2_CB)]"

text \<open>
  \<open>app_task\<close> of node 2: each round reads the device role and announces once,
  the first time the node is at least a child; \<open>announced\<close> is the task's local
  flag and the list the roles read in successive rounds.
\<close>

fun node2_app :: "bool \<Rightarrow> bool \<Rightarrow> device_role list \<Rightarrow> api_call list" where
  "node2_app b announced [] = []"
| "node2_app b announced (r # rs) =
     (if \<not> announced \<and> role_rank RoleChild \<le> role_rank r
      then Announce b # node2_app b True rs
      else node2_app b announced rs)"

section \<open>The OpenThread tasks\<close>

text \<open>
  \<open>ot_task_worker\<close> of each program, from the dataset on: the dataset is
  built and made active and Thread started (\<open>Dataset\<close>), then the boot
  calls into the module are made, and then \<open>app_task\<close> runs its calls. The
  datagrams the mainloop delivers interleave with the task's calls; the
  mesh model (\<open>Mesh\<close>) covers them, this model the node's own calls.
\<close>

definition node1_worker ::
  "ot_error \<Rightarrow> ot_error \<Rightarrow> bool \<Rightarrow> nat \<Rightarrow> ot_instance \<Rightarrow> ot_instance \<times> api_call list" where
  "node1_worker oe be b n inst = (ot_thread_start node1_dataset inst, node1_boot oe be b @ node1_app b n)"

definition node2_worker ::
  "ot_error \<Rightarrow> ot_error \<Rightarrow> bool \<Rightarrow> device_role list \<Rightarrow> ot_instance \<Rightarrow> ot_instance \<times> api_call list" where
  "node2_worker oe be b rs inst = (ot_thread_start node2_dataset inst, node2_boot oe be @ node2_app b False rs)"

section \<open>Callbacks\<close>

text \<open>
  \<open>on_thread_data\<close> of each program: the line it logs with \<open>ESP_LOGI\<close>
  (the text after the log prefix). \<open>ip_str\<close> stands for
  \<open>otIp6AddressToString\<close>, an OpenThread library function.
\<close>

definition on_thread_data1 :: "(ip6_addr \<Rightarrow> string) \<Rightarrow> cstring \<Rightarrow> cstring \<Rightarrow> ip6_addr \<Rightarrow> string" where
  "on_thread_data1 ip_str from payload src =
     ''RX DATA from '' @ from @ '' ('' @ ip_str src @ ''): '' @ payload"

definition on_thread_data2 :: "(ip6_addr \<Rightarrow> string) \<Rightarrow> cstring \<Rightarrow> cstring \<Rightarrow> ip6_addr \<Rightarrow> string" where
  "on_thread_data2 ip_str from payload src =
     ''RX from '' @ from @ '' ('' @ ip_str src @ ''): '' @ payload"

text \<open>The call \<open>s_rx_cb(from, payload, src)\<close> of \<open>udp_handler\<close> through the
  registered function pointer, and the lines a run logs this way.\<close>

fun callback_line :: "(ip6_addr \<Rightarrow> string) \<Rightarrow> api_out \<Rightarrow> string list" where
  "callback_line ip_str (Out (RxCallback cb f p a)) =
     (if cb = NODE1_CB then [on_thread_data1 ip_str f p a]
      else if cb = NODE2_CB then [on_thread_data2 ip_str f p a] else [])"
| "callback_line ip_str _ = []"

definition app_log :: "(ip6_addr \<Rightarrow> string) \<Rightarrow> api_out list \<Rightarrow> string list" where
  "app_log ip_str os = concat (map (callback_line ip_str) os)"

section \<open>The programs' own lines\<close>

text \<open>An \<open>ESP_LOGI\<close> line of a node program, under its \<open>TAG\<close>
  (\<open>NODE_1\<close> or \<open>NODE_2\<close>).\<close>

definition app_info :: "string \<Rightarrow> string \<Rightarrow> log_line" where
  "app_info tag m = \<lparr>log_lvl = ESP_LOG_INFO, log_tag = tag, log_msg = m\<rparr>"

text \<open>
  The log of node 1's \<open>ot_task_worker\<close> from \<open>Thread ready\<close> on:
  \<open>thread_comm_init\<close>, three announces, registration of the callback and
  the table print (\<open>printf\<close>, not a log line). \<open>s\<close> is the module state
  before the init; the announces read the state it leaves.
\<close>

definition node1_worker_log :: "ot_error \<Rightarrow> ot_error \<Rightarrow> bool \<Rightarrow> comm_state \<Rightarrow> log_line list" where
  "node1_worker_log oe be b s =
     app_info ''NODE_1'' ''Thread ready'' #
     thread_comm_init_log oe be ''node_1'' ''receiver'' s @
     concat (replicate 3 (thread_comm_announce_log b (snd (thread_comm_init oe be ''node_1'' ''receiver'' s))))"


text \<open>The log of node 2's \<open>ot_task_worker\<close> around \<open>thread_comm_init\<close>:
  \<open>thread_comm initialized\<close> follows the init whatever its outcome.\<close>

definition node2_worker_log :: "ot_error \<Rightarrow> ot_error \<Rightarrow> comm_state \<Rightarrow> log_line list" where
  "node2_worker_log oe be s =
     thread_comm_init_log oe be ''node_2'' ''receiver'' s @ [app_info ''NODE_2'' ''thread_comm initialized'']"

text \<open>The log of node 2's \<open>app_task\<close> over the device roles read in
  successive rounds: the round that announces logs
  \<open>Joined Thread \<rightarrow> send announce\<close> (the arrow is UTF-8 in the source).\<close>

fun node2_app_log :: "bool \<Rightarrow> bool \<Rightarrow> device_role list \<Rightarrow> comm_state \<Rightarrow> log_line list" where
  "node2_app_log b announced [] s = []"
| "node2_app_log b announced (r # rs) s =
     (if \<not> announced \<and> role_rank RoleChild \<le> role_rank r
      then app_info ''NODE_2'' (''Joined Thread '' @ [CHR 0xE2, CHR 0x86, CHR 0x92] @ '' send announce'') #
           thread_comm_announce_log b s @ node2_app_log b True rs s
      else node2_app_log b announced rs s)"

section \<open>Lemmas\<close>

lemma tx_list_append [simp]: "tx_list (xs @ ys) = tx_list xs @ tx_list ys"
  by (induction xs rule: tx_list.induct) auto

lemma tx_list_outcome [simp]:
  "tx_list (outcome r) = (case r of Inl _ \<Rightarrow> [] | Inr d \<Rightarrow> [d])"
  by (simp add: outcome_def split: sum.splits)

lemma tx_list_prints [simp]: "tx_list (map Print ls) = []"
  by (induction ls) auto

lemma count_list_prints [simp]: "count_list (map Print ls) (Logged e) = 0"
  by (induction ls) auto

lemma run_call_read_only:
  "read_only c \<Longrightarrow> fst (run_call s c) = s"
  by (cases c) auto

lemma run_calls_read_only:
  "\<forall>c \<in> set cs. read_only c \<Longrightarrow>
   run_calls s cs = (s, concat (map (\<lambda>c. snd (run_call s c)) cs))"
proof (induction cs)
  case Nil
  then show ?case by simp
next
  case (Cons c cs)
  then have "fst (run_call s c) = s" by (simp add: run_call_read_only)
  with Cons show ?case by (cases "run_call s c") simp
qed

lemma node2_app_announced: "node2_app b True rs = []"
  by (induction rs) auto

lemma tx_list_send:
  "(case thread_comm_send True k p s of Inl _ \<Rightarrow> [] | Inr d \<Rightarrow> [d]) =
     (case peer_map (nodes s) k of None \<Rightarrow> []
      | Some (r, a) \<Rightarrow> [\<lparr>dst = a, dport = THREAD_COMM_PORT, data = encode_data (self_id s) p\<rparr>])"
  by (simp add: thread_comm_send_peer_map udp_send_def split: option.splits)

text \<open>The datagrams of node 1's send loop.\<close>

lemma node1_app_tx:
  "tx_list (concat (map (\<lambda>c. snd (run_call s c)) (node1_app True n))) =
    (case peer_map (nodes s) ''node_2'' of None \<Rightarrow> []
      | Some (r, a) \<Rightarrow> map (\<lambda>p. \<lparr>dst = a, dport = THREAD_COMM_PORT, data = encode_data (self_id s) p\<rparr>)
            (''ping'' # replicate n ''temp:25.5, hum:60''))"
proof -
  let ?f = "\<lambda>c. snd (run_call s c)"
  have loop: "tx_list (concat (map ?f (concat (replicate m [Send True ''node_2'' q, PrintNodes])))) =
      concat (replicate m (case thread_comm_send True ''node_2'' q s of Inl _ \<Rightarrow> [] | Inr d \<Rightarrow> [d]))" for m q
    by (induction m) simp_all
  show ?thesis
  proof (cases "peer_map (nodes s) ''node_2''")
    case None
    then show ?thesis by (simp add: node1_app_def loop tx_list_send)
  next
    case (Some ra)
    then show ?thesis
      by (cases ra) (simp add: node1_app_def loop tx_list_send map_replicate concat_replicate_single)
  qed
qed

lemma node1_app_read_only: "\<forall>c \<in> set (node1_app True n). read_only c"
  by (auto simp: node1_app_def)

text \<open>DATA frames delivered one after the other to a node with a callback: the
  state stays, and each frame is one callback.\<close>

lemma run_calls_data_frames:
  assumes "id_field i" "c_string i" "rx_cb s = Some cb"
    and "\<forall>p \<in> set ps. c_string p \<and> CHR 0x0A \<notin> set p \<and> length i + length p \<le> 116"
  shows "run_calls s (map (\<lambda>p. Inbound b (encode_data i p) src) ps) =
           (s, map (\<lambda>p. Out (RxCallback cb i p src)) ps)"
  using assms(4)
proof (induction ps)
  case Nil
  then show ?case by simp
next
  case (Cons p ps)
  then have p: "c_string p" "CHR 0x0A \<notin> set p" "length i + length p \<le> 116" by simp_all
  have tw: "takeWhile (\<lambda>c. c \<noteq> CHR 0x0A) (take (116 - length i) p) = p"
    using p(2,3) by (auto simp: takeWhile_eq_all_conv)
  have "classify (rx_buffer (encode_data i p)) = RxData i p"
    using classify_encode_data [OF assms(1,2) p(1)] unfolding tw .
  with Cons assms(3) show ?case by (simp add: udp_handler_cases)
qed

lemma run_calls_append:
  "run_calls s (xs @ ys) =
     (case run_calls s xs of (s1, o1) \<Rightarrow> case run_calls s1 ys of (s2, o2) \<Rightarrow> (s2, o1 @ o2))"
  by (induction xs arbitrary: s) (auto split: prod.splits)

text \<open>Node 2's announce loop issues one announce, once the node is a child.\<close>

lemma node2_app_once:
  "node2_app b False rs = (if \<exists>r \<in> set rs. role_rank RoleChild \<le> role_rank r then [Announce b] else [])"
  by (induction rs) (auto simp: node2_app_announced)

text \<open>Node 2 after its boot calls, from any state.\<close>

lemma node2_boot_run:
  "run_calls s (node2_boot OT_ERROR_NONE OT_ERROR_NONE) =
     (s\<lparr>sock := SockBound, self_id := ''node_2'', self_role := ''receiver'', nodes := empty_nodes,
         rx_cb := Some NODE2_CB\<rparr>, [])"
  by (simp add: node2_boot_def thread_comm_init_def udp_open_bind_def strncpy_term_def NODE_ID_LEN_def
      SELF_ROLE_LEN_def thread_comm_register_rx_cb_def)

text \<open>Node 1 after its boot calls, from any state: three HELLOs and the empty table
  printed.\<close>

lemma node1_boot_state:
  "run_calls s (node1_boot OT_ERROR_NONE OT_ERROR_NONE True) =
     (s\<lparr>sock := SockBound, self_id := ''node_1'', self_role := ''receiver'', nodes := empty_nodes,
         rx_cb := Some NODE1_CB\<rparr>,
      replicate 3 (Out (Tx \<lparr>dst = MCAST_ALL_NODES, dport = THREAD_COMM_PORT,
                             data = ''HELLO|id=node_1|role=receiver''\<rparr>)) @
      map Print (thread_comm_print_nodes empty_nodes))"
  by (simp add: node1_boot_def thread_comm_init_def udp_open_bind_def thread_comm_announce_def
      udp_send_def encode_hello_def snprintf_def HELLO_BUF_LEN_def strncpy_term_def NODE_ID_LEN_def
      SELF_ROLE_LEN_def thread_comm_register_rx_cb_def numeral_3_eq_3 outcome_def)

text \<open>Node 2 logs \<open>thread_comm initialized\<close> after a \<open>thread_comm_init\<close>
  whose socket could not be opened.\<close>

lemma node2_worker_log_open_failed:
  "oe \<noteq> OT_ERROR_NONE \<Longrightarrow>
   node2_worker_log oe be s =
     [comm_log ESP_LOG_ERROR (''otUdpOpen failed: '' @ fmt_dec oe),
      app_info ''NODE_2'' ''thread_comm initialized'']"
  by (simp add: node2_worker_log_def thread_comm_init_log_def thread_comm_init_def udp_open_bind_def Let_def)

section \<open>Properties of the node programs\<close>

text \<open>The announce loop of node 2 sends exactly one HELLO, in the first round
  in which the node is at least a child of the mesh, and none if it never gets
  there.\<close>

theorem node2_app_announces_once:
  "node2_app b False rs = (if \<exists>r \<in> set rs. role_rank RoleChild \<le> role_rank r then [Announce b] else [])"
  by (induction rs) (auto simp: node2_app_announced)

text \<open>C17: node 1's send loop changes no state, and the datagrams it emits are
  exactly one \<open>DATA\<close> frame from node 1's identity per call, to node 2's
  stored address, \<open>ping\<close>
  first, then one \<open>temp:25.5, hum:60\<close> per round; while node 2 is not in the
  table every send only logs \<open>UnknownPeer\<close>.\<close>

theorem node1_app_sends:
  "run_calls s (node1_app True n) = (s, snd (run_calls s (node1_app True n))) \<and>
   tx_list (snd (run_calls s (node1_app True n))) =
     (case peer_map (nodes s) ''node_2'' of
        None \<Rightarrow> []
      | Some (r, a) \<Rightarrow>
          map (\<lambda>p. \<lparr>dst = a, dport = THREAD_COMM_PORT,
                     data = encode_data (self_id s) p\<rparr>)
            (''ping'' # replicate n ''temp:25.5, hum:60''))"
  using run_calls_read_only [OF node1_app_read_only, of s] node1_app_tx [of s n] by simp

text \<open>From any prior state, node 1's start-up (socket opened and bound,
  message buffers available) sends its HELLO \<open>HELLO|id=node_1|role=receiver\<close>
  three times to \<open>ff02::1\<close>, and ends with an empty table, the socket bound
  and its callback registered.\<close>

theorem node1_boot_run:
  "tx_list (snd (run_calls s (node1_boot OT_ERROR_NONE OT_ERROR_NONE True))) =
     replicate 3 \<lparr>dst = MCAST_ALL_NODES, dport = THREAD_COMM_PORT, data = ''HELLO|id=node_1|role=receiver''\<rparr> \<and>
   peer_map (nodes (fst (run_calls s (node1_boot OT_ERROR_NONE OT_ERROR_NONE True)))) = Map.empty \<and>
   sock (fst (run_calls s (node1_boot OT_ERROR_NONE OT_ERROR_NONE True))) = SockBound \<and>
   rx_cb (fst (run_calls s (node1_boot OT_ERROR_NONE OT_ERROR_NONE True))) = Some NODE1_CB"
  by (simp add: node1_boot_state numeral_3_eq_3)

text \<open>C25: node 1's send loop as node 2 sees it: delivered in order to node 2
  (its callback registered), the datagrams of \<open>app_task\<close> leave node 2's
  state as it was and make node 2's \<open>on_thread_data\<close> log one line per
  send, \<open>ping\<close> first and then one \<open>temp:25.5, hum:60\<close> per round, each
  naming node 1's identifier, provided node 1 has registered node 2.\<close>

theorem node2_logs_node1_data:
  assumes wf: "wf_comm s" and pm: "peer_map (nodes s) ''node_2'' = Some (r, a)"
    and i: "self_id s \<noteq> []" "CHR ''|'' \<notin> set (self_id s)" "c_string (self_id s)"
    and cb: "rx_cb s2 = Some NODE2_CB"
  shows "fst (run_calls s2 (map (\<lambda>d. Inbound True (data d) src) (tx_list (snd (run_calls s (node1_app True n)))))) = s2 \<and>
         app_log ip_str (snd (run_calls s2 (map (\<lambda>d. Inbound True (data d) src)
                                          (tx_list (snd (run_calls s (node1_app True n))))))) =
           map (\<lambda>p. on_thread_data2 ip_str (self_id s) p src) (''ping'' # replicate n ''temp:25.5, hum:60'')"
proof -
  let ?ps = "''ping'' # replicate n ''temp:25.5, hum:60''"
  have tx: "map (\<lambda>d. Inbound True (data d) src) (tx_list (snd (run_calls s (node1_app True n)))) =
      map (\<lambda>p. Inbound True (encode_data (self_id s) p) src) ?ps"
    using run_calls_read_only [OF node1_app_read_only, of s] node1_app_tx [of s n] pm by simp
  have len: "length (self_id s) \<le> 15" using wf_comm_self_bounds [OF wf] by simp
  then have ps: "\<forall>p \<in> set ?ps. c_string p \<and> CHR 0x0A \<notin> set p \<and> length (self_id s) + length p \<le> 116"
    by (auto simp: c_string_def)
  have idf: "id_field (self_id s)" using i(1,2) len by simp
  have run: "run_calls s2 (map (\<lambda>p. Inbound True (encode_data (self_id s) p) src) ?ps) =
      (s2, map (\<lambda>p. Out (RxCallback NODE2_CB (self_id s) p src)) ?ps)"
    by (rule run_calls_data_frames [OF idf i(3) cb ps])
  have log: "app_log ip_str (map (\<lambda>p. Out (RxCallback NODE2_CB (self_id s) p src)) qs) =
      map (\<lambda>p. on_thread_data2 ip_str (self_id s) p src) qs" for qs
    by (induction qs) (simp_all add: app_log_def NODE1_CB_def NODE2_CB_def)
  show ?thesis unfolding tx run snd_conv fst_conv log by simp
qed

text \<open>C28: node 2's whole program, from its dataset to its announce loop: the
  instance runs the network of node 2's dataset, and over any sequence of
  device roles the program sends exactly one datagram, its HELLO
  \<open>HELLO|id=node_2|role=receiver\<close> to \<open>ff02::1\<close>, if the node ever becomes
  a child of the mesh, and none otherwise; the module ends with the socket
  bound and node 2's callback registered.\<close>

theorem node2_worker_run:
  "fst (node2_worker OT_ERROR_NONE OT_ERROR_NONE True rs inst) = ot_thread_start node2_dataset inst \<and>
   tx_list (snd (run_calls s (snd (node2_worker OT_ERROR_NONE OT_ERROR_NONE True rs inst)))) =
     (if \<exists>r \<in> set rs. role_rank RoleChild \<le> role_rank r
      then [\<lparr>dst = MCAST_ALL_NODES, dport = THREAD_COMM_PORT, data = ''HELLO|id=node_2|role=receiver''\<rparr>]
      else []) \<and>
   sock (fst (run_calls s (snd (node2_worker OT_ERROR_NONE OT_ERROR_NONE True rs inst)))) = SockBound \<and>
   rx_cb (fst (run_calls s (snd (node2_worker OT_ERROR_NONE OT_ERROR_NONE True rs inst)))) = Some NODE2_CB"
proof -
  let ?s1 = "s\<lparr>sock := SockBound, self_id := ''node_2'', self_role := ''receiver'', nodes := empty_nodes,
               rx_cb := Some NODE2_CB\<rparr>"
  have ann: "thread_comm_announce True ?s1 =
      Inr \<lparr>dst = MCAST_ALL_NODES, dport = THREAD_COMM_PORT, data = ''HELLO|id=node_2|role=receiver''\<rparr>"
    by (simp add: thread_comm_announce_def udp_send_def encode_hello_def snprintf_def HELLO_BUF_LEN_def)
  have ro: "\<forall>c \<in> set (node2_app True False rs). read_only c" by (simp add: node2_app_once)
  show ?thesis
    using run_calls_read_only [OF ro, of ?s1] ann
    by (simp add: node2_worker_def run_calls_append node2_boot_run node2_app_once)
qed

text \<open>C29: node 1's whole program on its own: \<open>thread_comm_init\<close> empties the
  table, so unless a HELLO from node 2 is delivered between node 1's boot and
  its sends, node 1 sends only its three boot HELLOs and every one of its
  \<open>1 + n\<close> sends fails with \<open>UnknownPeer\<close> (logged as \<open>Peer not found\<close>).\<close>

theorem node1_worker_alone:
  "tx_list (snd (run_calls s (snd (node1_worker OT_ERROR_NONE OT_ERROR_NONE True n inst)))) =
     replicate 3 \<lparr>dst = MCAST_ALL_NODES, dport = THREAD_COMM_PORT, data = ''HELLO|id=node_1|role=receiver''\<rparr> \<and>
   count_list (snd (run_calls s (snd (node1_worker OT_ERROR_NONE OT_ERROR_NONE True n inst))))
     (Logged UnknownPeer) = Suc n"
proof -
  let ?s1 = "s\<lparr>sock := SockBound, self_id := ''node_1'', self_role := ''receiver'', nodes := empty_nodes,
               rx_cb := Some NODE1_CB\<rparr>"
  let ?f = "\<lambda>c. snd (run_call ?s1 c)"
  have unk: "thread_comm_send True ''node_2'' p ?s1 = Inl UnknownPeer" for p
    by (simp add: thread_comm_send_peer_map)
  have cnt: "count_list (concat (map ?f (concat (replicate m [Send True ''node_2'' q, PrintNodes]))))
      (Logged UnknownPeer) = m" for m q
    by (induction m) (simp_all add: unk outcome_def)
  have app: "count_list (concat (map ?f (node1_app True n))) (Logged UnknownPeer) = Suc n"
    by (simp add: node1_app_def cnt unk outcome_def)
  show ?thesis
    using run_calls_read_only [OF node1_app_read_only, of ?s1] node1_app_tx [of ?s1 n] app
    by (simp add: node1_worker_def run_calls_append node1_boot_state numeral_3_eq_3)
qed



section \<open>Witnesses\<close>

theorem node2_app_announces_once_witness:
  "node2_app True False [RoleDetached, RoleChild, RoleRouter] = [Announce True]"
  using node2_app_announces_once [of True "[RoleDetached, RoleChild, RoleRouter]"] by simp

theorem node2_logs_node1_data_witness:
  "app_log (\<lambda>_. ''fd00::1'')
     (snd (run_calls (fst (run_calls comm_boot (node2_boot OT_ERROR_NONE OT_ERROR_NONE)))
       (map (\<lambda>d. Inbound True (data d) 1)
         (tx_list (snd (run_calls (fst (udp_handler True ''HELLO|id=node_2|role=receiver'' 2
              (snd (thread_comm_init OT_ERROR_NONE OT_ERROR_NONE ''node_1'' ''receiver'' comm_boot))))
            (node1_app True 1))))))) =
   [''RX from node_1 (fd00::1): ping'', ''RX from node_1 (fd00::1): temp:25.5, hum:60'']"
proof -
  let ?s = "fst (udp_handler True ''HELLO|id=node_2|role=receiver'' 2
              (snd (thread_comm_init OT_ERROR_NONE OT_ERROR_NONE ''node_1'' ''receiver'' comm_boot)))"
  let ?s2 = "fst (run_calls comm_boot (node2_boot OT_ERROR_NONE OT_ERROR_NONE))"
  have wf: "wf_comm ?s" by code_simp
  have pm: "peer_map (nodes ?s) ''node_2'' = Some (''receive'', 2)" by code_simp
  have id: "self_id ?s = ''node_1''" by code_simp
  have i: "self_id ?s \<noteq> []" "CHR ''|'' \<notin> set (self_id ?s)" "c_string (self_id ?s)"
    by (simp_all add: id c_string_def)
  have cb: "rx_cb ?s2 = Some NODE2_CB" by code_simp
  show ?thesis
    using node2_logs_node1_data [OF wf pm i cb, of 1 1 "\<lambda>_. ''fd00::1''"]
    by (simp add: id on_thread_data2_def)
qed

theorem node2_worker_run_witness:
  "tx_list (snd (run_calls comm_boot
     (snd (node2_worker OT_ERROR_NONE OT_ERROR_NONE True [RoleDetached, RoleChild, RoleChild]
       \<lparr>active_dataset = None, ip6_enabled = False, thread_enabled = False\<rparr>)))) =
   [\<lparr>dst = MCAST_ALL_NODES, dport = THREAD_COMM_PORT, data = ''HELLO|id=node_2|role=receiver''\<rparr>]"
  using node2_worker_run [of "[RoleDetached, RoleChild, RoleChild]"
      "\<lparr>active_dataset = None, ip6_enabled = False, thread_enabled = False\<rparr>" comm_boot]
  by simp


end
