(* ===== verification/Mesh.thy ===== *)
theory Mesh
  imports Engine
begin

text \<open>
  Several nodes running \<open>thread_comm\<close> over the mesh. The Thread stack is the
  external transport of the specification: datagrams are delivered in any order,
  may be lost and may be delivered more than once, and a multicast reaches every
  other node. In-flight datagrams are a multiset of (source address, datagram)
  pairs; a delivery leaves its datagram in flight (so it can be duplicated or go
  to another multicast receiver) and a separate step drops it. Every engine call
  is one atomic step, as the OpenThread lock held by its callers makes it. A
  sender outside the modelled nodes may inject any datagram. The set
  \<open>announced\<close> is ghost state: the nodes that have called
  \<open>thread_comm_announce\<close>.
\<close>

section \<open>Networks and their steps\<close>

record mesh =
  nst :: "ip6_addr \<Rightarrow> comm_state option"
  flight :: "(ip6_addr \<times> dgram) multiset"
  announced :: "ip6_addr set"

text \<open>Nodes at the given addresses, with the zero-initialised module state.\<close>

definition mesh_init :: "ip6_addr list \<Rightarrow> mesh" where
  "mesh_init as = \<lparr>nst = (\<lambda>a. if a \<in> set as then Some comm_boot else None), flight = {#}, announced = {}\<rparr>"

fun tx_events :: "event list \<Rightarrow> dgram list" where
  "tx_events [] = []"
| "tx_events (Tx d # es) = d # tx_events es"
| "tx_events (RxCallback cb f p a # es) = tx_events es"

inductive mesh_step :: "mesh \<Rightarrow> mesh \<Rightarrow> bool" where
  init: "nst m a = Some s \<Longrightarrow> thread_comm_init oe be i r s = (res, s') \<Longrightarrow>
    mesh_step m (m\<lparr>nst := (nst m)(a \<mapsto> s')\<rparr>)"
| register_cb: "nst m a = Some s \<Longrightarrow>
    mesh_step m (m\<lparr>nst := (nst m)(a \<mapsto> thread_comm_register_rx_cb cb s)\<rparr>)"
| announce: "nst m a = Some s \<Longrightarrow> thread_comm_announce b s = Inr d \<Longrightarrow>
    mesh_step m (m\<lparr>flight := add_mset (a, d) (flight m), announced := insert a (announced m)\<rparr>)"
| send: "nst m a = Some s \<Longrightarrow> thread_comm_send b k p s = Inr d \<Longrightarrow>
    mesh_step m (m\<lparr>flight := add_mset (a, d) (flight m)\<rparr>)"
| deliver: "(src, d) \<in># flight m \<Longrightarrow> nst m a = Some s \<Longrightarrow> a \<noteq> src \<Longrightarrow>
    dst d = a \<or> dst d = MCAST_ALL_NODES \<Longrightarrow> dport d = THREAD_COMM_PORT \<Longrightarrow> sock s = SockBound \<Longrightarrow>
    udp_handler b (data d) src s = (s', evs) \<Longrightarrow>
    mesh_step m (m\<lparr>nst := (nst m)(a \<mapsto> s'), flight := flight m + mset (map (Pair a) (tx_events evs))\<rparr>)"
| drop: "x \<in># flight m \<Longrightarrow> mesh_step m (m\<lparr>flight := flight m - {#x#}\<rparr>)"
| inject: "nst m src = None \<Longrightarrow> mesh_step m (m\<lparr>flight := add_mset (src, d) (flight m)\<rparr>)"

inductive mesh_reach :: "ip6_addr list \<Rightarrow> mesh \<Rightarrow> bool" for as where
  start: "mesh_reach as (mesh_init as)"
| step: "mesh_reach as m \<Longrightarrow> mesh_step m m' \<Longrightarrow> mesh_reach as m'"

section \<open>Invariants\<close>

text \<open>Every node's module state is well-formed.\<close>

definition nodes_wf :: "mesh \<Rightarrow> bool" where
  "nodes_wf m \<longleftrightarrow> (\<forall>a s. nst m a = Some s \<longrightarrow> wf_comm s)"

text \<open>
  Where table entries come from: every active entry of every table names an
  address that has announced or belongs to no node, and so does every in-flight
  datagram that the receiver would read as a HELLO.
\<close>

definition hello_origin :: "mesh \<Rightarrow> ip6_addr \<Rightarrow> bool" where
  "hello_origin m a \<longleftrightarrow> a \<in> announced m \<or> nst m a = None"

definition entries_announced :: "mesh \<Rightarrow> bool" where
  "entries_announced m \<longleftrightarrow>
     (\<forall>a s n. nst m a = Some s \<longrightarrow> n \<in> set (nodes s) \<longrightarrow> active n \<longrightarrow> hello_origin m (eid n)) \<and>
     (\<forall>src d. (src, d) \<in># flight m \<longrightarrow> strncmp_prefix (rx_buffer (data d)) ''HELLO|'' \<longrightarrow>
        hello_origin m src)"

section \<open>Lemmas\<close>

lemma mesh_init_nodes_wf: "nodes_wf (mesh_init as)"
  by (simp add: nodes_wf_def mesh_init_def comm_boot_def wf_comm_def NODE_ID_LEN_def SELF_ROLE_LEN_def)

lemma empty_nodes_inactive: "n \<in> set empty_nodes \<Longrightarrow> \<not> active n"
  by (simp add: empty_nodes_def zero_node_def)

lemma mesh_init_entries: "entries_announced (mesh_init as)"
  by (auto simp: entries_announced_def mesh_init_def comm_boot_def dest: empty_nodes_inactive)

lemma encode_data_not_hello:
  "\<not> strncmp_prefix (rx_buffer (encode_data x p)) ''HELLO|''"
  by (simp add: rx_buffer_def encode_data_def snprintf_def cstr_def strncmp_prefix_def PAYLOAD_LEN_def)

lemma classify_hello_prefix:
  "classify buf = RxHello i r \<Longrightarrow> strncmp_prefix buf ''HELLO|''"
  by (auto simp: classify_def split: if_splits prod.splits)

lemma udp_handler_nodes:
  assumes "udp_handler b msg src s = (s', evs)"
  shows "nodes s' = nodes s \<or>
         (\<exists>i r. classify (rx_buffer msg) = RxHello i r \<and> nodes s' = hello_nodes i r src (nodes s))"
  using assms
  by (cases "classify (rx_buffer msg)") (auto simp: udp_handler_cases split: option.splits)

lemma udp_handler_tx_not_hello:
  assumes "udp_handler b msg src s = (s', evs)" "d \<in> set (tx_events evs)"
  shows "\<not> strncmp_prefix (rx_buffer (data d)) ''HELLO|''"
proof -
  have "Tx d \<in> set evs" using assms(2) by (induction evs rule: tx_events.induct) auto
  then obtain k p where "thread_comm_send b k p s' = Inr d" using udp_handler_tx [OF assms(1)] by blast
  then show ?thesis by (simp add: thread_comm_send_data encode_data_not_hello)
qed

text \<open>A registration adds at most one active entry, and that one at the sender's
  address.\<close>

lemma hello_nodes_active:
  assumes "wf_table ns" "n \<in> set (hello_nodes i r src ns)" "active n"
  shows "n \<in> set ns \<or> eid n = src"
proof (cases "register_node i r src ns")
  case (Inl e)
  with assms show ?thesis by (simp add: hello_nodes_def)
next
  case (Inr ns')
  have len: "length ns = MAX_NODES" using assms(1) by (simp add: wf_table_def)
  have "n \<in> set ns'" using assms(2) Inr by (simp add: hello_nodes_def)
  from Inr len show ?thesis
  proof (cases rule: register_node_Inr_cases)
    case (refresh j)
    with \<open>n \<in> set ns'\<close> show ?thesis
      using set_update_subset_insert [of ns j "fill_node i r src (ns ! j)"]
      by (auto simp: fill_node_simps)
  next
    case (fresh j)
    with \<open>n \<in> set ns'\<close> show ?thesis
      using set_update_subset_insert [of ns j "fill_node i r src (zero_node\<lparr>active := True\<rparr>)"]
      by (auto simp: fill_node_simps)
  qed
qed

lemma mesh_step_nodes_wf:
  "mesh_step m m' \<Longrightarrow> nodes_wf m \<Longrightarrow> nodes_wf m'"
proof (induction rule: mesh_step.induct)
  case (init m a s oe be i r res s')
  then show ?case by (auto simp: nodes_wf_def dest: thread_comm_init_wf)
next
  case (register_cb m a s cb)
  then show ?case by (auto simp: nodes_wf_def thread_comm_register_rx_cb_def wf_comm_def)
next
  case (deliver src d m a s b s' evs)
  then show ?case by (auto simp: nodes_wf_def dest: udp_handler_wf)
qed (simp_all add: nodes_wf_def)

lemma thread_comm_init_nodes:
  "thread_comm_init oe be i r s = (res, s') \<Longrightarrow> nodes s' = empty_nodes"
  by (auto simp: thread_comm_init_def split: prod.splits)

lemma hello_origin_update:
  "nst m a = Some s \<Longrightarrow> hello_origin (m\<lparr>nst := (nst m)(a \<mapsto> s'), flight := f\<rparr>) x = hello_origin m x"
  "nst m a = Some s \<Longrightarrow> hello_origin (m\<lparr>nst := (nst m)(a \<mapsto> s')\<rparr>) x = hello_origin m x"
  by (simp_all add: hello_origin_def)

text \<open>The delivery step keeps the provenance of table entries.\<close>

lemma deliver_entries:
  assumes wf: "nodes_wf m" and inv: "entries_announced m"
    and fl: "(src, d) \<in># flight m" and a: "nst m a = Some s"
    and h: "udp_handler b (data d) src s = (s', evs)"
  shows "entries_announced (m\<lparr>nst := (nst m)(a \<mapsto> s'), flight := flight m + mset (map (Pair a) (tx_events evs))\<rparr>)"
    (is "entries_announced ?m'")
proof -
  have org: "hello_origin ?m' x = hello_origin m x" for x using a by (rule hello_origin_update(1))
  have tab: "hello_origin m (eid n)" if n: "n \<in> set (nodes s')" "active n" for n
  proof -
    from udp_handler_nodes [OF h] show ?thesis
    proof
      assume "nodes s' = nodes s"
      with n a inv show ?thesis by (auto simp: entries_announced_def)
    next
      assume "\<exists>i r. classify (rx_buffer (data d)) = RxHello i r \<and> nodes s' = hello_nodes i r src (nodes s)"
      then obtain i r where c: "classify (rx_buffer (data d)) = RxHello i r"
        and ns: "nodes s' = hello_nodes i r src (nodes s)" by blast
      have "wf_table (nodes s)" using wf a by (simp add: nodes_wf_def wf_comm_def)
      from hello_nodes_active [OF this] n ns have "n \<in> set (nodes s) \<or> eid n = src" by simp
      moreover have "hello_origin m src"
        using inv fl classify_hello_prefix [OF c] by (auto simp: entries_announced_def)
      ultimately show ?thesis using n a inv by (auto simp: entries_announced_def)
    qed
  qed
  have fly: "hello_origin m x"
    if "(x, e) \<in># flight ?m'" "strncmp_prefix (rx_buffer (data e)) ''HELLO|''" for x e
  proof -
    have "(x, e) \<in># flight m \<or> e \<in> set (tx_events evs)" using that(1) by auto
    then show ?thesis
      using that(2) inv udp_handler_tx_not_hello [OF h] by (auto simp: entries_announced_def)
  qed
  show ?thesis
    unfolding entries_announced_def org
    using tab fly inv by (auto simp: entries_announced_def split: if_splits)
qed

lemma mesh_step_entries:
  "mesh_step m m' \<Longrightarrow> nodes_wf m \<Longrightarrow> entries_announced m \<Longrightarrow> entries_announced m'"
proof (induction rule: mesh_step.induct)
  case (init m a s oe be i r res s')
  then show ?case
    unfolding entries_announced_def hello_origin_update(2) [OF init(1)]
    by (auto simp: thread_comm_init_nodes entries_announced_def dest: empty_nodes_inactive)
next
  case (register_cb m a s cb)
  then show ?case
    unfolding entries_announced_def hello_origin_update(2) [OF register_cb(1)]
    by (auto simp: thread_comm_register_rx_cb_def entries_announced_def)
next
  case (announce m a s b d)
  then show ?case by (auto simp: entries_announced_def hello_origin_def)
next
  case (send m a s b k p d)
  then show ?case
    by (auto simp: entries_announced_def hello_origin_def thread_comm_send_data encode_data_not_hello)
next
  case (deliver src d m a s b s' evs)
  then show ?case by (intro deliver_entries) simp_all
next
  case (drop x m)
  have "y \<in># flight m" if "y \<in># flight m - {#x#}" for y using that by (rule in_diffD)
  with drop show ?case by (fastforce simp: entries_announced_def hello_origin_def)
next
  case (inject m src d)
  then show ?case by (auto simp: entries_announced_def hello_origin_def)
qed

lemma mesh_reach_inv:
  "mesh_reach as m \<Longrightarrow> nodes_wf m \<and> entries_announced m"
proof (induction rule: mesh_reach.induct)
  case start
  show ?case by (simp add: mesh_init_nodes_wf mesh_init_entries)
next
  case (step m m')
  then show ?case by (blast intro: mesh_step_nodes_wf mesh_step_entries)
qed

text \<open>A delivery emits at most one datagram, and a datagram that is not read as a
  HELLO emits none.\<close>

lemma udp_handler_tx_length: "length (tx_events (snd (udp_handler b msg src s))) \<le> 1"
  by (cases "classify (rx_buffer msg)") (auto simp: udp_handler_cases sent_def split: option.splits sum.splits)

lemma udp_handler_not_hello_silent:
  "\<not> strncmp_prefix (rx_buffer msg) ''HELLO|'' \<Longrightarrow> tx_events (snd (udp_handler b msg src s)) = []"
  by (cases "classify (rx_buffer msg)") (auto simp: udp_handler_cases dest: classify_hello_prefix split: option.splits)



text \<open>Reachability by one call of a node, or one delivery, from a reachable state.\<close>

lemma reach_init:
  "mesh_reach as m \<Longrightarrow> nst m a = Some s \<Longrightarrow>
   mesh_reach as (m\<lparr>nst := (nst m)(a \<mapsto> snd (thread_comm_init oe be i r s))\<rparr>)"
  by (rule mesh_reach.step, assumption, rule mesh_step.init, assumption, rule surjective_pairing)

lemma reach_register_cb:
  "mesh_reach as m \<Longrightarrow> nst m a = Some s \<Longrightarrow>
   mesh_reach as (m\<lparr>nst := (nst m)(a \<mapsto> thread_comm_register_rx_cb cb s)\<rparr>)"
  by (rule mesh_reach.step, assumption, rule mesh_step.register_cb, assumption)

lemma reach_announce:
  "mesh_reach as m \<Longrightarrow> nst m a = Some s \<Longrightarrow> thread_comm_announce b s = Inr d \<Longrightarrow>
   mesh_reach as (m\<lparr>flight := add_mset (a, d) (flight m), announced := insert a (announced m)\<rparr>)"
  by (rule mesh_reach.step, assumption, rule mesh_step.announce)

lemma reach_deliver:
  assumes "mesh_reach as m" "(src, d) \<in># flight m" "nst m a = Some s" "a \<noteq> src"
    "dst d = a \<or> dst d = MCAST_ALL_NODES" "dport d = THREAD_COMM_PORT" "sock s = SockBound"
  shows "mesh_reach as (m\<lparr>nst := (nst m)(a \<mapsto> fst (udp_handler True (data d) src s)),
           flight := flight m + mset (map (Pair a) (tx_events (snd (udp_handler True (data d) src s))))\<rparr>)"
  using assms by (blast intro: mesh_reach.step mesh_step.deliver surjective_pairing)

section \<open>Properties of the mesh\<close>

text \<open>C19: in every state the mesh can reach, under any interleaving of the node
  programs' calls with deliveries, losses, duplicates and foreign datagrams,
  every node's module state is well-formed.\<close>

theorem mesh_reach_wf:
  assumes "mesh_reach as m" "nst m a = Some s"
  shows "wf_comm s"
  using mesh_reach_inv [OF assms(1)] assms(2) by (simp add: nodes_wf_def)

text \<open>C20: a node that has never called \<open>thread_comm_announce\<close> is in no
  node's table, however many HELLOs it has answered: the reply of
  \<open>udp_handler\<close> is a DATA frame, so registration is never mutual without a
  second broadcast.\<close>

theorem mesh_unannounced_unknown:
  assumes "mesh_reach as m" "nst m a \<noteq> None" "a \<notin> announced m"
    and "nst m b = Some s" "n \<in> set (nodes s)" "active n"
  shows "eid n \<noteq> a"
proof
  assume "eid n = a"
  have "hello_origin m (eid n)"
    using mesh_reach_inv [OF assms(1)] assms(4-6) by (auto simp: entries_announced_def)
  with \<open>eid n = a\<close> assms(2,3) show False by (simp add: hello_origin_def)
qed

text \<open>C21: the exchange a datagram starts always ends, after one answer at most:
  \<open>udp_handler\<close> emits at most one datagram, and that one (a DATA frame)
  makes no receiver emit anything. A HELLO cannot start a reply storm beyond
  one reply per receiver.\<close>

theorem reply_exchange_ends:
  assumes "udp_handler b msg src s = (s', evs)"
  shows "length (tx_events evs) \<le> 1 \<and>
         (\<forall>d \<in> set (tx_events evs). \<forall>b' src' t. tx_events (snd (udp_handler b' (data d) src' t)) = [])"
  using udp_handler_tx_length [of b msg src s] udp_handler_tx_not_hello [OF assms]
    udp_handler_not_hello_silent assms by auto


end
