(* ===== verification/Programs.thy ===== *)
theory Programs
  imports Apps Mesh
begin

text \<open>
  The node programs running together on the mesh. Each node has the two tasks
  of \<open>esp_ot_cli.c\<close>: \<open>ot_task_worker\<close>, which makes its boot calls holding
  the OpenThread lock and then launches the OpenThread mainloop, and
  \<open>app_task\<close>, created at the end of the boot sequence. Every call into the
  module is atomic (the lock); the app task's calls interleave with the
  deliveries of the mainloop, which only start once the worker has finished.
  Splitting a locked group of calls into single steps only adds interleavings,
  so safety properties proved here hold for the programs. The nodes' outputs
  (datagrams, printed lines, logged failures, callback invocations) are
  recorded per node. The projection \<open>pabs\<close> forgets the programs and gives a
  state of \<open>Mesh\<close>.
\<close>

section \<open>Programs and their steps\<close>

text \<open>A node: the module state and the remaining calls of its two tasks.\<close>

record pnode =
  st :: comm_state
  worker :: "api_call list"
  app :: "api_call list"

text \<open>The network of programs; \<open>pann\<close> is ghost state, the nodes that have
  sent a HELLO, and \<open>pout\<close> what each node has output, in order.\<close>

record pnet =
  pn :: "ip6_addr \<Rightarrow> pnode option"
  pflight :: "(ip6_addr \<times> dgram) multiset"
  pann :: "ip6_addr set"
  pout :: "ip6_addr \<Rightarrow> api_out list"

type_synonym programs = "(ip6_addr \<times> api_call list \<times> api_call list) list"

definition pnet_init :: "programs \<Rightarrow> pnet" where
  "pnet_init ps =
     \<lparr>pn = (\<lambda>a. map_option (\<lambda>(w, ap). \<lparr>st = comm_boot, worker = w, app = ap\<rparr>) (map_of ps a)),
      pflight = {#}, pann = {}, pout = (\<lambda>a. [])\<rparr>"

text \<open>The two programs of the repository at two addresses: node 1 runs
  \<open>n\<close> rounds of its send loop, node 2 reads the device roles \<open>rs\<close>.\<close>

definition node_programs :: "ip6_addr \<Rightarrow> ip6_addr \<Rightarrow> nat \<Rightarrow> device_role list \<Rightarrow> programs" where
  "node_programs a1 a2 n rs =
     [(a1, node1_boot OT_ERROR_NONE OT_ERROR_NONE True, node1_app True n),
      (a2, node2_boot OT_ERROR_NONE OT_ERROR_NONE, node2_app True False rs)]"

text \<open>Calls a task makes itself (inbound datagrams come from the mainloop).\<close>

fun local_call :: "api_call \<Rightarrow> bool" where
  "local_call (Inbound b m a) = False"
| "local_call _ = True"

fun announce_call :: "api_call \<Rightarrow> bool" where
  "announce_call (Announce b) = True"
| "announce_call _ = False"

text \<open>The network after node \<open>a\<close> has become \<open>x\<close> and output \<open>os\<close>.\<close>

definition pnet_after :: "pnet \<Rightarrow> ip6_addr \<Rightarrow> pnode \<Rightarrow> api_out list \<Rightarrow> bool \<Rightarrow> pnet" where
  "pnet_after P a x os ann =
     P\<lparr>pn := (pn P)(a \<mapsto> x), pflight := pflight P + mset (map (Pair a) (tx_list os)),
       pann := (if ann \<and> tx_list os \<noteq> [] then insert a (pann P) else pann P),
       pout := (pout P)(a := pout P a @ os)\<rparr>"

inductive pstep :: "pnet \<Rightarrow> pnet \<Rightarrow> bool" where
  worker: "pn P a = Some x \<Longrightarrow> worker x = c # cs \<Longrightarrow> local_call c \<Longrightarrow> run_call (st x) c = (s', os) \<Longrightarrow>
    pstep P (pnet_after P a (x\<lparr>st := s', worker := cs\<rparr>) os (announce_call c))"
| app: "pn P a = Some x \<Longrightarrow> worker x = [] \<Longrightarrow> app x = c # cs \<Longrightarrow> local_call c \<Longrightarrow>
    run_call (st x) c = (s', os) \<Longrightarrow>
    pstep P (pnet_after P a (x\<lparr>st := s', app := cs\<rparr>) os (announce_call c))"
| deliver: "pn P a = Some x \<Longrightarrow> worker x = [] \<Longrightarrow> (src, d) \<in># pflight P \<Longrightarrow> a \<noteq> src \<Longrightarrow>
    dst d = a \<or> dst d = MCAST_ALL_NODES \<Longrightarrow> dport d = THREAD_COMM_PORT \<Longrightarrow> sock (st x) = SockBound \<Longrightarrow>
    run_call (st x) (Inbound True (data d) src) = (s', os) \<Longrightarrow>
    pstep P (pnet_after P a (x\<lparr>st := s'\<rparr>) os False)"
| drop: "y \<in># pflight P \<Longrightarrow> pstep P (P\<lparr>pflight := pflight P - {#y#}\<rparr>)"

inductive pnet_reach :: "programs \<Rightarrow> pnet \<Rightarrow> bool" for ps where
  start: "pnet_reach ps (pnet_init ps)"
| step: "pnet_reach ps P \<Longrightarrow> pstep P P' \<Longrightarrow> pnet_reach ps P'"

text \<open>The mesh state a network of programs is.\<close>

definition pabs :: "pnet \<Rightarrow> mesh" where
  "pabs P = \<lparr>nst = (\<lambda>a. map_option st (pn P a)), flight = pflight P, announced = pann P\<rparr>"

text \<open>Calls that neither change the module state nor send a HELLO.\<close>

fun quiet_call :: "api_call \<Rightarrow> bool" where
  "quiet_call (Send b k p) = True"
| "quiet_call PrintNodes = True"
| "quiet_call _ = False"

text \<open>
  A quiet network for identifier \<open>k\<close>: every node has finished its boot
  sequence, its app task has only sends and prints left, its module state is
  well-formed, and no datagram in flight reads as a HELLO of \<open>k\<close>.
\<close>

definition quiet_net :: "cstring \<Rightarrow> pnet \<Rightarrow> bool" where
  "quiet_net k P \<longleftrightarrow>
     (\<forall>a x. pn P a = Some x \<longrightarrow> worker x = [] \<and> list_all quiet_call (app x) \<and> wf_comm (st x)) \<and>
     (\<forall>src d r. (src, d) \<in># pflight P \<longrightarrow> classify (rx_buffer (data d)) \<noteq> RxHello k r)"

text \<open>Driving a run: the next call of a node's worker task (\<open>True\<close>) or app
  task (\<open>False\<close>), or the loss of a datagram.\<close>

datatype pact = Call ip6_addr bool | Drop ip6_addr dgram

fun pnet_act :: "pnet \<Rightarrow> pact \<Rightarrow> pnet" where
  "pnet_act P (Call a w) =
     (case pn P a of
        None \<Rightarrow> P
      | Some x \<Rightarrow>
          (case (if w then worker x else app x) of
             [] \<Rightarrow> P
           | c # cs \<Rightarrow>
               (case run_call (st x) c of
                  (s', os) \<Rightarrow> pnet_after P a (if w then x\<lparr>st := s', worker := cs\<rparr> else x\<lparr>st := s', app := cs\<rparr>)
                                  os (announce_call c))))"
| "pnet_act P (Drop a d) = P\<lparr>pflight := pflight P - {#(a, d)#}\<rparr>"

fun act_enabled :: "pnet \<Rightarrow> pact \<Rightarrow> bool" where
  "act_enabled P (Call a w) =
     (case pn P a of
        None \<Rightarrow> False
      | Some x \<Rightarrow>
          (if w then worker x \<noteq> [] \<and> local_call (hd (worker x))
           else worker x = [] \<and> app x \<noteq> [] \<and> local_call (hd (app x))))"
| "act_enabled P (Drop a d) = ((a, d) \<in># pflight P)"

fun pnet_run :: "pnet \<Rightarrow> pact list \<Rightarrow> pnet" where
  "pnet_run P [] = P"
| "pnet_run P (t # ts) = pnet_run (pnet_act P t) ts"

fun run_ok :: "pnet \<Rightarrow> pact list \<Rightarrow> bool" where
  "run_ok P [] = True"
| "run_ok P (t # ts) = (act_enabled P t \<and> run_ok (pnet_act P t) ts)"

text \<open>\<open>quiet_net\<close> checked over the nodes \<open>as\<close> and the datagrams in flight.\<close>

definition quiet_check :: "cstring \<Rightarrow> ip6_addr list \<Rightarrow> pnet \<Rightarrow> bool" where
  "quiet_check k as P \<longleftrightarrow>
     list_all (\<lambda>a. case pn P a of None \<Rightarrow> True
                  | Some x \<Rightarrow> worker x = [] \<and> list_all quiet_call (app x) \<and> wf_comm (st x)) as \<and>
     (\<forall>y \<in> set_mset (pflight P). case classify (rx_buffer (data (snd y))) of RxHello i r \<Rightarrow> i \<noteq> k | _ \<Rightarrow> True)"

section \<open>Lemmas\<close>

lemma tx_list_map_Out [simp]: "tx_list (map Out evs) = tx_events evs"
  by (induction evs rule: tx_events.induct) simp_all

lemma pabs_init: "pabs (pnet_init ps) = mesh_init (map fst ps)"
proof -
  have "map_option st (map_option (\<lambda>(w, ap). \<lparr>st = comm_boot, worker = w, app = ap\<rparr>) (map_of ps a)) =
      (if a \<in> set (map fst ps) then Some comm_boot else None)" for a
    by (cases "map_of ps a") (auto simp: map_of_eq_None_iff dest: map_of_SomeD intro: rev_image_eqI)
  then show ?thesis by (simp add: pabs_def pnet_init_def mesh_init_def)
qed

text \<open>What a step of node \<open>a\<close> leaves of the mesh state.\<close>

lemma pabs_after:
  "pabs (pnet_after P a x os ann) =
     (pabs P)\<lparr>nst := (nst (pabs P))(a \<mapsto> st x), flight := flight (pabs P) + mset (map (Pair a) (tx_list os)),
       announced := (if ann \<and> tx_list os \<noteq> [] then insert a (announced (pabs P)) else announced (pabs P))\<rparr>"
  by (simp add: pabs_def pnet_after_def fun_eq_iff)

text \<open>A task's own call is a mesh step of the node, or changes nothing the mesh
  sees (a failed send or announce, a print).\<close>

lemma local_call_mesh:
  assumes a: "pn P a = Some x" and c: "local_call c" and r: "run_call (st x) c = (s', os)"
    and x': "st x' = s'"
  shows "pabs (pnet_after P a x' os (announce_call c)) = pabs P \<or>
         mesh_step (pabs P) (pabs (pnet_after P a x' os (announce_call c)))"
proof -
  have na: "nst (pabs P) a = Some (st x)" using a by (simp add: pabs_def)
  have same: "(nst (pabs P))(a \<mapsto> st x) = nst (pabs P)" using na by auto
  show ?thesis
  proof (cases c)
    case (Init oe be i r0)
    obtain res where ti: "thread_comm_init oe be i r0 (st x) = (res, s')" and tx: "tx_list os = []"
      using r Init by (cases "thread_comm_init oe be i r0 (st x)") (auto split: sum.splits)
    have "pabs (pnet_after P a x' os (announce_call c)) = (pabs P)\<lparr>nst := (nst (pabs P))(a \<mapsto> s')\<rparr>"
      using tx x' by (simp add: pabs_after)
    with mesh_step.init [OF na ti] show ?thesis by simp
  next
    case (Announce b)
    show ?thesis
    proof (cases "thread_comm_announce b (st x)")
      case (Inl e)
      with r Announce x' same show ?thesis by (auto simp: pabs_after outcome_def)
    next
      case (Inr d)
      with r Announce x' same
      have "pabs (pnet_after P a x' os (announce_call c)) =
          (pabs P)\<lparr>flight := add_mset (a, d) (flight (pabs P)), announced := insert a (announced (pabs P))\<rparr>"
        by (auto simp: pabs_after outcome_def)
      with mesh_step.announce [OF na Inr] show ?thesis by simp
    qed
  next
    case (Send b k p)
    show ?thesis
    proof (cases "thread_comm_send b k p (st x)")
      case (Inl e)
      with r Send x' same show ?thesis by (auto simp: pabs_after outcome_def)
    next
      case (Inr d)
      with r Send x' same
      have "pabs (pnet_after P a x' os (announce_call c)) =
          (pabs P)\<lparr>flight := add_mset (a, d) (flight (pabs P))\<rparr>"
        by (auto simp: pabs_after outcome_def)
      with mesh_step.send [OF na Inr] show ?thesis by simp
    qed
  next
    case (RegisterCb cb)
    with r x' have "pabs (pnet_after P a x' os (announce_call c)) =
        (pabs P)\<lparr>nst := (nst (pabs P))(a \<mapsto> thread_comm_register_rx_cb cb (st x))\<rparr>"
      by (auto simp: pabs_after)
    with mesh_step.register_cb [OF na] show ?thesis by simp
  next
    case PrintNodes
    with r x' same show ?thesis by (auto simp: pabs_after)
  next
    case (Inbound b m src)
    with c show ?thesis by simp
  qed
qed

text \<open>A delivery by the mainloop is a delivery of the mesh.\<close>

lemma deliver_mesh:
  assumes a: "pn P a = Some x" and fl: "(src, d) \<in># pflight P" and ne: "a \<noteq> src"
    and dd: "dst d = a \<or> dst d = MCAST_ALL_NODES" and dp: "dport d = THREAD_COMM_PORT"
    and sb: "sock (st x) = SockBound"
    and r: "run_call (st x) (Inbound True (data d) src) = (s', os)" and x': "st x' = s'"
  shows "mesh_step (pabs P) (pabs (pnet_after P a x' os False))"
proof -
  obtain evs where h: "udp_handler True (data d) src (st x) = (s', evs)" and os: "os = map Out evs"
    using r by (cases "udp_handler True (data d) src (st x)") auto
  have na: "nst (pabs P) a = Some (st x)" using a by (simp add: pabs_def)
  have "(src, d) \<in># flight (pabs P)" using fl by (simp add: pabs_def)
  from mesh_step.deliver [OF this na ne dd dp sb h] os x' show ?thesis
    by (simp add: pabs_after)
qed

lemma pstep_mesh:
  "pstep P P' \<Longrightarrow> pabs P' = pabs P \<or> mesh_step (pabs P) (pabs P')"
proof (induction rule: pstep.induct)
  case (worker P a x c cs s' os)
  then show ?case by (intro local_call_mesh) simp_all
next
  case (app P a x c cs s' os)
  then show ?case by (intro local_call_mesh) simp_all
next
  case (deliver P a x src d s' os)
  then show ?case by (intro disjI2) (rule deliver_mesh; simp)
next
  case (drop y P)
  then have "y \<in># flight (pabs P)" by (simp add: pabs_def)
  from mesh_step.drop [OF this] show ?case by (simp add: pabs_def)
qed

text \<open>A quiet call changes nothing and sends no HELLO.\<close>

lemma quiet_call_run:
  assumes "quiet_call c" "run_call s c = (s', os)"
  shows "s' = s \<and> (\<forall>d \<in> set (tx_list os). \<not> strncmp_prefix (rx_buffer (data d)) ''HELLO|'')"
  using assms
proof (cases c)
  case (Send b k p)
  show ?thesis
  proof (cases "thread_comm_send b k p s")
    case (Inl e)
    with Send assms(2) show ?thesis by (auto simp: outcome_def)
  next
    case (Inr d')
    with Send assms(2) show ?thesis
      by (auto simp: outcome_def thread_comm_send_data encode_data_not_hello)
  qed
qed auto

lemma not_hello_classify:
  "\<not> strncmp_prefix buf ''HELLO|'' \<Longrightarrow> classify buf \<noteq> RxHello i r"
  using classify_hello_prefix by blast

text \<open>Registering one identifier leaves the others' entries as they were.\<close>

lemma hello_nodes_other:
  assumes "wf_table ns" "length i < NODE_ID_LEN" "i \<noteq> k"
  shows "peer_map (hello_nodes i r src ns) k = peer_map ns k"
proof (cases "register_node i r src ns")
  case (Inl e)
  then show ?thesis by (simp add: hello_nodes_def)
next
  case (Inr ns')
  have "length ns = MAX_NODES" using assms(1) by (simp add: wf_table_def)
  from register_node_peer_map [OF this assms(2) Inr] Inr assms(3) show ?thesis
    by (simp add: hello_nodes_def)
qed

text \<open>A delivery of anything but a HELLO of \<open>k\<close> keeps \<open>k\<close> unknown and sends
  no HELLO.\<close>

lemma deliver_quiet:
  assumes wf: "wf_comm s" and h: "udp_handler b msg src s = (s', evs)"
    and nk: "\<forall>r. classify (rx_buffer msg) \<noteq> RxHello k r"
  shows "wf_comm s' \<and> (peer_map (nodes s) k = None \<longrightarrow> peer_map (nodes s') k = None) \<and>
         (\<forall>d \<in> set (tx_events evs). \<forall>r. classify (rx_buffer (data d)) \<noteq> RxHello k r)"
proof -
  have "peer_map (nodes s') k = peer_map (nodes s) k"
    using udp_handler_nodes [OF h]
  proof
    assume "\<exists>i r. classify (rx_buffer msg) = RxHello i r \<and> nodes s' = hello_nodes i r src (nodes s)"
    then obtain i r where c: "classify (rx_buffer msg) = RxHello i r"
      and ns: "nodes s' = hello_nodes i r src (nodes s)" by blast
    have "i \<noteq> k" using c nk by auto
    moreover have "wf_table (nodes s)" using wf by (simp add: wf_comm_def)
    ultimately show ?thesis using ns hello_fields_bounded [OF c] by (simp add: hello_nodes_other)
  qed simp
  with udp_handler_wf [OF wf h] udp_handler_tx_not_hello [OF h] show ?thesis
    by (auto dest: not_hello_classify)
qed

text \<open>Steps keep the set of nodes, and keep a network quiet.\<close>

lemma pstep_pn_None: "pstep P P' \<Longrightarrow> pn P' a = None \<longleftrightarrow> pn P a = None"
  by (induction rule: pstep.induct) (auto simp: pnet_after_def)

lemma pn_after [simp]: "pn (pnet_after P a x os ann) = (pn P)(a \<mapsto> x)"
  by (simp add: pnet_after_def)

lemma pflight_after [simp]:
  "pflight (pnet_after P a x os ann) = pflight P + mset (map (Pair a) (tx_list os))"
  by (simp add: pnet_after_def)

lemma quiet_after:
  assumes q: "quiet_net k P" and x': "worker x' = []" "list_all quiet_call (app x')" "wf_comm (st x')"
    and tx: "\<forall>d \<in> set (tx_list os). \<forall>r. classify (rx_buffer (data d)) \<noteq> RxHello k r"
  shows "quiet_net k (pnet_after P a x' os ann)"
proof -
  have "worker y = [] \<and> list_all quiet_call (app y) \<and> wf_comm (st y)"
    if "((pn P)(a \<mapsto> x')) b = Some y" for b y
    using that q x' by (cases "b = a") (auto simp: quiet_net_def)
  moreover have "classify (rx_buffer (data d)) \<noteq> RxHello k r"
    if "(src, d) \<in># pflight P + mset (map (Pair a) (tx_list os))" for src d r
    using that q tx by (auto simp: quiet_net_def)
  ultimately show ?thesis by (simp add: quiet_net_def)
qed

text \<open>The entry for \<open>k\<close> of a node the step leaves alone, or whose table it
  keeps without \<open>k\<close>.\<close>

lemma unknown_after:
  assumes "pn P a = Some x" "peer_map (nodes (st x)) k = None \<longrightarrow> peer_map (nodes (st x')) k = None"
    "pn P b = Some y" "((pn P)(a \<mapsto> x')) b = Some y'" "peer_map (nodes (st y)) k = None"
  shows "peer_map (nodes (st y')) k = None"
  using assms by (cases "b = a") auto

lemma quiet_step:
  assumes st: "pstep P P'" and q: "quiet_net k P"
  shows "quiet_net k P' \<and>
         (\<forall>b y y'. pn P b = Some y \<longrightarrow> pn P' b = Some y' \<longrightarrow>
            peer_map (nodes (st y)) k = None \<longrightarrow> peer_map (nodes (st y')) k = None)"
  using st q
proof (induction rule: pstep.induct)
  case (worker P a x c cs s' os)
  then show ?case by (simp add: quiet_net_def)
next
  case (app P a x c cs s' os)
  have "list_all quiet_call (app x) \<and> wf_comm (st x)"
    using app.prems app(1) unfolding quiet_net_def by blast
  with app(3) have qc: "quiet_call c" "list_all quiet_call cs" "wf_comm (st x)" by simp_all
  have s': "s' = st x"
    using quiet_call_run [OF qc(1) app(5)] by simp
  have "\<forall>d \<in> set (tx_list os). \<forall>r. classify (rx_buffer (data d)) \<noteq> RxHello k r"
    using quiet_call_run [OF qc(1) app(5)] by (auto dest: not_hello_classify)
  then have "quiet_net k (pnet_after P a (x\<lparr>st := s', app := cs\<rparr>) os (announce_call c))"
    using app(2) qc s' by (intro quiet_after [OF app.prems]) simp_all
  moreover have imp: "peer_map (nodes (st x)) k = None \<longrightarrow> peer_map (nodes (st (x\<lparr>st := s', app := cs\<rparr>))) k = None"
    using s' by simp
  moreover have "peer_map (nodes (st y')) k = None"
    if "pn P b = Some y" "((pn P)(a \<mapsto> x\<lparr>st := s', app := cs\<rparr>)) b = Some y'"
      "peer_map (nodes (st y)) k = None" for b y y'
    by (rule unknown_after [OF app(1) imp that])
  ultimately show ?case by simp
next
  case (deliver P a x src d s' os)
  obtain evs where h: "udp_handler True (data d) src (st x) = (s', evs)" and os: "os = map Out evs"
    using deliver(8) by (cases "udp_handler True (data d) src (st x)") auto
  have wf: "wf_comm (st x)" and lq: "list_all quiet_call (app x)"
    using deliver.prems deliver(1) unfolding quiet_net_def by blast+
  have nk: "\<forall>r. classify (rx_buffer (data d)) \<noteq> RxHello k r"
    using deliver.prems deliver(3) unfolding quiet_net_def by blast
  from deliver_quiet [OF wf h nk] have dq: "wf_comm s'"
    "peer_map (nodes (st x)) k = None \<longrightarrow> peer_map (nodes s') k = None"
    "\<forall>d \<in> set (tx_list os). \<forall>r. classify (rx_buffer (data d)) \<noteq> RxHello k r"
    using os by simp_all
  have "quiet_net k (pnet_after P a (x\<lparr>st := s'\<rparr>) os False)"
    using deliver(2) lq dq by (intro quiet_after [OF deliver.prems]) simp_all
  moreover have imp: "peer_map (nodes (st x)) k = None \<longrightarrow> peer_map (nodes (st (x\<lparr>st := s'\<rparr>))) k = None"
    using dq(2) by simp
  moreover have "peer_map (nodes (st y')) k = None"
    if "pn P b = Some y" "((pn P)(a \<mapsto> x\<lparr>st := s'\<rparr>)) b = Some y'"
      "peer_map (nodes (st y)) k = None" for b y y'
    by (rule unknown_after [OF deliver(1) imp that])
  ultimately show ?case by simp
next
  case (drop y P)
  then show ?case by (auto simp: quiet_net_def dest: in_diffD)
qed

text \<open>An enabled action is a step; a run of enabled actions is a path.\<close>

lemma act_enabled_step:
  assumes "act_enabled P t"
  shows "pstep P (pnet_act P t)"
proof (cases t)
  case (Call a w)
  with assms obtain x where x: "pn P a = Some x" by (auto split: option.splits)
  show ?thesis
  proof (cases w)
    case True
    with assms Call x obtain c cs where "worker x = c # cs" "local_call c"
      by (cases "worker x") auto
    with Call True x show ?thesis
      by (cases "run_call (st x) c") (auto intro: pstep.worker)
  next
    case False
    with assms Call x obtain c cs where "worker x = []" "app x = c # cs" "local_call c"
      by (cases "app x") auto
    with Call False x show ?thesis
      by (cases "run_call (st x) c") (auto intro: pstep.app)
  qed
next
  case (Drop a d)
  with assms show ?thesis by (auto intro: pstep.drop)
qed

lemma run_ok_path: "run_ok P ts \<Longrightarrow> pstep\<^sup>*\<^sup>* P (pnet_run P ts)"
proof (induction P ts rule: pnet_run.induct)
  case (1 P)
  then show ?case by simp
next
  case (2 P t ts)
  then show ?case by (auto intro: converse_rtranclp_into_rtranclp act_enabled_step)
qed

lemma reach_path: "pstep\<^sup>*\<^sup>* P P' \<Longrightarrow> pnet_reach ps P \<Longrightarrow> pnet_reach ps P'"
  by (induction rule: rtranclp_induct) (auto intro: pnet_reach.step)

text \<open>The nodes of a reachable network are those of its programs.\<close>

lemma pnet_reach_dom: "pnet_reach ps P \<Longrightarrow> pn P a \<noteq> None \<Longrightarrow> a \<in> set (map fst ps)"
proof (induction rule: pnet_reach.induct)
  case start
  then show ?case using map_of_eq_None_iff [of ps a] by (auto simp: pnet_init_def)
next
  case (step P P')
  with pstep_pn_None [OF step(2), of a] show ?case by simp
qed

lemma quiet_check_net:
  assumes "\<forall>a. pn P a \<noteq> None \<longrightarrow> a \<in> set as" "quiet_check k as P"
  shows "quiet_net k P"
proof -
  have "worker x = [] \<and> list_all quiet_call (app x) \<and> wf_comm (st x)" if "pn P a = Some x" for a x
  proof -
    have "a \<in> set as" using assms(1) that by blast
    with assms(2) have "case pn P a of None \<Rightarrow> True
        | Some x \<Rightarrow> worker x = [] \<and> list_all quiet_call (app x) \<and> wf_comm (st x)"
      by (simp add: quiet_check_def list_all_iff)
    with that show ?thesis by simp
  qed
  moreover have "classify (rx_buffer (data d)) \<noteq> RxHello k r" if "(src, d) \<in># pflight P" for src d r
    using assms(2) that by (fastforce simp: quiet_check_def)
  ultimately show ?thesis by (simp add: quiet_net_def)
qed

section \<open>Properties of the programs\<close>

text \<open>C31: the programs refine the mesh: every state the node programs can reach,
  under any interleaving of their tasks with the mainloops' deliveries and
  losses, projects onto a reachable state of \<open>Mesh\<close>, so the mesh invariants
  hold of the programs; in particular every node's module state is
  well-formed.\<close>

theorem programs_refine_mesh:
  assumes "pnet_reach ps P"
  shows "mesh_reach (map fst ps) (pabs P) \<and> (\<forall>a x. pn P a = Some x \<longrightarrow> wf_comm (st x))"
proof -
  from assms have r: "mesh_reach (map fst ps) (pabs P)"
  proof (induction rule: pnet_reach.induct)
    case start
    show ?case by (simp add: pabs_init mesh_reach.start)
  next
    case (step P P')
    from pstep_mesh [OF step(2)] step(3) show ?case by (auto intro: mesh_reach.step)
  qed
  have "wf_comm (st x)" if "pn P a = Some x" for a x
  proof -
    have "nst (pabs P) a = Some (st x)" using that by (simp add: pabs_def)
    with mesh_reach_inv [OF r] show ?thesis by (simp add: nodes_wf_def)
  qed
  with r show ?thesis by blast
qed

text \<open>C32: no recovery: once every node has finished its boot sequence and its
  app task has only sends and prints left, and no HELLO of \<open>k\<close> is in
  flight, a node that does not know \<open>k\<close> never learns it, whatever the
  network does afterwards. Node 2 announces once and node 1 only at boot, so
  one lost or early HELLO leaves the peer unknown for good.\<close>

theorem quiet_no_discovery:
  assumes q: "quiet_net k P" and a: "pn P a = Some x" "peer_map (nodes (st x)) k = None"
    and r: "pstep\<^sup>*\<^sup>* P P'"
  shows "\<exists>x'. pn P' a = Some x' \<and> peer_map (nodes (st x')) k = None"
proof -
  from r have "quiet_net k P' \<and> (\<exists>x'. pn P' a = Some x' \<and> peer_map (nodes (st x')) k = None)"
  proof (induction rule: rtranclp_induct)
    case base
    with q a show ?case by blast
  next
    case (step P1 P2)
    then obtain x1 where x1: "pn P1 a = Some x1" "peer_map (nodes (st x1)) k = None" "quiet_net k P1"
      by blast
    obtain x2 where x2: "pn P2 a = Some x2" using pstep_pn_None [OF step(2), of a] x1(1) by auto
    from quiet_step [OF step(2) x1(3)] x1 x2 show ?case by blast
  qed
  then show ?thesis by blast
qed

end
