(* ===== verification/Platform.thy ===== *)
theory Platform
  imports Apps Logging
begin

text \<open>
  The ESP-IDF start-up of both node programs (\<open>src/NODE_1/main/esp_ot_cli.c\<close>,
  \<open>src/NODE_2/main/esp_ot_cli.c\<close>): \<open>app_main\<close>, which initialises NVS,
  the default event loop, the netif layer and the eventfd VFS, each under
  \<open>ESP_ERROR_CHECK\<close>, and creates \<open>ot_task_worker\<close>; the beginning of
  \<open>ot_task_worker\<close>, which initialises the OpenThread platform and the
  OpenThread network interface (\<open>init_openthread_netif\<close>, with its
  \<open>assert\<close>) and makes it the default interface; and the whole node start,
  composed with the dataset (\<open>Dataset\<close>) and the calls into the module
  (\<open>Apps\<close>). \<open>ESP_ERROR_CHECK\<close> and \<open>assert\<close> call \<open>abort()\<close>: an
  abort is the \<open>Inl\<close> value of the sum type, as an exception. The results
  of the ESP-IDF and FreeRTOS calls are parameters (\<open>esp_env\<close>); their
  effects are recorded in \<open>esp_platform\<close>. The programs ignore the result
  of \<open>xTaskCreate\<close>, so a task that cannot be created is not an abort: it
  never runs.
\<close>

section \<open>Results and aborts\<close>

text \<open>\<open>esp_err_t\<close> is an \<open>int\<close>; \<open>ESP_OK\<close> is 0.\<close>

type_synonym esp_err = int

definition ESP_OK :: esp_err where
  "ESP_OK = 0"

text \<open>The calls the programs wrap in \<open>ESP_ERROR_CHECK\<close>, by call site.\<close>

datatype esp_site =
    NvsFlashInit | EventLoopCreateDefault | NetifInit | VfsEventfdRegister
  | OpenthreadInit | NetifAttach

text \<open>Why a program called \<open>abort()\<close>: a failed \<open>ESP_ERROR_CHECK\<close> with the
  error it printed, or a failed \<open>assert\<close> with its expression.\<close>

datatype abort_reason = CheckFailed esp_site esp_err | AssertFailed string

type_synonym 'a boot = "abort_reason + 'a"

text \<open>Sequencing of statements that may abort: the rest runs only if the first
  part returned.\<close>

definition abort_bind :: "'a boot \<Rightarrow> ('a \<Rightarrow> 'b boot) \<Rightarrow> 'b boot" where
  "abort_bind m f = (case m of Inl r \<Rightarrow> Inl r | Inr x \<Rightarrow> f x)"

text \<open>\<open>ESP_ERROR_CHECK(x)\<close>: \<open>x\<close> has been evaluated (its effect gives the state
  \<open>a\<close>); if it is not \<open>ESP_OK\<close> the program aborts.\<close>

definition esp_error_check :: "esp_site \<Rightarrow> esp_err \<Rightarrow> 'a \<Rightarrow> 'a boot" where
  "esp_error_check site e a = (if e = ESP_OK then Inr a else Inl (CheckFailed site e))"

section \<open>The platform state\<close>

text \<open>The two task functions of each program.\<close>

datatype task_fn = OtTaskWorker | AppTask

text \<open>The arguments of \<open>xTaskCreate\<close> the programs pass (parameter and
  handle are \<open>NULL\<close>).\<close>

record task =
  task_code :: task_fn
  task_name :: string
  stack_depth :: nat
  task_prio :: nat

text \<open>
  What the start-up calls leave behind: which ESP-IDF services are initialised,
  the tasks created (in creation order), the network interfaces created by
  \<open>esp_netif_new\<close> (by handle, the position in the list, with whether a
  driver is attached), the default interface, and the per-tag log levels set
  by \<open>esp_log_level_set\<close> (latest first).
\<close>

record esp_platform =
  nvs_ready :: bool
  default_loop :: bool
  netif_ready :: bool
  eventfd_max_fds :: "nat option"
  tasks :: "task list"
  ot_ready :: bool
  netifs :: "bool list"
  default_netif :: "nat option"
  log_levels :: "(string \<times> log_level) list"

text \<open>The platform at power-on.\<close>

definition platform_reset :: esp_platform where
  "platform_reset =
     \<lparr>nvs_ready = False, default_loop = False, netif_ready = False, eventfd_max_fds = None,
      tasks = [], ot_ready = False, netifs = [], default_netif = None, log_levels = []\<rparr>"

text \<open>
  The results of the external calls: the error each checked call returns,
  whether \<open>esp_netif_new\<close> allocates an interface, and whether
  \<open>xTaskCreate\<close> can create the task of a given name.
\<close>

record esp_env =
  nvs_err :: esp_err
  loop_err :: esp_err
  netif_init_err :: esp_err
  eventfd_err :: esp_err
  ot_init_err :: esp_err
  netif_alloc :: bool
  attach_err :: esp_err
  task_ok :: "string \<Rightarrow> bool"

section \<open>Library calls\<close>

text \<open>\<open>xTaskCreate\<close>: the task is added when it can be created; the result
  (\<open>pdPASS\<close> or \<open>errCOULD_NOT_ALLOCATE_REQUIRED_MEMORY\<close>) is discarded by
  both programs.\<close>

definition xTaskCreate :: "esp_env \<Rightarrow> task \<Rightarrow> esp_platform \<Rightarrow> esp_platform" where
  "xTaskCreate env t p = (if task_ok env (task_name t) then p\<lparr>tasks := tasks p @ [t]\<rparr> else p)"

text \<open>The scheduler runs a task function iff a task of it was created.\<close>

definition task_created :: "task_fn \<Rightarrow> esp_platform \<Rightarrow> bool" where
  "task_created f p = list_ex (\<lambda>t. task_code t = f) (tasks p)"

definition esp_netif_new :: "esp_env \<Rightarrow> esp_platform \<Rightarrow> nat option \<times> esp_platform" where
  "esp_netif_new env p =
     (if netif_alloc env then (Some (length (netifs p)), p\<lparr>netifs := netifs p @ [False]\<rparr>)
      else (None, p))"

definition esp_netif_attach :: "nat \<Rightarrow> esp_platform \<Rightarrow> esp_platform" where
  "esp_netif_attach n p = p\<lparr>netifs := (netifs p)[n := True]\<rparr>"

definition esp_log_level_set :: "string \<Rightarrow> log_level \<Rightarrow> esp_platform \<Rightarrow> esp_platform" where
  "esp_log_level_set tag l p = p\<lparr>log_levels := (tag, l) # log_levels p\<rparr>"

section \<open>The start-up code\<close>

text \<open>\<open>app_main\<close> of either program; \<open>name\<close> is the name given to
  \<open>ot_task_worker\<close> (\<open>ot_node_1\<close>, \<open>ot_node_2\<close>).\<close>

definition app_main :: "string \<Rightarrow> esp_env \<Rightarrow> esp_platform \<Rightarrow> esp_platform boot" where
  "app_main name env p =
     (let max_fds = 3 in
      abort_bind (esp_error_check NvsFlashInit (nvs_err env) (p\<lparr>nvs_ready := True\<rparr>)) (\<lambda>p.
      abort_bind (esp_error_check EventLoopCreateDefault (loop_err env) (p\<lparr>default_loop := True\<rparr>)) (\<lambda>p.
      abort_bind (esp_error_check NetifInit (netif_init_err env) (p\<lparr>netif_ready := True\<rparr>)) (\<lambda>p.
      abort_bind (esp_error_check VfsEventfdRegister (eventfd_err env) (p\<lparr>eventfd_max_fds := Some max_fds\<rparr>)) (\<lambda>p.
      Inr (xTaskCreate env
             \<lparr>task_code = OtTaskWorker, task_name = name, stack_depth = 10240, task_prio = 5\<rparr> p))))))"

text \<open>\<open>init_openthread_netif\<close>: a new interface, then \<open>assert(netif)\<close>
  (assertions are enabled, the ESP-IDF default), then the OpenThread glue
  attached under \<open>ESP_ERROR_CHECK\<close>; the handle is returned.\<close>

definition init_openthread_netif :: "esp_env \<Rightarrow> esp_platform \<Rightarrow> (nat \<times> esp_platform) boot" where
  "init_openthread_netif env p =
     (case esp_netif_new env p of
        (None, p) \<Rightarrow> Inl (AssertFailed ''netif'')
      | (Some n, p) \<Rightarrow> esp_error_check NetifAttach (attach_err env) (n, esp_netif_attach n p))"

text \<open>The start of \<open>ot_task_worker\<close> of node 1, up to the dataset:
  \<open>esp_openthread_init\<close> checked, the interface set up and made the
  default.\<close>

definition ot_platform_init :: "esp_env \<Rightarrow> esp_platform \<Rightarrow> esp_platform boot" where
  "ot_platform_init env p =
     abort_bind (esp_error_check OpenthreadInit (ot_init_err env) (p\<lparr>ot_ready := True\<rparr>)) (\<lambda>p.
     abort_bind (init_openthread_netif env p) (\<lambda>(n, p).
       Inr (p\<lparr>default_netif := Some n\<rparr>)))"

text \<open>Node 2's own copy of \<open>init_openthread_netif\<close>, written as node 1's.\<close>

definition node2_init_openthread_netif :: "esp_env \<Rightarrow> esp_platform \<Rightarrow> (nat \<times> esp_platform) boot" where
  "node2_init_openthread_netif env p =
     (case esp_netif_new env p of
        (None, p) \<Rightarrow> Inl (AssertFailed ''netif'')
      | (Some n, p) \<Rightarrow> esp_error_check NetifAttach (attach_err env) (n, esp_netif_attach n p))"

text \<open>The start of node 2's \<open>ot_task_worker\<close>: it first silences the log of
  the OpenThread stack (tag \<open>OPENTHREAD\<close>), then sets up the platform and
  the interface as node 1 does.\<close>

definition node2_platform_init :: "esp_env \<Rightarrow> esp_platform \<Rightarrow> esp_platform boot" where
  "node2_platform_init env p =
     (let p = esp_log_level_set ''OPENTHREAD'' ESP_LOG_NONE p in
      abort_bind (esp_error_check OpenthreadInit (ot_init_err env) (p\<lparr>ot_ready := True\<rparr>)) (\<lambda>p.
      abort_bind (node2_init_openthread_netif env p) (\<lambda>(n, p).
        Inr (p\<lparr>default_netif := Some n\<rparr>))))"

text \<open>The \<open>xTaskCreate(app_task, \"app_task\", 4096, NULL, 3, NULL)\<close> of both
  workers.\<close>

definition app_task_spec :: task where
  "app_task_spec = \<lparr>task_code = AppTask, task_name = ''app_task'', stack_depth = 4096, task_prio = 3\<rparr>"

text \<open>
  The whole start of node 1: \<open>app_main\<close>; then, if the worker task exists,
  its platform start, the dataset and Thread start, its calls into the module
  under the lock, and the creation of \<open>app_task\<close>, whose calls follow if it
  exists. The result is the platform, the OpenThread instance and the calls
  the node makes into \<open>thread_comm\<close>, in order.
\<close>

definition node1_main ::
  "esp_env \<Rightarrow> ot_error \<Rightarrow> ot_error \<Rightarrow> bool \<Rightarrow> nat \<Rightarrow> esp_platform \<Rightarrow> ot_instance \<Rightarrow>
   (esp_platform \<times> ot_instance \<times> api_call list) boot" where
  "node1_main env oe be b n p inst =
     abort_bind (app_main ''ot_node_1'' env p) (\<lambda>p.
       if task_created OtTaskWorker p then
         abort_bind (ot_platform_init env p) (\<lambda>p.
           let inst = ot_thread_start node1_dataset inst;
               boot = node1_boot oe be b;
               p = xTaskCreate env app_task_spec p
           in Inr (p, inst, boot @ (if task_created AppTask p then node1_app b n else [])))
       else Inr (p, inst, []))"

text \<open>The whole start of node 2, in the same way.\<close>

definition node2_main ::
  "esp_env \<Rightarrow> ot_error \<Rightarrow> ot_error \<Rightarrow> bool \<Rightarrow> device_role list \<Rightarrow> esp_platform \<Rightarrow> ot_instance \<Rightarrow>
   (esp_platform \<times> ot_instance \<times> api_call list) boot" where
  "node2_main env oe be b rs p inst =
     abort_bind (app_main ''ot_node_2'' env p) (\<lambda>p.
       if task_created OtTaskWorker p then
         abort_bind (node2_platform_init env p) (\<lambda>p.
           let inst = ot_thread_start node2_dataset inst;
               boot = node2_boot oe be;
               p = xTaskCreate env app_task_spec p
           in Inr (p, inst, boot @ (if task_created AppTask p then node2_app b False rs else [])))
       else Inr (p, inst, []))"

section \<open>Specification of the aborts\<close>

text \<open>The checks of the start-up in program order: each is \<open>None\<close> when it
  passes and the abort it causes otherwise.\<close>

definition check_result :: "esp_site \<Rightarrow> esp_err \<Rightarrow> abort_reason option" where
  "check_result s e = (if e = ESP_OK then None else Some (CheckFailed s e))"

definition app_main_checks :: "esp_env \<Rightarrow> abort_reason option list" where
  "app_main_checks env =
     [check_result NvsFlashInit (nvs_err env), check_result EventLoopCreateDefault (loop_err env),
      check_result NetifInit (netif_init_err env), check_result VfsEventfdRegister (eventfd_err env)]"

definition worker_checks :: "esp_env \<Rightarrow> abort_reason option list" where
  "worker_checks env =
     [check_result OpenthreadInit (ot_init_err env),
      if netif_alloc env then None else Some (AssertFailed ''netif''),
      check_result NetifAttach (attach_err env)]"

fun first_failure :: "abort_reason option list \<Rightarrow> abort_reason option" where
  "first_failure [] = None"
| "first_failure (Some r # cs) = Some r"
| "first_failure (None # cs) = first_failure cs"

text \<open>The abort a run ends in, if any.\<close>

definition abort_of :: "'a boot \<Rightarrow> abort_reason option" where
  "abort_of m = (case m of Inl r \<Rightarrow> Some r | Inr _ \<Rightarrow> None)"

section \<open>Lemmas\<close>

lemma abort_bind_Inl [simp]: "abort_bind (Inl r) f = Inl r"
  by (simp add: abort_bind_def)

lemma abort_bind_Inr [simp]: "abort_bind (Inr x) f = f x"
  by (simp add: abort_bind_def)

lemma esp_error_check_simps [simp]:
  "e = ESP_OK \<Longrightarrow> esp_error_check s e a = Inr a"
  "e \<noteq> ESP_OK \<Longrightarrow> esp_error_check s e a = Inl (CheckFailed s e)"
  by (simp_all add: esp_error_check_def)

lemma check_result_simps [simp]:
  "e = ESP_OK \<Longrightarrow> check_result s e = None"
  "e \<noteq> ESP_OK \<Longrightarrow> check_result s e = Some (CheckFailed s e)"
  by (simp_all add: check_result_def)

lemma abort_of_simps [simp]:
  "abort_of (Inl r) = Some r"
  "abort_of (Inr x) = None"
  by (simp_all add: abort_of_def)

lemma first_failure_append:
  "first_failure (xs @ ys) = (case first_failure xs of None \<Rightarrow> first_failure ys | Some r \<Rightarrow> Some r)"
  by (induction xs rule: first_failure.induct) auto

lemma app_main_eq:
  "app_main name env p =
     (case first_failure (app_main_checks env) of
        Some r \<Rightarrow> Inl r
      | None \<Rightarrow> Inr (xTaskCreate env
                    \<lparr>task_code = OtTaskWorker, task_name = name, stack_depth = 10240, task_prio = 5\<rparr>
                    (p\<lparr>nvs_ready := True, default_loop := True, netif_ready := True,
                       eventfd_max_fds := Some 3\<rparr>)))"
  by (simp add: app_main_def app_main_checks_def esp_error_check_def check_result_def)

lemma ot_platform_init_eq:
  "ot_platform_init env p =
     (case first_failure (worker_checks env) of
        Some r \<Rightarrow> Inl r
      | None \<Rightarrow> Inr (p\<lparr>ot_ready := True, netifs := netifs p @ [True],
                       default_netif := Some (length (netifs p))\<rparr>))"
  by (simp add: ot_platform_init_def init_openthread_netif_def esp_netif_new_def
      esp_netif_attach_def worker_checks_def esp_error_check_def check_result_def)

text \<open>The two programs' platform starts, written separately, differ only in
  the log level node 2 sets first.\<close>

lemma node2_platform_init_eq:
  "node2_platform_init env p = ot_platform_init env (esp_log_level_set ''OPENTHREAD'' ESP_LOG_NONE p)"
  by (simp add: node2_platform_init_def ot_platform_init_def node2_init_openthread_netif_def
      init_openthread_netif_def)

lemma task_created_xTaskCreate [simp]:
  "task_created f (xTaskCreate env t p) =
     (task_created f p \<or> task_ok env (task_name t) \<and> task_code t = f)"
  by (auto simp: task_created_def xTaskCreate_def)

lemma task_created_update [simp]:
  "task_created f (p\<lparr>nvs_ready := a, default_loop := l, netif_ready := i, eventfd_max_fds := m\<rparr>) =
     task_created f p"
  "task_created f (p\<lparr>ot_ready := c, netifs := ns, default_netif := d\<rparr>) = task_created f p"
  by (simp_all add: task_created_def)

lemma xTaskCreate_sel [simp]:
  "tasks (xTaskCreate env t p) = tasks p @ (if task_ok env (task_name t) then [t] else [])"
  "netifs (xTaskCreate env t p) = netifs p"
  "default_netif (xTaskCreate env t p) = default_netif p"
  by (simp_all add: xTaskCreate_def)

lemma platform_reset_sel [simp]:
  "tasks platform_reset = []" "netifs platform_reset = []" "default_netif platform_reset = None"
  by (simp_all add: platform_reset_def)

lemma task_created_reset [simp]: "\<not> task_created f platform_reset"
  by (simp add: task_created_def platform_reset_def)


lemma node2_main_abort_of:
  "abort_of (node2_main env oe be b rs platform_reset inst) =
     first_failure (app_main_checks env @ (if task_ok env ''ot_node_2'' then worker_checks env else []))"
  by (simp add: node2_main_def app_main_eq node2_platform_init_eq ot_platform_init_eq first_failure_append
      esp_log_level_set_def split: option.splits)

section \<open>Properties\<close>

text \<open>C14: node 1 aborts at power-on exactly when one of its checked start-up
  calls fails, and the abort names the first failing call in program order:
  the four checks of \<open>app_main\<close>, then, only if \<open>ot_task_worker\<close> could
  be created, \<open>esp_openthread_init\<close>, the \<open>assert(netif)\<close> and
  \<open>esp_netif_attach\<close>.\<close>

theorem node1_main_abort:
  "abort_of (node1_main env oe be b n platform_reset inst) =
     first_failure (app_main_checks env @ (if task_ok env ''ot_node_1'' then worker_checks env else []))"
  by (simp add: node1_main_def app_main_eq ot_platform_init_eq first_failure_append
      split: option.splits)

text \<open>C16: when no check fails, node 1's start runs the module calls of
  \<open>ot_task_worker\<close> and \<open>app_task\<close> on the instance with its dataset
  active, with one interface, attached and the default; but a task that
  \<open>xTaskCreate\<close> cannot create is silently missing: without the worker the
  node makes no call at all, without \<open>app_task\<close> only the boot calls.\<close>

theorem node1_main_runs:
  assumes "first_failure (app_main_checks env @
             (if task_ok env ''ot_node_1'' then worker_checks env else [])) = None"
  shows "\<exists>p'. node1_main env oe be b n platform_reset inst =
           Inr (p', if task_ok env ''ot_node_1'' then ot_thread_start node1_dataset inst else inst,
                if task_ok env ''ot_node_1''
                then node1_boot oe be b @ (if task_ok env ''app_task'' then node1_app b n else [])
                else []) \<and>
         map task_name (tasks p') =
           (if task_ok env ''ot_node_1''
            then ''ot_node_1'' # (if task_ok env ''app_task'' then [''app_task''] else []) else []) \<and>
         default_netif p' = (if task_ok env ''ot_node_1'' then Some 0 else None) \<and>
         netifs p' = (if task_ok env ''ot_node_1'' then [True] else [])"
  using assms
  by (cases "task_ok env ''ot_node_1''"; cases "task_ok env ''app_task''")
     (auto simp: node1_main_def app_main_eq ot_platform_init_eq first_failure_append
        app_task_spec_def Let_def split: option.splits)

section \<open>Witnesses\<close>

theorem node1_main_runs_witness:
  "\<exists>p'. node1_main \<lparr>nvs_err = 0, loop_err = 0, netif_init_err = 0, eventfd_err = 0,
            ot_init_err = 0, netif_alloc = True, attach_err = 0,
            task_ok = (\<lambda>n. n \<noteq> ''app_task'')\<rparr> 0 0 True 2 platform_reset \<lparr>active_dataset = None, ip6_enabled = False, thread_enabled = False\<rparr> =
         Inr (p', ot_thread_start node1_dataset \<lparr>active_dataset = None, ip6_enabled = False, thread_enabled = False\<rparr>, node1_boot 0 0 True) \<and>
         map task_name (tasks p') = [''ot_node_1''] \<and> default_netif p' = Some 0 \<and> netifs p' = [True]"
  using node1_main_runs [of "\<lparr>nvs_err = 0, loop_err = 0, netif_init_err = 0, eventfd_err = 0,
            ot_init_err = 0, netif_alloc = True, attach_err = 0,
            task_ok = (\<lambda>n. n \<noteq> ''app_task'')\<rparr>" 0 0 True 2 "\<lparr>active_dataset = None, ip6_enabled = False, thread_enabled = False\<rparr>"]
  by (simp add: app_main_checks_def worker_checks_def ESP_OK_def)


end
