(* ===== verification/Timing.thy ===== *)
theory Timing
  imports Apps
begin

text \<open>
  The delays of the node programs' tasks. Each task of \<open>esp_ot_cli.c\<close> is a
  list of timed steps: a \<open>vTaskDelay(pdMS_TO_TICKS(ms))\<close> is a \<open>Delay\<close> of
  \<open>ms\<close> milliseconds, a call into \<open>thread_comm\<close> is a \<open>Do\<close> step that
  takes no time (the calls do not block). Erasing the delays gives the call
  lists of \<open>Apps\<close>; \<open>call_times\<close> gives the time at which each call is
  made, counted from the start of the task. Ticks are not modelled: every delay
  of the programs is a multiple of 1000 ms, which \<open>pdMS_TO_TICKS\<close> converts
  exactly at the usual tick rates.
\<close>

section \<open>Timed steps\<close>

datatype tstep = Delay nat | Do api_call

text \<open>The calls of a task, without their timing.\<close>

fun untimed :: "tstep list \<Rightarrow> api_call list" where
  "untimed [] = []"
| "untimed (Delay d # ts) = untimed ts"
| "untimed (Do c # ts) = c # untimed ts"

text \<open>The calls of a task started at time \<open>t\<close>, each with the time it is made.\<close>

fun call_times :: "nat \<Rightarrow> tstep list \<Rightarrow> (nat \<times> api_call) list" where
  "call_times t [] = []"
| "call_times t (Delay d # ts) = call_times (t + d) ts"
| "call_times t (Do c # ts) = (t, c) # call_times t ts"

text \<open>The time at which a task started at \<open>t\<close> has run all its steps.\<close>

fun end_time :: "nat \<Rightarrow> tstep list \<Rightarrow> nat" where
  "end_time t [] = t"
| "end_time t (Delay d # ts) = end_time (t + d) ts"
| "end_time t (Do c # ts) = end_time t ts"

section \<open>The tasks with their delays\<close>

text \<open>
  Node 1's \<open>ot_task_worker\<close> after \<open>otThreadSetEnabled\<close>: 20 s wait for the
  attach, \<open>thread_comm_init\<close>, 3 s, then three announces each followed by
  2 s (all with the OpenThread lock held), the callback and the table print.
\<close>

definition node1_worker_timed :: "ot_error \<Rightarrow> ot_error \<Rightarrow> bool \<Rightarrow> tstep list" where
  "node1_worker_timed oe be b =
     [Delay 20000, Do (Init oe be ''node_1'' ''receiver''), Delay 3000] @
     concat (replicate 3 [Do (Announce b), Delay 2000]) @
     [Do (RegisterCb (Some NODE1_CB)), Do PrintNodes]"

text \<open>Node 1's \<open>app_task\<close>: the discover phase (print, 3 s, ping, 2 s), then
  \<open>n\<close> rounds of send, print, 5 s.\<close>

definition node1_app_timed :: "bool \<Rightarrow> nat \<Rightarrow> tstep list" where
  "node1_app_timed b n =
     [Do PrintNodes, Delay 3000, Do (Send b ''node_2'' ''ping''), Delay 2000] @
     concat (replicate n [Do (Send b ''node_2'' ''temp:25.5, hum:60''), Do PrintNodes, Delay 5000])"

text \<open>Node 2's \<open>ot_task_worker\<close> makes its two calls with no delay.\<close>

definition node2_worker_timed :: "ot_error \<Rightarrow> ot_error \<Rightarrow> tstep list" where
  "node2_worker_timed oe be = [Do (Init oe be ''node_2'' ''receiver''), Do (RegisterCb (Some NODE2_CB))]"

text \<open>Node 2's \<open>app_task\<close>: each round reads the role, announces the first time
  the node is at least a child, and waits 1 s.\<close>

fun node2_app_timed :: "bool \<Rightarrow> bool \<Rightarrow> device_role list \<Rightarrow> tstep list" where
  "node2_app_timed b announced [] = []"
| "node2_app_timed b announced (r # rs) =
     (if \<not> announced \<and> role_rank RoleChild \<le> role_rank r
      then Do (Announce b) # Delay 1000 # node2_app_timed b True rs
      else Delay 1000 # node2_app_timed b announced rs)"

text \<open>The first round, counted from 0, in which a role read is at least child.\<close>

fun first_join :: "device_role list \<Rightarrow> nat option" where
  "first_join [] = None"
| "first_join (r # rs) =
     (if role_rank RoleChild \<le> role_rank r then Some 0 else map_option Suc (first_join rs))"

section \<open>Lemmas\<close>

lemma untimed_append [simp]: "untimed (xs @ ys) = untimed xs @ untimed ys"
  by (induction xs rule: untimed.induct) auto

lemma call_times_append [simp]:
  "call_times t (xs @ ys) = call_times t xs @ call_times (end_time t xs) ys"
  by (induction t xs rule: call_times.induct) auto

lemma end_time_append [simp]: "end_time t (xs @ ys) = end_time (end_time t xs) ys"
  by (induction t xs rule: end_time.induct) auto

lemma node2_app_timed_announced: "node2_app_timed b True rs = map (\<lambda>_. Delay 1000) rs"
  by (induction rs) auto

lemma call_times_delays [simp]: "call_times t (map (\<lambda>_. Delay d) rs) = []"
  by (induction rs arbitrary: t) auto

section \<open>Properties\<close>

text \<open>Erasing the delays gives the call lists the rest of the development runs.\<close>

theorem untimed_tasks:
  "untimed (node1_worker_timed oe be b) = node1_boot oe be b \<and>
   untimed (node1_app_timed b n) = node1_app b n \<and>
   untimed (node2_worker_timed oe be) = node2_boot oe be \<and>
   untimed (node2_app_timed b announced rs) = node2_app b announced rs"
proof -
  have "untimed (concat (replicate k [Do c, Delay d])) = replicate k c" for k c d
    by (induction k) auto
  moreover have "untimed (concat (replicate k [Do c, Do c', Delay d])) = concat (replicate k [c, c'])" for k c c' d
    by (induction k) auto
  moreover have "untimed (node2_app_timed b a rs) = node2_app b a rs" for a
    by (induction b a rs rule: node2_app_timed.induct) auto
  ultimately show ?thesis
    by (simp add: node1_worker_timed_def node1_boot_def node1_app_timed_def node1_app_def
        node2_worker_timed_def node2_boot_def)
qed

text \<open>Node 1's worker, started at \<open>t\<close>, opens its socket 20 s later,
  announces at 23, 25 and 27 s, and creates \<open>app_task\<close> at 29 s.\<close>

theorem node1_worker_times:
  "call_times t (node1_worker_timed oe be b) =
     [(t + 20000, Init oe be ''node_1'' ''receiver''), (t + 23000, Announce b),
      (t + 25000, Announce b), (t + 27000, Announce b),
      (t + 29000, RegisterCb (Some NODE1_CB)), (t + 29000, PrintNodes)] \<and>
   end_time t (node1_worker_timed oe be b) = t + 29000"
  by (simp add: node1_worker_timed_def numeral_3_eq_3)

text \<open>Node 2's app task, started at \<open>t\<close>, makes its one announce at
  \<open>t + 1000 k\<close> for the first round \<open>k\<close> in which the node is a child or
  better, and none if there is no such round.\<close>

theorem node2_app_times:
  "call_times t (node2_app_timed b False rs) =
     (case first_join rs of None \<Rightarrow> [] | Some k \<Rightarrow> [(t + 1000 * k, Announce b)])"
proof (induction rs arbitrary: t)
  case Nil
  then show ?case by simp
next
  case (Cons r rs)
  then show ?case
    by (auto simp: node2_app_timed_announced split: option.splits)
qed

text \<open>C33: the boot race. With node 1's worker started at \<open>t1\<close> and node 2's
  at \<open>t2\<close>, node 2's one HELLO is made at \<open>t2 + 1000 k\<close>, for the first
  round \<open>k\<close> in which it is a child, and node 1 calls \<open>thread_comm_init\<close>
  (before which it has no socket) at \<open>t1 + 20000\<close>: the HELLO comes first
  exactly when \<open>t2 + 1000 k < t1 + 20000\<close>, so with both nodes powered on
  together whenever node 2 joins within 20 rounds.\<close>

theorem boot_race:
  assumes "first_join rs = Some k"
  shows "\<exists>u v. call_times (end_time t2 (node2_worker_timed oe2 be2)) (node2_app_timed b False rs) =
                 [(u, Announce b)] \<and>
               (v, Init oe be ''node_1'' ''receiver'') \<in> set (call_times t1 (node1_worker_timed oe be b')) \<and>
               (u < v \<longleftrightarrow> t2 + 1000 * k < t1 + 20000)"
proof -
  have "end_time t2 (node2_worker_timed oe2 be2) = t2" by (simp add: node2_worker_timed_def)
  then show ?thesis
    using assms node2_app_times [of t2 b rs] node1_worker_times [of t1 oe be b'] by auto
qed

section \<open>Witnesses\<close>

theorem boot_race_witness:
  "\<exists>u v. call_times (end_time 0 (node2_worker_timed 0 0)) (node2_app_timed True False [RoleDetached, RoleChild]) =
                 [(u, Announce True)] \<and>
               (v, Init 0 0 ''node_1'' ''receiver'') \<in> set (call_times 0 (node1_worker_timed 0 0 True)) \<and>
               (u < v \<longleftrightarrow> 0 + 1000 * 1 < (0::nat) + 20000)"
proof -
  have j: "first_join [RoleDetached, RoleChild] = Some 1" by simp
  show ?thesis using boot_race [OF j, of 0 0 0 True 0 0 0 True] by simp
qed

end
