(* ===== verification/Spec2Isabelle.thy ===== *)
theory Spec2Isabelle
  imports Apps Mesh Dataset Programs Platform Timing
begin

text \<open>
  \<^bold>\<open>Thread_ESP32: peer discovery and messaging over Thread, verified in HOL.\<close>

  The repository holds two ESP32 node programs (\<open>src/NODE_1/main/esp_ot_cli.c\<close>,
  \<open>src/NODE_2/main/esp_ot_cli.c\<close>) that join a Thread mesh and then use one
  module, \<open>thread_comm\<close> (\<open>src/NODE_1/main/thread_comm.c\<close>, interface
  \<open>src/NODE_2/main/thread_comm.h\<close>), to discover peers by multicast HELLO frames,
  keep them in a fixed table, and exchange DATA frames over UDP port 61631.
  The module is the only part with protocol logic; it is modelled here as a
  shallow embedding, one HOL definition per C function, its static variables as
  a record threaded through the calls.

  \<^bold>\<open>Theories and what they model.\<close>
  \<^item> \<open>Prelude\<close>: the model's types (\<open>ip6_addr = 128 word\<close> for
    \<open>otIp6Address\<close>, \<open>port = 16 word\<close>, C strings as their contents), the
    rule collections, and \<open>scan_first\<close>, the bounded first-index loop that both
    table scans of the code are, with its characterisations.
  \<^item> \<open>CLib\<close>: the C library calls the module makes on strings: \<open>strncpy\<close>
    into a terminated buffer, \<open>strncmp\<close> against a literal, \<open>snprintf\<close>
    with \<open>%s\<close>, and \<open>sscanf\<close> as an interpreter of the directives the
    module uses (literal characters, \<open>%N[^set]\<close>, \<open>%Ns\<close>). These are
    modelled from the C standard; they are library code, not the repository's.
  \<^item> \<open>NodeTable\<close>: \<open>thread_node_t\<close> as the record \<open>thread_node\<close>, the
    array \<open>nodes[MAX_NODES]\<close> as a list, \<open>find_node\<close>, \<open>alloc_node\<close>
    (loops \<open>find_node_from\<close>, \<open>alloc_node_from\<close>), \<open>register_node\<close>
    (with the \<open>TableFull\<close> early return as an error value) and
    \<open>thread_comm_print_nodes\<close>. The invariant \<open>wf_table\<close> (eight slots,
    distinct active identifiers, strings within their buffers) and the
    abstraction \<open>peer_map\<close> to a map from identifier to role and address.
  \<^item> \<open>Codec\<close>: the frames \<open>HELLO|id=..|role=..\<close> and \<open>DATA|from=..|..\<close>
    as printed by \<open>thread_comm_announce\<close> and \<open>thread_comm_send\<close>
    (\<open>encode_hello\<close>, \<open>encode_data\<close>), the receive buffer of
    \<open>udp_handler\<close> (\<open>rx_buffer\<close>), its \<open>sscanf\<close> formats
    (\<open>hello_fmt\<close>, \<open>data_fmt\<close>, \<open>parse_hello\<close>, \<open>parse_data\<close>) and
    its prefix tests (\<open>classify\<close>).
  \<^item> \<open>Transport\<close>: the UDP socket (\<open>udp_open_bind\<close>, the open/bind part of
    \<open>thread_comm_init\<close>) and the send sequence \<open>otUdpNewMessage\<close>,
    \<open>otMessageAppend\<close>, \<open>otUdpSend\<close>: as \<open>udp_send\<close>, the abstraction
    the engine is written against, and as \<open>udp_send_ot\<close>, with OpenThread's
    pool of message buffers and the unchecked results of the last two calls.
    OpenThread is an external collaborator: the outcome of each call that can
    fail is a parameter.
  \<^item> \<open>Engine\<close>: the module state \<open>comm_state\<close> (\<open>socket\<close>,
    \<open>self_id\<close>, \<open>self_role\<close>, \<open>nodes\<close>, \<open>rx_cb\<close>) and the functions
    \<open>thread_comm_init\<close>, \<open>thread_comm_announce\<close>, \<open>thread_comm_send\<close>,
    \<open>thread_comm_register_rx_cb\<close>, \<open>udp_handler\<close>. What a function hands to
    its environment is an \<open>event\<close>: a datagram or a callback invocation.
  \<^item> \<open>Apps\<close>: the two node programs as clients of the module: each call
    they make under the OpenThread lock is one \<open>api_call\<close>, run by
    \<open>run_calls\<close>; \<open>node1_boot\<close>/\<open>node1_app\<close> are node 1's
    \<open>ot_task_worker\<close> and \<open>app_task\<close>, \<open>node2_boot\<close>/\<open>node2_app\<close>
    node 2's. The endless task loops are modelled by their first \<open>n\<close>
    rounds (node 1) or by the list of device roles read in successive rounds
    (node 2): every finite prefix of a run is covered. \<open>node1_worker\<close>
    and \<open>node2_worker\<close> are the whole \<open>ot_task_worker\<close>s from the dataset
    on, followed by the app task's calls. The callbacks
    \<open>on_thread_data\<close> of both programs are \<open>on_thread_data1\<close> and
    \<open>on_thread_data2\<close>, the lines they log; \<open>callback_line\<close> is the call
    through the registered function pointer. \<open>node1_worker_log\<close>,
    \<open>node1_app_log\<close>, \<open>node2_worker_log\<close> and \<open>node2_app_log\<close> are
    the log lines of the tasks, the module's lines included.
  \<^item> \<open>Dataset\<close>: the \<open>otOperationalDataset\<close> each \<open>ot_task_worker\<close>
    builds after \<open>memset\<close> (\<open>node1_dataset\<close>, \<open>node2_dataset\<close>), and the
    \<open>Start Thread\<close> block (\<open>ot_thread_start\<close>) on an abstract instance.
  \<^item> \<open>Mesh\<close>: any number of nodes on the mesh, as the inductive step relation
    \<open>mesh_step\<close> over the engine states of the nodes (a map from address to
    \<open>comm_state\<close>) and a multiset of datagrams in flight; one step is one
    engine call of one node or the delivery, loss or injection of a datagram.
    Delivery is unordered, lossy and duplicating, which is what the
    specification assumes of the transport. \<open>mesh_reach\<close> is reachability
    from the boot state; \<open>announced\<close> is a ghost set of the nodes that have
    called \<open>thread_comm_announce\<close>.
  \<^item> \<open>Programs\<close>: the two node programs as they run on the mesh. A
    \<open>pnode\<close> holds a node's engine state and the calls left in its two
    tasks: \<open>worker\<close>, the boot calls \<open>ot_task_worker\<close> makes under the
    OpenThread lock, and \<open>app\<close>, the calls of \<open>app_task\<close>
    (\<open>node_programs\<close> takes both lists from \<open>Apps\<close>). The relation
    \<open>pstep\<close> runs one call atomically (every call is made with the lock
    held), lets \<open>app_task\<close> run and the mainloop deliver datagrams only once
    the worker has finished (both start at the end of \<open>ot_task_worker\<close>),
    and loses datagrams in flight. \<open>pabs\<close> maps a program state to a
    \<open>Mesh\<close> state; \<open>pnet_run\<close> with \<open>run_ok\<close> executes a given
    schedule so that a concrete run is checked by evaluation.
  \<^item> \<open>Logging\<close>: the \<open>ESP_LOGI\<close>/\<open>ESP_LOGW\<close>/\<open>ESP_LOGE\<close>
    lines of \<open>thread_comm.c\<close> (tag \<open>THREAD_COMM\<close>), one function per
    operation (\<open>thread_comm_init_log\<close>, \<open>thread_comm_announce_log\<close>,
    \<open>thread_comm_send_log\<close>, \<open>register_node_log\<close>,
    \<open>udp_handler_log\<close>) giving the lines it writes, computed from the
    outcome of the engine function on the same input. The \<open>%d\<close> and
    \<open>%04x\<close> conversions are written out (\<open>fmt_dec\<close>,
    \<open>fmt_hex4\<close>), and \<open>m16[7]\<close> of an address (\<open>m16_7\<close>) is
    read with word operations as the little-endian ESP32 reads it.
  \<^item> \<open>Platform\<close>: the ESP-IDF start-up of both programs: \<open>app_main\<close>
    (four calls under \<open>ESP_ERROR_CHECK\<close>, then \<open>xTaskCreate\<close> of the
    worker), \<open>init_openthread_netif\<close> (with its \<open>assert\<close>) and the start
    of \<open>ot_task_worker\<close> (\<open>ot_platform_init\<close>, \<open>node2_platform_init\<close>,
    which also silences the \<open>OPENTHREAD\<close> log tag). An abort is the
    \<open>Inl\<close> of a sum (\<open>abort_reason\<close>, sequenced by \<open>abort_bind\<close>);
    the results of the ESP-IDF and FreeRTOS calls are the parameter
    \<open>esp_env\<close>, their effects the record \<open>esp_platform\<close> (services
    initialised, tasks created, interfaces, default interface, log levels).
    \<open>node1_main\<close> and \<open>node2_main\<close> compose a node's whole start: the
    scheduler runs a task only if \<open>xTaskCreate\<close> created it, whose result
    both programs ignore.
  \<^item> \<open>Timing\<close>: the delays of the tasks. Each task is a list of
    \<open>tstep\<close>s, \<open>Delay ms\<close> for \<open>vTaskDelay(pdMS_TO_TICKS(ms))\<close> and
    \<open>Do c\<close> for a call into the module (\<open>node1_worker_timed\<close>,
    \<open>node1_app_timed\<close>, \<open>node2_worker_timed\<close>, \<open>node2_app_timed\<close>);
    \<open>untimed\<close> erases the delays and \<open>call_times\<close> gives the time of
    each call from the start of the task.

  \<^bold>\<open>What is proved.\<close>
  \<^item> The node table (C2, C8, C11, C27): \<open>register_node\<close> refines a map
    update (\<open>peer_map\<close>), keeps \<open>wf_table\<close>, fails with \<open>TableFull\<close>
    exactly when the identifier is new and all eight slots are taken, and keeps
    one active slot per identifier; \<open>find_node\<close> returns the least matching
    slot; \<open>thread_comm_print_nodes\<close> prints one line per known peer.
  \<^item> The codec (C4, C5, C24): the HELLO and DATA frames a node prints are
    parsed back by the receiver, with the truncations of the formats (role cut
    to 7 characters); a HELLO identifier over 15 characters is cut and loses
    its role.
  \<^item> The engine (C1, C3, C6, C7, C9, C10, C12, C13, C15): \<open>udp_handler\<close>
    preserves \<open>wf_comm\<close> and changes only the table; its behaviour on a HELLO,
    on a HELLO with a full table, on a DATA frame with and without callback, on
    malformed input and on a HELLO whose identifier does not parse; the
    datagram \<open>thread_comm_send\<close> and \<open>thread_comm_announce\<close> produce, and
    the outcomes of \<open>thread_comm_init\<close>.
  \<^item> End to end (C23): what \<open>thread_comm_send\<close> sends reaches the
    receiver's callback with the payload cut to the buffer and at the first
    newline.
  \<^item> The applications (C17, C25, C28, C29, C34): node 1's loop sends one DATA
    frame per send, and node 2 logs each of those payloads, in order, naming
    node 1; node 2's whole program sends its one HELLO iff it joins; node 1's
    whole program, with no HELLO arriving after its boot, fails every send;
    and node 1's log then reports every send as made, after the warning that
    it was not.
  \<^item> The transport (C30): every refused \<open>otUdpSend\<close> leaks a message
    buffer, until the node can send nothing.
  \<^item> The network (C19 to C22): every reachable node state is well-formed; a
    node that never announced is in no table (the reply to a HELLO is a DATA
    frame, so registration is not mutual); the exchange a datagram starts ends
    after one reply; entries are only lost by re-initialisation.
  \<^item> The programs (C31, C32): every state the two programs reach refines a
    reachable \<open>Mesh\<close> state, so all the network invariants hold of them;
    once both boots are over, with node 1's loop only sending and no HELLO in
    flight, a node that does not know a peer never learns it, on any schedule.
  \<^item> The start-up (C14, C16): a node aborts at power-on exactly when a
    checked call fails, naming the first failing call in program order; when
    none fails, it runs the module calls of \<open>Apps\<close> on an instance with its
    dataset and one attached default interface, but a task that cannot be
    created is silently missing (no worker: no call at all; no app task: only
    the boot calls). The lemma \<open>programs_from_power_on\<close> shows that with
    every platform call succeeding the nodes start exactly the programs of
    \<open>node_programs\<close>, so C31 and C32 hold of the programs from power-on.
  \<^item> Logging (C18, C26): the log of a HELLO is the buffer and then
    \<open>Node registered\<close> exactly when the table took the sender, else only the
    reply's \<open>not found\<close> warning; every other datagram, malformed ones
    included, is logged twice, the second line with the last address group
    byte-swapped.
  \<^item> Timing (C33): node 1's worker calls \<open>thread_comm_init\<close> 20 s after it
    starts; node 2 announces once, \<open>1000 k\<close> ms after its start for the
    first round \<open>k\<close> in which it is a child; the HELLO comes before node 1
    has a socket exactly when node 2 starts less than \<open>20000 - 1000 k\<close> ms
    after node 1. With both powered on together and node 2 a child within 20
    rounds, node 2's only HELLO is therefore gone before node 1 can receive
    it, which is the situation of C32: node 1 never learns \<open>node_2\<close>. The
    lemma \<open>untimed_tasks\<close> shows that erasing the delays gives exactly the
    call lists of \<open>Apps\<close>.

  \<^bold>\<open>Bounds.\<close> The constants are those of \<open>thread_comm.h\<close>
  (\<open>MAX_NODES = 8\<close>, \<open>NODE_ID_LEN = 16\<close>, \<open>PAYLOAD_LEN = 128\<close>) and of the
  buffers in \<open>thread_comm.c\<close> (HELLO buffer 64, receive buffer 128 of which
  127 bytes are read). Both table loops are \<open>function\<close>s with the measure
  \<open>MAX_NODES - i\<close>, so they terminate without fuel. No fuel is used anywhere.

  \<^bold>\<open>Not modelled.\<close> The mesh radio stack, OpenThread's TLV conversion of
  the dataset and the attach procedure, and the inside of the ESP-IDF calls
  (NVS, event loop, netif, eventfd, OpenThread platform): they are external
  collaborators, of which only the result and the visible effect of each call
  is modelled. The filtering of log lines by level is ESP-IDF's and is not
  modelled: the logs are the lines the code writes. \<open>otIp6AddressToString\<close> is a parameter of the callback model. The
  \<open>!msg || !info\<close> guard of \<open>udp_handler\<close> is not modelled: OpenThread
  never passes null pointers to a receive callback. The delays are modelled
  per task (\<open>Timing\<close>), but the network model (\<open>Programs\<close>) does not
  use them: it allows every interleaving, which includes every timed one, so
  its safety results hold of the timed programs as well. How fast OpenThread
  attaches and delivers is the stack's and is not modelled. A group of
  calls made under one acquisition of the lock is split into single atomic
  calls, which again only adds interleavings. The programs' loops are
  unrolled to a finite number of rounds (a parameter of \<open>node_programs\<close>).
\<close>

section \<open>Addresses\<close>

text \<open>\<open>fd00::2\<close>, the address of node 2 in the runs below.\<close>

definition FD00_2 :: ip6_addr where
  "FD00_2 = 0xFD000000000000000000000000000002"

text \<open>\<open>fd00::1\<close>, the address of node 1 in the two-node run below.\<close>

definition FD00_1 :: ip6_addr where
  "FD00_1 = 0xFD000000000000000000000000000001"

section \<open>A two-node run\<close>

text \<open>
  Both nodes initialise as their programs do (node 2 registers its callback),
  node 2 announces, node 1 receives the HELLO and replies, node 2 receives the
  reply; then node 1 announces and node 2 receives that HELLO.
\<close>

definition n1_init :: comm_state where
  "n1_init = snd (thread_comm_init OT_ERROR_NONE OT_ERROR_NONE ''node_1'' ''receiver'' comm_boot)"

definition n2_init :: comm_state where
  "n2_init = snd (thread_comm_init OT_ERROR_NONE OT_ERROR_NONE ''node_2'' ''receiver'' comm_boot)"

definition n2_ready :: comm_state where
  "n2_ready = thread_comm_register_rx_cb (Some NODE2_CB) n2_init"

definition hello_1 :: dgram where
  "hello_1 = \<lparr>dst = MCAST_ALL_NODES, dport = THREAD_COMM_PORT, data = ''HELLO|id=node_1|role=receiver''\<rparr>"

definition hello_2 :: dgram where
  "hello_2 = \<lparr>dst = MCAST_ALL_NODES, dport = THREAD_COMM_PORT, data = ''HELLO|id=node_2|role=receiver''\<rparr>"

definition reply_1 :: dgram where
  "reply_1 = \<lparr>dst = FD00_2, dport = THREAD_COMM_PORT, data = ''DATA|from=node_1|HELLO|id=node_1|role=receiver''\<rparr>"

text \<open>Node 1 after node 2's HELLO; node 2 after node 1's reply, and after node 1's HELLO.\<close>

definition n1_knows :: comm_state where
  "n1_knows = fst (udp_handler True (data hello_2) FD00_2 n1_init)"

definition n2_replied :: comm_state where
  "n2_replied = fst (udp_handler True (data reply_1) FD00_1 n2_ready)"

definition n2_knows :: comm_state where
  "n2_knows = fst (udp_handler True (data hello_1) FD00_1 n2_replied)"

definition run_m1 :: mesh where
  "run_m1 = (mesh_init [FD00_1, FD00_2])\<lparr>nst := (nst (mesh_init [FD00_1, FD00_2]))(FD00_1 \<mapsto> n1_init)\<rparr>"

definition run_m2 :: mesh where
  "run_m2 = run_m1\<lparr>nst := (nst run_m1)(FD00_2 \<mapsto> n2_init)\<rparr>"

definition run_m3 :: mesh where
  "run_m3 = run_m2\<lparr>nst := (nst run_m2)(FD00_2 \<mapsto> n2_ready)\<rparr>"

definition run_m4 :: mesh where
  "run_m4 = run_m3\<lparr>flight := add_mset (FD00_2, hello_2) (flight run_m3), announced := insert FD00_2 (announced run_m3)\<rparr>"

definition run_m5 :: mesh where
  "run_m5 = run_m4\<lparr>nst := (nst run_m4)(FD00_1 \<mapsto> n1_knows),
                   flight := flight run_m4 + mset (map (Pair FD00_1) (tx_events (snd (udp_handler True (data hello_2) FD00_2 n1_init))))\<rparr>"

definition run_m6 :: mesh where
  "run_m6 = run_m5\<lparr>nst := (nst run_m5)(FD00_2 \<mapsto> n2_replied),
                   flight := flight run_m5 + mset (map (Pair FD00_2) (tx_events (snd (udp_handler True (data reply_1) FD00_1 n2_ready))))\<rparr>"

definition run_m7 :: mesh where
  "run_m7 = run_m6\<lparr>flight := add_mset (FD00_1, hello_1) (flight run_m6), announced := insert FD00_1 (announced run_m6)\<rparr>"

definition run_m8 :: mesh where
  "run_m8 = run_m7\<lparr>nst := (nst run_m7)(FD00_2 \<mapsto> n2_knows),
                   flight := flight run_m7 + mset (map (Pair FD00_2) (tx_events (snd (udp_handler True (data hello_1) FD00_1 n2_replied))))\<rparr>"

section \<open>The node programs from power-on\<close>

text \<open>An ESP-IDF environment in which every platform call succeeds and every
  task can be created.\<close>

definition esp_env_ok :: esp_env where
  "esp_env_ok = \<lparr>nvs_err = ESP_OK, loop_err = ESP_OK, netif_init_err = ESP_OK, eventfd_err = ESP_OK,
     ot_init_err = ESP_OK, netif_alloc = True, attach_err = ESP_OK, task_ok = (\<lambda>_. True)\<rparr>"

section \<open>The programs with a lost HELLO\<close>

text \<open>
  The two programs from power-on (node 1 runs one round of its send loop,
  node 2 is a child at its first check): node 2 boots, joins and announces;
  its HELLO is lost (node 1 has not finished its boot sequence, so its
  mainloop does not run yet); then node 1 makes its six boot calls.
\<close>

definition lost_hello_run :: "pact list" where
  "lost_hello_run =
     [Call FD00_2 True, Call FD00_2 True, Call FD00_2 False, Drop FD00_2 hello_2] @
     replicate 6 (Call FD00_1 True)"

definition lost_hello_net :: pnet where
  "lost_hello_net = pnet_run (pnet_init (node_programs FD00_1 FD00_2 1 [RoleChild])) lost_hello_run"

section \<open>The two-node run\<close>

lemma fd00_distinct [simp]: "FD00_1 \<noteq> FD00_2" "FD00_2 \<noteq> FD00_1"
  by (simp_all add: FD00_1_def FD00_2_def)

lemma run_nodes [simp]:
  "nst run_m4 FD00_1 = Some n1_init" "nst run_m5 FD00_2 = Some n2_ready"
  "nst run_m6 FD00_1 = Some n1_knows" "nst run_m6 FD00_2 = Some n2_replied"
  "nst run_m7 FD00_2 = Some n2_replied" "nst run_m8 FD00_1 = Some n1_knows"
  "nst run_m8 FD00_2 = Some n2_knows"
  by (simp_all add: run_m8_def run_m7_def run_m6_def run_m5_def run_m4_def run_m3_def run_m2_def run_m1_def)

lemma run_replies:
  "snd (udp_handler True (data hello_2) FD00_2 n1_init) = [Tx reply_1]"
  "snd (udp_handler True (data reply_1) FD00_1 n2_ready) =
     [RxCallback NODE2_CB ''node_1'' ''HELLO|id=node_1|role=receiver'' FD00_1]"
  by code_simp+

lemma run_reach_m4: "mesh_reach [FD00_1, FD00_2] run_m4"
proof -
  have "mesh_reach [FD00_1, FD00_2] run_m1"
    unfolding run_m1_def n1_init_def by (rule reach_init [OF mesh_reach.start]) (simp add: mesh_init_def)
  then have "mesh_reach [FD00_1, FD00_2] run_m2"
    unfolding run_m2_def n2_init_def by (rule reach_init) (simp add: run_m1_def mesh_init_def)
  then have r3: "mesh_reach [FD00_1, FD00_2] run_m3"
    unfolding run_m3_def n2_ready_def by (rule reach_register_cb) (simp add: run_m2_def)
  have a: "thread_comm_announce True n2_ready = Inr hello_2" by code_simp
  show ?thesis
    unfolding run_m4_def by (rule reach_announce [OF r3 _ a]) (simp add: run_m3_def)
qed

lemma run_reach_m6: "mesh_reach [FD00_1, FD00_2] run_m6"
proof -
  have b: "sock n1_init = SockBound" "sock n2_ready = SockBound" by code_simp+
  have "mesh_reach [FD00_1, FD00_2] run_m5"
    unfolding run_m5_def n1_knows_def
    by (rule reach_deliver [OF run_reach_m4 _ run_nodes(1) _ _ _ b(1)]) (simp_all add: run_m4_def hello_2_def)
  then show ?thesis
    unfolding run_m6_def n2_replied_def
    by (rule reach_deliver [OF _ _ run_nodes(2) _ _ _ b(2)]) (simp_all add: run_m5_def run_replies reply_1_def)
qed



section \<open>The lost HELLO run\<close>

text \<open>The programs the network model runs are what the two nodes start from
  power-on: with every platform call succeeding, \<open>node1_main\<close> and
  \<open>node2_main\<close> make exactly the worker and app calls of
  \<open>node_programs\<close>, on instances running their datasets.\<close>

lemma programs_from_power_on:
  "\<exists>p1 p2.
     node1_main esp_env_ok OT_ERROR_NONE OT_ERROR_NONE True n platform_reset inst1 =
       Inr (p1, ot_thread_start node1_dataset inst1,
            fst (snd (node_programs a1 a2 n rs ! 0)) @ snd (snd (node_programs a1 a2 n rs ! 0))) \<and>
     node2_main esp_env_ok OT_ERROR_NONE OT_ERROR_NONE True rs platform_reset inst2 =
       Inr (p2, ot_thread_start node2_dataset inst2,
            fst (snd (node_programs a1 a2 n rs ! 1)) @ snd (snd (node_programs a1 a2 n rs ! 1)))"
  by (simp add: node1_main_def node2_main_def app_main_eq ot_platform_init_eq node2_platform_init_eq
      esp_log_level_set_def app_main_checks_def worker_checks_def esp_env_ok_def node_programs_def
      app_task_spec_def Let_def)

lemma lost_hello_reach:
  "pnet_reach (node_programs FD00_1 FD00_2 1 [RoleChild]) lost_hello_net"
proof -
  have "run_ok (pnet_init (node_programs FD00_1 FD00_2 1 [RoleChild])) lost_hello_run" by code_simp
  from reach_path [OF run_ok_path [OF this] pnet_reach.start] show ?thesis
    by (simp add: lost_hello_net_def)
qed

section \<open>Witnesses\<close>

theorem mesh_reach_wf_witness: "wf_comm n1_knows"
  using mesh_reach_wf [OF run_reach_m6 run_nodes(3)] .

theorem mesh_unannounced_unknown_witness: "eid (nodes n1_knows ! 0) \<noteq> FD00_1"
proof -
  have nn: "nst run_m6 FD00_1 \<noteq> None" by simp
  have na: "FD00_1 \<notin> announced run_m6"
    by (simp add: run_m6_def run_m5_def run_m4_def run_m3_def run_m2_def run_m1_def mesh_init_def)
  have len: "0 < length (nodes n1_knows)" by code_simp
  have act: "active (nodes n1_knows ! 0)" by code_simp
  show ?thesis
    by (rule mesh_unannounced_unknown [OF run_reach_m6 nn na run_nodes(3) nth_mem [OF len] act])
qed

theorem reply_exchange_ends_witness:
  "length (tx_events (snd (udp_handler True (data hello_2) FD00_2 n1_init))) \<le> 1 \<and>
   tx_events (snd (udp_handler True (data reply_1) FD00_1 n2_ready)) = []"
proof -
  have "reply_1 \<in> set (tx_events (snd (udp_handler True (data hello_2) FD00_2 n1_init)))"
    by (simp add: run_replies(1))
  then show ?thesis
    using reply_exchange_ends [OF surjective_pairing [of "udp_handler True (data hello_2) FD00_2 n1_init"]]
    by auto
qed


theorem programs_refine_mesh_witness: "mesh_reach [FD00_1, FD00_2] (pabs lost_hello_net)"
  using programs_refine_mesh [OF lost_hello_reach] by (simp add: node_programs_def)

theorem quiet_no_discovery_witness:
  "\<exists>x'. pn (pnet_run lost_hello_net [Call FD00_1 False, Call FD00_1 False, Call FD00_1 False]) FD00_1 = Some x' \<and>
     peer_map (nodes (st x')) ''node_2'' = None"
proof -
  have dom: "\<forall>a. pn lost_hello_net a \<noteq> None \<longrightarrow> a \<in> set [FD00_1, FD00_2]"
    using pnet_reach_dom [OF lost_hello_reach] by (simp add: node_programs_def)
  have "quiet_check ''node_2'' [FD00_1, FD00_2] lost_hello_net" by code_simp
  from quiet_check_net [OF dom this] have q: "quiet_net ''node_2'' lost_hello_net" .
  obtain x where x: "pn lost_hello_net FD00_1 = Some x" "peer_map (nodes (st x)) ''node_2'' = None"
  proof -
    have "map_option (\<lambda>x. peer_map (nodes (st x)) ''node_2'') (pn lost_hello_net FD00_1) = Some None"
      by code_simp
    then show thesis using that by (cases "pn lost_hello_net FD00_1") auto
  qed
  have "run_ok lost_hello_net [Call FD00_1 False, Call FD00_1 False, Call FD00_1 False]" by code_simp
  from quiet_no_discovery [OF q x run_ok_path [OF this]] show ?thesis .
qed

end
